theory Spec2Isabelle
  imports Main
begin

section \<open>JavaScript values and strings\<close>

text \<open>
  The server (\<^verbatim>\<open>src/server.js\<close>, class \<^verbatim>\<open>DSGutachtenServer\<close>) receives the parsed JSON
  body of a form submission. A field value is any JSON value: a string, a number, a
  boolean, \<^verbatim>\<open>null\<close>, an array or an object; an absent field (\<^verbatim>\<open>undefined\<close>) is \<open>None\<close> in a
  lookup. A JavaScript string is a sequence of UTF-16 code units; the model has the code
  units below 256, one \<^typ>\<open>char\<close> each. The source never computes with a number: it tests
  it for truth and converts it to text. \<open>JNum s\<close> is the number for which \<^verbatim>\<open>String\<close> gives
  the text \<open>s\<close>, so \<open>JNum ''0''\<close> is zero (and minus zero). \<open>JObj ps\<close> is the object with the
  own properties \<open>ps\<close>, in the order of \<^verbatim>\<open>Object.keys\<close>, with distinct keys; its prototype
  is \<^verbatim>\<open>Object.prototype\<close>, as \<^verbatim>\<open>JSON.parse\<close> makes it.
\<close>

datatype jsval =
    JStr string
  | JNum string
  | JBool bool
  | JNull
  | JArr "jsval list"
  | JObj "(string \<times> jsval) list"

datatype js_error = Error string | TypeError string

fun message :: "js_error \<Rightarrow> string" where
  "message (Error m) = m"
| "message (TypeError m) = m"

text \<open>Truthiness, as \<^verbatim>\<open>!x\<close>, \<^verbatim>\<open>x || y\<close> and \<^verbatim>\<open>if (x)\<close> test it; \<^verbatim>\<open>undefined\<close> is falsy.\<close>

fun truthy :: "jsval \<Rightarrow> bool" where
  "truthy (JStr s) = (s \<noteq> [])"
| "truthy (JNum s) = (s \<noteq> ''0'')"
| "truthy (JBool b) = b"
| "truthy JNull = False"
| "truthy (JArr xs) = True"
| "truthy (JObj ps) = True"

definition truthy_opt :: "jsval option \<Rightarrow> bool" where
  "truthy_opt x = (case x of None \<Rightarrow> False | Some v \<Rightarrow> truthy v)"

text \<open>\<^verbatim>\<open>a || b\<close> on field values.\<close>

definition js_or :: "jsval option \<Rightarrow> jsval option \<Rightarrow> jsval option" where
  "js_or a b = (if truthy_opt a then a else b)"

text \<open>Sequencing of steps that may raise: the first error ends the sequence.\<close>

definition attempt :: "js_error + 'a \<Rightarrow> ('a \<Rightarrow> js_error + 'b) \<Rightarrow> js_error + 'b" where
  "attempt m f = (case m of Inl e \<Rightarrow> Inl e | Inr x \<Rightarrow> f x)"

fun collect :: "(js_error + 'a) list \<Rightarrow> js_error + 'a list" where
  "collect [] = Inr []"
| "collect (m # ms) = attempt m (\<lambda>x. attempt (collect ms) (\<lambda>xs. Inr (x # xs)))"

text \<open>\<^verbatim>\<open>parts.join(',')\<close>.\<close>

fun join :: "string list \<Rightarrow> string" where
  "join [] = []"
| "join [s] = s"
| "join (s # t # ss) = s @ '','' @ join (t # ss)"

text \<open>
  The conversion of a value to a string, as a template literal \<^verbatim>\<open>`${x}`\<close> does it. An
  array is joined with commas, \<^verbatim>\<open>null\<close> elements giving the empty string. An object is
  converted by its \<^verbatim>\<open>toString\<close>: the inherited one gives \<^verbatim>\<open>[object Object]\<close>; an own
  property of that name, which in a JSON value is never a function, makes the conversion
  raise.
\<close>

fun as_text :: "jsval \<Rightarrow> js_error + string" where
  "as_text (JStr s) = Inr s"
| "as_text (JNum s) = Inr s"
| "as_text (JBool b) = Inr (if b then ''true'' else ''false'')"
| "as_text JNull = Inr ''null''"
| "as_text (JArr xs) =
     attempt (collect (map (\<lambda>x. if x = JNull then Inr [] else as_text x) xs)) (\<lambda>ss. Inr (join ss))"
| "as_text (JObj ps) =
     (if ''toString'' \<in> set (map fst ps)
      then Inl (TypeError ''Cannot convert object to primitive value'')
      else Inr ''[object Object]'')"

definition template :: "jsval option \<Rightarrow> js_error + string" where
  "template x = (case x of None \<Rightarrow> Inr ''undefined'' | Some v \<Rightarrow> as_text v)"

text \<open>
  The method call \<^verbatim>\<open>x.toString()\<close>. It differs from the conversion on \<^verbatim>\<open>null\<close>, which has
  no properties, and in the error for an object with an own \<^verbatim>\<open>toString\<close> property.
\<close>

fun toString :: "jsval \<Rightarrow> js_error + string" where
  "toString JNull = Inl (TypeError ''Cannot read properties of null (reading 'toString')'')"
| "toString (JObj ps) =
     (if ''toString'' \<in> set (map fst ps)
      then Inl (TypeError ''data[field].toString is not a function'')
      else Inr ''[object Object]'')"
| "toString v = as_text v"

text \<open>
  \<^verbatim>\<open>String.prototype.trim\<close> removes white space and line terminators at both ends. Below
  256 these are U+0009 to U+000D, U+0020 and U+00A0.
\<close>

definition is_whitespace :: "char \<Rightarrow> bool" where
  "is_whitespace c = (c \<in> set [CHR 0x09, CHR 0x0A, CHR 0x0B, CHR 0x0C, CHR 0x0D, CHR 0x20, CHR 0xA0])"

definition trim :: "string \<Rightarrow> string" where
  "trim s = rev (dropWhile is_whitespace (rev (dropWhile is_whitespace s)))"

text \<open>\<^verbatim>\<open>s.split(c)\<close> for a one-character separator: never empty, \<^verbatim>\<open>"".split(c)\<close> is \<^verbatim>\<open>[""]\<close>.\<close>

fun split :: "char \<Rightarrow> string \<Rightarrow> string list" where
  "split c [] = [[]]"
| "split c (x # xs) =
     (if x = c then [] # split c xs
      else (case split c xs of [] \<Rightarrow> [[x]] | p # ps \<Rightarrow> (x # p) # ps))"

text \<open>\<^verbatim>\<open>xs[i]\<close> on an array: \<^verbatim>\<open>undefined\<close> out of range.\<close>

definition at :: "'a list \<Rightarrow> nat \<Rightarrow> 'a option" where
  "at xs i = (if i < length xs then Some (xs ! i) else None)"

text \<open>\<^verbatim>\<open>String(n)\<close> for a non-negative integer, and \<^verbatim>\<open>s.slice(-6)\<close>.\<close>

definition digit_char :: "nat \<Rightarrow> char" where
  "digit_char d = ''0123456789'' ! d"

function String_of_nat :: "nat \<Rightarrow> string" where
  "String_of_nat n =
     (if n < 10 then [digit_char n] else String_of_nat (n div 10) @ [digit_char (n mod 10)])"
  by pat_completeness auto
termination
  by (relation "measure (\<lambda>n. n)") auto

declare String_of_nat.simps [simp del]

definition slice_last6 :: "string \<Rightarrow> string" where
  "slice_last6 s = drop (length s - 6) s"

section \<open>Field normalisation\<close>

text \<open>
  A raw submission is the list of the own keys of the body, in the order of
  \<^verbatim>\<open>Object.keys\<close>, each with its value; the keys of an object are distinct. The code after
  \<^verbatim>\<open>normalizeFormData\<close> only reads properties of the normalised record, so the record is
  given to it as a map: what a read of each name returns.
\<close>

type_synonym raw_form = "(string \<times> jsval) list"
type_synonym form_data = "string \<rightharpoonup> jsval"

text \<open>
  \<^verbatim>\<open>fieldMapping[key] || key\<close> reads \<^verbatim>\<open>fieldMapping\<close>, an object literal with the one own
  property \<^verbatim>\<open>gutachtenNr\<close>. A read of any other name goes to \<^verbatim>\<open>Object.prototype\<close>, whose
  members are functions (and, for \<^verbatim>\<open>__proto__\<close>, the prototype object itself): truthy
  values, which the assignment \<^verbatim>\<open>normalized[mappedKey] = value\<close> converts to a property
  name with \<^verbatim>\<open>String\<close>.
\<close>

definition object_prototype_names :: "string list" where
  "object_prototype_names =
     [''constructor'', ''__defineGetter__'', ''__defineSetter__'', ''hasOwnProperty'',
      ''__lookupGetter__'', ''__lookupSetter__'', ''isPrototypeOf'', ''propertyIsEnumerable'',
      ''toString'', ''valueOf'', ''__proto__'', ''toLocaleString'']"

definition inherited_as_key :: "string \<Rightarrow> string" where
  "inherited_as_key k =
     (if k = ''__proto__'' then ''[object Object]''
      else if k = ''constructor'' then ''function Object() { [native code] }''
      else ''function '' @ k @ ''() { [native code] }'')"

definition fieldMapping :: "string \<Rightarrow> string option" where
  "fieldMapping key =
     (if key = ''gutachtenNr'' then Some ''gutachten_nr''
      else if key \<in> set object_prototype_names then Some (inherited_as_key key)
      else None)"

text \<open>The key under which \<^verbatim>\<open>normalizeFormData\<close> stores the value of \<^verbatim>\<open>key\<close>.\<close>

definition replace_dots :: "string \<Rightarrow> string" where
  "replace_dots key = map (\<lambda>c. if c = CHR ''.'' then CHR ''_'' else c) key"

definition normalizedKey :: "string \<Rightarrow> string" where
  "normalizedKey key =
     (if CHR ''.'' \<in> set key then
        (let parts = split (CHR ''.'') key in
         if length parts = 2 then (parts ! 0) @ ''_'' @ (parts ! 1)
         else replace_dots key)
      else (case fieldMapping key of Some mapped \<Rightarrow> mapped | None \<Rightarrow> key))"

text \<open>
  The object \<^verbatim>\<open>normalized\<close> while it is filled: its own properties and its prototype. It
  starts as \<^verbatim>\<open>{}\<close>, with \<^verbatim>\<open>Object.prototype\<close>. An assignment to the name \<^verbatim>\<open>__proto__\<close> reaches
  the accessor of \<^verbatim>\<open>Object.prototype\<close>, which replaces the prototype when the value is an
  object, an array or \<^verbatim>\<open>null\<close> and does nothing for any other value. The accessor is not
  reached, and an own property is written, when the object already has an own property
  of that name, when its prototype was set to \<^verbatim>\<open>null\<close>, or when its prototype is an object
  with an own property \<^verbatim>\<open>__proto__\<close> (which \<^verbatim>\<open>JSON.parse\<close> creates as a plain property).
\<close>

datatype jsproto =
    ObjectPrototype
  | NoPrototype
  | ProtoObject "(string \<times> jsval) list"
  | ProtoArray "jsval list"

record jsobject =
  own :: form_data
  proto :: jsproto

definition empty_object :: jsobject where
  "empty_object = \<lparr>own = Map.empty, proto = ObjectPrototype\<rparr>"

definition set_prototype :: "jsobject \<Rightarrow> jsval \<Rightarrow> jsobject" where
  "set_prototype obj v =
     (case v of
        JNull \<Rightarrow> obj\<lparr>proto := NoPrototype\<rparr>
      | JObj ps \<Rightarrow> obj\<lparr>proto := ProtoObject ps\<rparr>
      | JArr xs \<Rightarrow> obj\<lparr>proto := ProtoArray xs\<rparr>
      | _ \<Rightarrow> obj)"

definition accessor_reached :: "jsobject \<Rightarrow> bool" where
  "accessor_reached obj =
     (own obj ''__proto__'' = None \<and>
      (case proto obj of
         ObjectPrototype \<Rightarrow> True
       | NoPrototype \<Rightarrow> False
       | ProtoObject ps \<Rightarrow> ''__proto__'' \<notin> set (map fst ps)
       | ProtoArray xs \<Rightarrow> True))"

definition obj_set :: "jsobject \<Rightarrow> string \<Rightarrow> jsval \<Rightarrow> jsobject" where
  "obj_set obj k v =
     (if k = ''__proto__'' \<and> accessor_reached obj then set_prototype obj v
      else obj\<lparr>own := (own obj)(k \<mapsto> v)\<rparr>)"

text \<open>
  A read \<^verbatim>\<open>obj[k]\<close>: the own property, or else the property of the prototype. The names
  the program reads are not names of members of \<^verbatim>\<open>Object.prototype\<close> or
  \<^verbatim>\<open>Array.prototype\<close>, and not indices; for such names only an object as prototype
  contributes, with its own properties.
\<close>

definition obj_get :: "jsobject \<Rightarrow> string \<Rightarrow> jsval option" where
  "obj_get obj k =
     (case own obj k of
        Some v \<Rightarrow> Some v
      | None \<Rightarrow> (case proto obj of ProtoObject ps \<Rightarrow> map_of ps k | _ \<Rightarrow> None))"

fun normalize_keys :: "raw_form \<Rightarrow> jsobject \<Rightarrow> jsobject" where
  "normalize_keys [] normalized = normalized"
| "normalize_keys ((key, v) # rest) normalized =
     normalize_keys rest (obj_set normalized (normalizedKey key) v)"

text \<open>What the reads of \<^verbatim>\<open>normalized\<close> return after the loop over the keys.\<close>

definition normalized_fields :: "raw_form \<Rightarrow> form_data" where
  "normalized_fields data = obj_get (normalize_keys data empty_object)"

text \<open>
  The generated order number, from \<^verbatim>\<open>new Date().getFullYear()\<close> and \<^verbatim>\<open>Date.now()\<close>
  (milliseconds since the epoch).
\<close>

definition generated_nr :: "nat \<Rightarrow> nat \<Rightarrow> string" where
  "generated_nr year now = ''DS-'' @ String_of_nat year @ ''-'' @ slice_last6 (String_of_nat now)"

text \<open>
  \<^verbatim>\<open>normalizeFormData\<close>. The last assignment, to \<^verbatim>\<open>gutachten_nr\<close>, writes an own property,
  which a read then returns.
\<close>

definition normalizeFormData :: "nat \<Rightarrow> nat \<Rightarrow> raw_form \<Rightarrow> form_data" where
  "normalizeFormData year now data =
     (let normalized = normalized_fields data in
      if \<not> truthy_opt (normalized ''gutachten_nr'')
      then normalized(''gutachten_nr'' \<mapsto> JStr (generated_nr year now))
      else normalized)"

section \<open>Validation\<close>

definition required :: "string list" where
  "required =
     [''gutachten_nr'', ''auftraggeber_name'', ''auftraggeber_adresse'',
      ''auftraggeber_kontakt'', ''auftraggeber_kennzeichen'', ''unfall_tag'', ''unfall_ort'']"

text \<open>
  The test of the loop, \<^verbatim>\<open>!data[field] || data[field].toString().trim() === ''\<close>: it
  rejects the field, accepts it, or raises in \<^verbatim>\<open>toString\<close>.
\<close>

datatype field_check = Accepted | Rejected | Raises js_error

definition check_field :: "form_data \<Rightarrow> string \<Rightarrow> field_check" where
  "check_field data field =
     (case data field of
        None \<Rightarrow> Rejected
      | Some v \<Rightarrow>
          if \<not> truthy v then Rejected
          else (case toString v of
                  Inl e \<Rightarrow> Raises e
                | Inr s \<Rightarrow> if trim s = [] then Rejected else Accepted))"

fun check_required :: "form_data \<Rightarrow> string list \<Rightarrow> js_error + unit" where
  "check_required data [] = Inr ()"
| "check_required data (field # rest) =
     (case check_field data field of
        Rejected \<Rightarrow> Inl (Error (''Erforderliches Feld fehlt: '' @ field))
      | Raises e \<Rightarrow> Inl e
      | Accepted \<Rightarrow> check_required data rest)"

text \<open>
  After the loop the e-mail test has an empty body, but its condition is evaluated:
  \<^verbatim>\<open>data.auftraggeber_kontakt.split('/')\<close> raises when the contact, truthy after the loop,
  is not a string.
\<close>

definition validateFormData :: "form_data \<Rightarrow> js_error + unit" where
  "validateFormData data =
     (case check_required data required of
        Inl e \<Rightarrow> Inl e
      | Inr u \<Rightarrow>
          (case data ''auftraggeber_kontakt'' of
             Some (JStr s) \<Rightarrow> Inr ()
           | Some v \<Rightarrow>
               if truthy v
               then Inl (TypeError ''data.auftraggeber_kontakt.split is not a function'')
               else Inr ()
           | None \<Rightarrow> Inr ()))"

section \<open>The environment of a submission\<close>

text \<open>
  The configuration of the server: its directory (\<^verbatim>\<open>__dirname\<close>, an absolute path), whether
  the two clients were initialised (\<^verbatim>\<open>this.drive\<close>, \<^verbatim>\<open>this.notion\<close>), and the environment
  variables read while a submission is processed. An empty variable is falsy, like an
  unset one.
\<close>

record server =
  dirname :: string
  drive_client :: bool
  notion_client :: bool
  GOOGLE_DRIVE_ROOT_FOLDER :: "string option"
  KONTAKTE_DATABASE_ID :: "string option"
  BUSINESS_RESOURCES_DATABASE_ID :: "string option"

definition env_set :: "string option \<Rightarrow> bool" where
  "env_set v = (case v of None \<Rightarrow> False | Some s \<Rightarrow> s \<noteq> [])"

text \<open>What the clock answers at each place one submission reads it.\<close>

record clock =
  full_year :: nat
  now_normalize :: nat
  iso_timestamp :: string
  now_pdf :: nat
  date_de :: string

text \<open>
  Which outside operation fails during one submission, and with which message. Each
  operation is called at most once per submission. A request that a collaborator
  refuses is a failing call.
\<close>

record faults =
  render_fault :: "string option"
  drive_get_fault :: "string option"
  drive_list_fault :: "string option"
  drive_folder_fault :: "string option"
  drive_upload_fault :: "string option"
  drive_permission_fault :: "string option"
  notion_query_fault :: "string option"
  notion_contact_fault :: "string option"
  notion_resource_fault :: "string option"

text \<open>
  Modelled from the spec: the object store (the Google Drive service behind
  \<^verbatim>\<open>this.drive\<close>) is a third-party collaborator, not code of the repository. It keeps
  folders and files, each with a name and a parent, and names what it creates with
  fresh identifiers.
\<close>

record drive_folder =
  folder_id :: string
  folder_name :: string
  folder_parent :: string

record drive_file =
  file_id :: string
  file_name :: string
  file_parent :: string
  file_body :: string
  file_public :: bool

record drive_store =
  folders :: "drive_folder list"
  stored_files :: "drive_file list"
  root_driveId :: "string option"
  drive_next :: nat

text \<open>
  Modelled from the spec: the record keeper (the Notion service behind \<^verbatim>\<open>this.notion\<close>)
  is a third-party collaborator. It keeps pages in databases, each with the properties
  it was created with, and names a new page with a fresh identifier. The properties are
  those the source builds; where the source puts a field value into them, they hold
  that value.
\<close>

record kontakte_properties =
  k_Name :: jsval
  k_Kennzeichen :: jsval
  k_Email :: string
  k_Phone :: "string option"
  k_Address :: jsval
  k_Bereich :: string
  k_Priority :: string
  k_Archive :: bool

record resource_properties =
  r_Name :: string
  r_Type :: string
  r_Archive :: bool
  r_Favourite :: bool
  r_Link :: "string option"
  r_Kontakte :: "string option"

datatype page_props = Kontakt kontakte_properties | Resource resource_properties

record page =
  page_id :: string
  page_parent :: string
  page_properties :: page_props

record notion_store =
  pages :: "page list"
  notion_next :: nat

text \<open>
  Every call to a collaborator is logged when it is made, with what the source passes,
  whether or not it fails.
\<close>

datatype call =
    Drive_files_get string
  | Drive_files_list string
  | Drive_create_folder "jsval option" string
  | Drive_create_file string string string
  | Drive_permissions_create string
  | Notion_query string "jsval option"
  | Notion_pages_create string page_props

text \<open>
  The world a submission acts on: the directories and the files of the file system
  (absolute paths; the root directory always exists), the two stores, and the log.
\<close>

record world =
  fs_dirs :: "string list"
  fs_files :: "string list"
  drive :: drive_store
  notion :: notion_store
  calls :: "call list"

definition log_call :: "call \<Rightarrow> world \<Rightarrow> world" where
  "log_call c w = w\<lparr>calls := calls w @ [c]\<rparr>"

definition fresh_id :: "nat \<Rightarrow> string" where
  "fresh_id n = ''id'' @ String_of_nat n"

section \<open>Paths and files\<close>

text \<open>
  \<^verbatim>\<open>path.join\<close> on a POSIX system, for an absolute first argument and a second argument
  that does not end in a separator: the two are joined with \<^verbatim>\<open>/\<close> and the result is
  normalised, which drops empty and \<^verbatim>\<open>.\<close> segments and resolves \<^verbatim>\<open>..\<close> against the
  segment before it (at the root, \<^verbatim>\<open>..\<close> is dropped).
\<close>

fun resolve_segments :: "string list \<Rightarrow> string list \<Rightarrow> string list" where
  "resolve_segments [] kept = rev kept"
| "resolve_segments (s # ss) kept =
     (if s = [] \<or> s = ''.'' then resolve_segments ss kept
      else if s = ''..'' then resolve_segments ss (tl kept)
      else resolve_segments ss (s # kept))"

definition path_segments :: "string \<Rightarrow> string list" where
  "path_segments p = resolve_segments (split (CHR ''/'') p) []"

definition path_of :: "string list \<Rightarrow> string" where
  "path_of segs = (if segs = [] then ''/'' else concat (map (\<lambda>s. ''/'' @ s) segs))"

definition path_join :: "string \<Rightarrow> string \<Rightarrow> string" where
  "path_join a b = path_of (path_segments (a @ ''/'' @ b))"

text \<open>The directory a path lies in, and the directories above and including a path.\<close>

definition parent_dir :: "string \<Rightarrow> string" where
  "parent_dir p = path_of (butlast (path_segments p))"

fun paths_down :: "string \<Rightarrow> string list \<Rightarrow> string list" where
  "paths_down base [] = []"
| "paths_down base (s # ss) = (base @ ''/'' @ s) # paths_down (base @ ''/'' @ s) ss"

definition ancestors :: "string \<Rightarrow> string list" where
  "ancestors p = paths_down [] (path_segments p)"

definition dir_exists :: "world \<Rightarrow> string \<Rightarrow> bool" where
  "dir_exists w d = (d = ''/'' \<or> d \<in> set (fs_dirs w))"

text \<open>
  \<^verbatim>\<open>fs.mkdirSync(d, { recursive: true })\<close> creates the directory and the missing
  directories above it; it raises when one of these paths is a file.
\<close>

definition mkdirSync_recursive :: "string \<Rightarrow> world \<Rightarrow> js_error + world" where
  "mkdirSync_recursive d w =
     (if list_ex (\<lambda>a. a \<in> set (fs_files w)) (ancestors d)
      then Inl (Error (''ENOTDIR: not a directory, mkdir '' @ d))
      else Inr (w\<lparr>fs_dirs := fs_dirs w @ filter (\<lambda>a. a \<notin> set (fs_dirs w)) (ancestors d)\<rparr>))"

text \<open>
  \<^verbatim>\<open>fs.createWriteStream(p)\<close> opens the file for writing and creates it when it does not
  exist. The directory it lies in must exist, and the path must not be a directory;
  otherwise the stream emits an error.
\<close>

definition can_open :: "world \<Rightarrow> string \<Rightarrow> bool" where
  "can_open w p = (dir_exists w (parent_dir p) \<and> \<not> dir_exists w p)"

definition create_file :: "string \<Rightarrow> world \<Rightarrow> world" where
  "create_file p w = (if p \<in> set (fs_files w) then w else w\<lparr>fs_files := fs_files w @ [p]\<rparr>)"

section \<open>Document rendering\<close>

text \<open>
  The contact field is split at every \<^verbatim>\<open>/\<close>; the e-mail address is the first part and
  the telephone number the second, each trimmed, and the empty string when missing:
  \<^verbatim>\<open>kontakt.split('/').map(p => p.trim())\<close>, \<^verbatim>\<open>kontaktParts[0] || ''\<close>,
  \<^verbatim>\<open>kontaktParts[1] || ''\<close>.
\<close>

definition part_or_empty :: "string option \<Rightarrow> string" where
  "part_or_empty p = (case p of None \<Rightarrow> [] | Some s \<Rightarrow> s)"

definition pdf_email :: "string \<Rightarrow> string" where
  "pdf_email kontakt = part_or_empty (at (map trim (split (CHR ''/'') kontakt)) 0)"

definition pdf_phone :: "string \<Rightarrow> string" where
  "pdf_phone kontakt = part_or_empty (at (map trim (split (CHR ''/'') kontakt)) 1)"

text \<open>
  The text of the document: the first argument of every \<^verbatim>\<open>doc.text\<close> call, in order.
  Fonts, positions, the page break and the signature image (whose failure the source
  catches) are layout and left out. \<open>Tick s\<close> is a line that starts with the check
  mark U+2713, which lies outside the code units of the model. A part of the document
  is the list of its lines, or the error that a conversion to text raised in it.
\<close>

datatype pdf_text = Text string | Tick string

type_synonym pdf_part = "js_error + pdf_text list"

definition pdf_parts :: "pdf_part list \<Rightarrow> pdf_part" where
  "pdf_parts ps = attempt (collect ps) (\<lambda>ls. Inr (concat ls))"

definition when_truthy :: "jsval option \<Rightarrow> pdf_part \<Rightarrow> pdf_part" where
  "when_truthy v p = (if truthy_opt v then p else Inr [])"

text \<open>\<^verbatim>\<open>doc.text(`label${x}`)\<close>.\<close>

definition labelled :: "string \<Rightarrow> jsval option \<Rightarrow> pdf_part" where
  "labelled label x = attempt (template x) (\<lambda>s. Inr [Text (label @ s)])"

text \<open>
  Modelled from the spec: \<^verbatim>\<open>doc.text(x)\<close> with a value that is not a string. The document
  library (pdfkit) is a third-party collaborator; it converts its argument as a template
  literal does, and \<^verbatim>\<open>null\<close> and \<^verbatim>\<open>undefined\<close> to the empty string.
\<close>

definition pdf_string :: "jsval option \<Rightarrow> js_error + string" where
  "pdf_string x =
     (case x of None \<Rightarrow> Inr [] | Some JNull \<Rightarrow> Inr [] | Some v \<Rightarrow> as_text v)"

definition plain :: "jsval option \<Rightarrow> pdf_part" where
  "plain x = attempt (pdf_string x) (\<lambda>s. Inr [Text s])"

definition pdf_header :: "pdf_text list" where
  "pdf_header =
     [Text (''DS SACHVERST'' @ [CHR 0xC4] @ ''NDIGENB'' @ [CHR 0xDC] @ ''RO''),
      Text (''M'' @ [CHR 0xFC] @ ''hlenstr. 49 - 33609 Bielefeld''),
      Text ''Tel.: 0151-11738834'',
      Text ''E-Mail: info@unfallschaden-bielefeld.de'',
      Text ''Auftrag zur Gutachtenerstellung'']"

text \<open>
  \<^verbatim>\<open>const kontakt = formData.auftraggeber_kontakt || ''\<close>, and the two lines printed from
  it; \<^verbatim>\<open>kontakt.split\<close> raises when the contact is truthy and not a string.
\<close>

definition pdf_kontakt :: "form_data \<Rightarrow> pdf_part" where
  "pdf_kontakt formData =
     (case js_or (formData ''auftraggeber_kontakt'') (Some (JStr [])) of
        Some (JStr kontakt) \<Rightarrow>
          Inr [Text (''E-Mail: '' @ pdf_email kontakt), Text (''Telefon: '' @ pdf_phone kontakt)]
      | _ \<Rightarrow> Inl (TypeError ''kontakt.split is not a function''))"

definition pdf_client :: "form_data \<Rightarrow> pdf_part" where
  "pdf_client formData =
     pdf_parts
       [Inr [Text (''Auftraggeber (Gesch'' @ [CHR 0xE4] @ ''digter)'')],
        labelled ''Name: '' (formData ''auftraggeber_name''),
        labelled ''Adresse: '' (js_or (formData ''auftraggeber_adresse'') (Some (JStr []))),
        pdf_kontakt formData,
        labelled ''Kennzeichen: '' (formData ''auftraggeber_kennzeichen'')]"

definition pdf_vehicle :: "form_data \<Rightarrow> pdf_part" where
  "pdf_vehicle formData =
     (if truthy_opt (formData ''kilometerstand'') \<or> truthy_opt (formData ''reifen'')
         \<or> truthy_opt (formData ''fahrzeugstellnummer'')
      then pdf_parts
        [Inr [Text ''Fahrzeugdaten''],
         when_truthy (formData ''kilometerstand'')
           (labelled ''Kilometerstand: '' (formData ''kilometerstand'')),
         when_truthy (formData ''reifen'')
           (labelled ''Reifen/Profiltiefe: '' (formData ''reifen'')),
         when_truthy (formData ''fahrzeugstellnummer'')
           (labelled ''Fahrzeugstellnummer: '' (formData ''fahrzeugstellnummer''))]
      else Inr [])"

definition pdf_accident :: "form_data \<Rightarrow> pdf_part" where
  "pdf_accident formData =
     pdf_parts
       [Inr [Text ''Unfalldaten''],
        labelled ''Unfalltag: '' (formData ''unfall_tag''),
        when_truthy (formData ''uhrzeit'') (labelled ''Uhrzeit: '' (formData ''uhrzeit'')),
        labelled ''Unfallort: '' (formData ''unfall_ort''),
        when_truthy (formData ''schadenbeschreibung'')
          (pdf_parts [Inr [Text ''Schadenbeschreibung:''], plain (formData ''schadenbeschreibung'')])]"

definition pdf_closing :: "string \<Rightarrow> form_data \<Rightarrow> pdf_part" where
  "pdf_closing today formData =
     pdf_parts
       [Inr [Text ''Ort/Datum und Unterschrift:''],
        (if truthy_opt (formData ''ort'')
         then attempt (template (formData ''ort'')) (\<lambda>s. Inr [Text (s @ '', '' @ today)])
         else Inr [Text today])]"

text \<open>The \<^verbatim>\<open>try\<close> block of \<^verbatim>\<open>generatePDFFile\<close>.\<close>

definition pdf_content :: "string \<Rightarrow> form_data \<Rightarrow> pdf_part" where
  "pdf_content today formData =
     pdf_parts
       [Inr pdf_header,
        Inr [Text ''Gutachten Nr.:''],
        plain (formData ''gutachten_nr''),
        when_truthy (formData ''abtretung'') (Inr [Tick '' Abtretung'']),
        pdf_client formData,
        pdf_vehicle formData,
        pdf_accident formData,
        pdf_closing today formData]"

text \<open>
  \<^verbatim>\<open>generatePDFFile\<close>. The body of the promise creates the scratch directory when nothing
  exists at its path, builds the file name and opens the write stream, which creates the
  file; an error raised up to here, or in the \<^verbatim>\<open>try\<close> block, rejects the promise. The
  promise resolves with the path when the stream closes, and is rejected by an error
  event: of the stream when the file cannot be opened, and \<open>render_fault\<close>, any other
  error event of the stream or of the document.
\<close>

definition tempDir :: "server \<Rightarrow> string" where
  "tempDir srv = path_join (dirname srv) ''temp''"

definition pdf_fileName :: "clock \<Rightarrow> form_data \<Rightarrow> js_error + string" where
  "pdf_fileName clk formData =
     attempt (template (formData ''gutachten_nr''))
       (\<lambda>nr. Inr (''Gutachten_'' @ nr @ ''_'' @ String_of_nat (now_pdf clk) @ ''.pdf''))"

definition ensure_tempDir :: "server \<Rightarrow> world \<Rightarrow> js_error + world" where
  "ensure_tempDir srv w =
     (if tempDir srv \<in> set (fs_dirs w) \<or> tempDir srv \<in> set (fs_files w) then Inr w
      else mkdirSync_recursive (tempDir srv) w)"

definition generatePDFFile ::
  "server \<Rightarrow> clock \<Rightarrow> faults \<Rightarrow> form_data \<Rightarrow> world \<Rightarrow> (js_error + string) \<times> world" where
  "generatePDFFile srv clk flt formData w =
     (case ensure_tempDir srv w of
        Inl e \<Rightarrow> (Inl e, w)
      | Inr w1 \<Rightarrow>
          (case pdf_fileName clk formData of
             Inl e \<Rightarrow> (Inl e, w1)
           | Inr fileName \<Rightarrow>
               (let filePath = path_join (tempDir srv) fileName;
                    w2 = (if can_open w1 filePath then create_file filePath w1 else w1)
                in case pdf_content (date_de clk) formData of
                     Inl e \<Rightarrow> (Inl e, w2)
                   | Inr texts \<Rightarrow>
                       if \<not> can_open w1 filePath
                       then (Inl (Error (''ENOENT: no such file or directory, open '' @ filePath)),
                             w2)
                       else (case render_fault flt of
                               Some m \<Rightarrow> (Inl (Error m), w2)
                             | None \<Rightarrow> (Inr filePath, w2)))))"

section \<open>Upload to the object store\<close>

text \<open>
  The search for the customer folder is sent as a query string, into which the source
  puts the folder name and the root folder as they are:
  \<^verbatim>\<open>`name='${folderName}' and mimeType='application/vnd.google-apps.folder' and '${rootFolderId}' in parents`\<close>.
\<close>

definition quote :: char where
  "quote = CHR 0x27"

definition backslash :: char where
  "backslash = CHR 0x5C"

definition folder_query :: "string \<Rightarrow> string \<Rightarrow> string" where
  "folder_query folderName rootFolderId =
     ''name='' @ [quote] @ folderName @ [quote] @ '' and mimeType='' @ [quote]
       @ ''application/vnd.google-apps.folder'' @ [quote] @ '' and '' @ [quote] @ rootFolderId
       @ [quote] @ '' in parents''"

text \<open>
  Modelled from the spec: the query language of the object store, as far as queries of
  this shape need it. A query is a list of words and of strings written between quotes,
  in which a backslash makes the character after it part of the string; \<^verbatim>\<open>=\<close> is a word of
  its own. A query whose last string is not closed is not a query.
\<close>

datatype token = Word string | Lit string

datatype scanning = Between | InWord string | InLit string | Escaped string

definition put :: "token \<Rightarrow> token list option \<Rightarrow> token list option" where
  "put t r = map_option ((#) t) r"

fun scan :: "scanning \<Rightarrow> string \<Rightarrow> token list option" where
  "scan Between [] = Some []"
| "scan (InWord w) [] = Some [Word w]"
| "scan (InLit s) [] = None"
| "scan (Escaped s) [] = None"
| "scan Between (c # cs) =
     (if c = CHR '' '' then scan Between cs
      else if c = quote then scan (InLit []) cs
      else if c = CHR ''='' then put (Word ''='') (scan Between cs)
      else scan (InWord [c]) cs)"
| "scan (InWord w) (c # cs) =
     (if c = CHR '' '' then put (Word w) (scan Between cs)
      else if c = quote then put (Word w) (scan (InLit []) cs)
      else if c = CHR ''='' then put (Word w) (put (Word ''='') (scan Between cs))
      else scan (InWord (w @ [c])) cs)"
| "scan (InLit s) (c # cs) =
     (if c = quote then put (Lit s) (scan Between cs)
      else if c = backslash then scan (Escaped s) cs
      else scan (InLit (s @ [c])) cs)"
| "scan (Escaped s) (c # cs) = scan (InLit (s @ [c])) cs"

text \<open>
  Modelled from the spec: the conditions of a query. The model knows three: the name is
  a string, the type is a string, a string is among the parents. Conditions are joined
  by \<^verbatim>\<open>and\<close> and \<^verbatim>\<open>or\<close>, of which \<^verbatim>\<open>and\<close> binds more tightly; a query is the list of its
  alternatives, each the list of its conditions. The store refuses anything else.
\<close>

datatype condition = Name string | MimeType string | Parent string

fun condition_of :: "token list \<Rightarrow> condition option" where
  "condition_of [Word f, Word eq, Lit s] =
     (if eq = ''='' \<and> f = ''name'' then Some (Name s)
      else if eq = ''='' \<and> f = ''mimeType'' then Some (MimeType s)
      else None)"
| "condition_of [Lit s, Word i, Word f] =
     (if i = ''in'' \<and> f = ''parents'' then Some (Parent s) else None)"
| "condition_of ts = None"

fun separate :: "token \<Rightarrow> token list \<Rightarrow> token list list" where
  "separate t [] = [[]]"
| "separate t (x # xs) =
     (if x = t then [] # separate t xs
      else (case separate t xs of [] \<Rightarrow> [[x]] | p # ps \<Rightarrow> (x # p) # ps))"

definition alternative_of :: "token list \<Rightarrow> condition list option" where
  "alternative_of ts = those (map condition_of (separate (Word ''and'') ts))"

definition query_of :: "string \<Rightarrow> condition list list option" where
  "query_of q =
     (case scan Between q of
        None \<Rightarrow> None
      | Some ts \<Rightarrow> those (map alternative_of (separate (Word ''or'') ts)))"

text \<open>
  Modelled from the spec: what a query is asked of. A folder has the type of folders,
  and a file the type the source uploads it with.
\<close>

record drive_item =
  item_id :: string
  item_name :: string
  item_mimeType :: string
  item_parent :: string

definition folder_item :: "drive_folder \<Rightarrow> drive_item" where
  "folder_item d =
     \<lparr>item_id = folder_id d, item_name = folder_name d,
      item_mimeType = ''application/vnd.google-apps.folder'', item_parent = folder_parent d\<rparr>"

definition file_item :: "drive_file \<Rightarrow> drive_item" where
  "file_item f =
     \<lparr>item_id = file_id f, item_name = file_name f,
      item_mimeType = ''application/pdf'', item_parent = file_parent f\<rparr>"

definition items :: "drive_store \<Rightarrow> drive_item list" where
  "items d = map folder_item (folders d) @ map file_item (stored_files d)"

fun holds :: "drive_item \<Rightarrow> condition \<Rightarrow> bool" where
  "holds i (Name s) = (item_name i = s)"
| "holds i (MimeType s) = (item_mimeType i = s)"
| "holds i (Parent s) = (item_parent i = s)"

definition matches :: "condition list list \<Rightarrow> drive_item \<Rightarrow> bool" where
  "matches q i = list_ex (list_all (holds i)) q"

text \<open>
  Modelled from the spec: the five operations of the object store that
  \<^verbatim>\<open>uploadToGoogleDrive\<close> calls (\<^verbatim>\<open>files.get\<close>, \<^verbatim>\<open>files.list\<close>, \<^verbatim>\<open>files.create\<close> for a folder
  and for a file, \<^verbatim>\<open>permissions.create\<close>). Each is logged, then either fails with the
  injected error or acts on the store. \<^verbatim>\<open>files.list\<close> answers a query with the identifiers
  of the folders and files that match it, folders first, each in the order of creation.
  A folder is created under the name it is given, a string; without a name
  (\<^verbatim>\<open>undefined\<close> or \<^verbatim>\<open>null\<close>) it is called \<^verbatim>\<open>Untitled\<close>, and a name of any other kind is
  refused.
\<close>

definition drive_files_get :: "faults \<Rightarrow> string \<Rightarrow> world \<Rightarrow> (js_error + string option) \<times> world" where
  "drive_files_get flt fileId w =
     (let w1 = log_call (Drive_files_get fileId) w
      in case drive_get_fault flt of
           Some m \<Rightarrow> (Inl (Error m), w1)
         | None \<Rightarrow> (Inr (root_driveId (drive w1)), w1))"

definition drive_files_list ::
  "faults \<Rightarrow> string \<Rightarrow> world \<Rightarrow> (js_error + string list) \<times> world" where
  "drive_files_list flt q w =
     (let w1 = log_call (Drive_files_list q) w
      in case drive_list_fault flt of
           Some m \<Rightarrow> (Inl (Error m), w1)
         | None \<Rightarrow>
             (case query_of q of
                None \<Rightarrow> (Inl (Error ''Invalid query''), w1)
              | Some conditions \<Rightarrow>
                  (Inr (map item_id (filter (matches conditions) (items (drive w1)))), w1)))"

definition given_name :: "jsval option \<Rightarrow> string option" where
  "given_name name =
     (case name of
        None \<Rightarrow> Some ''Untitled''
      | Some JNull \<Rightarrow> Some ''Untitled''
      | Some (JStr s) \<Rightarrow> Some s
      | Some v \<Rightarrow> None)"

definition drive_create_folder ::
  "faults \<Rightarrow> jsval option \<Rightarrow> string \<Rightarrow> world \<Rightarrow> (js_error + string) \<times> world" where
  "drive_create_folder flt name parent w =
     (let w1 = log_call (Drive_create_folder name parent) w
      in case drive_folder_fault flt of
           Some m \<Rightarrow> (Inl (Error m), w1)
         | None \<Rightarrow>
             (case given_name name of
                None \<Rightarrow> (Inl (Error ''Invalid value''), w1)
              | Some s \<Rightarrow>
                  (let d = drive w1; i = fresh_id (drive_next d)
                   in (Inr i,
                       w1\<lparr>drive := d\<lparr>folders := folders d
                                          @ [\<lparr>folder_id = i, folder_name = s, folder_parent = parent\<rparr>],
                                       drive_next := Suc (drive_next d)\<rparr>\<rparr>))))"

definition drive_create_file ::
  "faults \<Rightarrow> string \<Rightarrow> string \<Rightarrow> string \<Rightarrow> world \<Rightarrow> (js_error + string) \<times> world" where
  "drive_create_file flt name parent body w =
     (let w1 = log_call (Drive_create_file name parent body) w
      in case drive_upload_fault flt of
           Some m \<Rightarrow> (Inl (Error m), w1)
         | None \<Rightarrow>
             (let d = drive w1; i = fresh_id (drive_next d)
              in (Inr i,
                  w1\<lparr>drive := d\<lparr>stored_files := stored_files d
                                     @ [\<lparr>file_id = i, file_name = name, file_parent = parent,
                                         file_body = body, file_public = False\<rparr>],
                                  drive_next := Suc (drive_next d)\<rparr>\<rparr>)))"

definition drive_permissions_create ::
  "faults \<Rightarrow> string \<Rightarrow> world \<Rightarrow> (js_error + unit) \<times> world" where
  "drive_permissions_create flt fileId w =
     (let w1 = log_call (Drive_permissions_create fileId) w
      in case drive_permission_fault flt of
           Some m \<Rightarrow> (Inl (Error m), w1)
         | None \<Rightarrow>
             (let d = drive w1
              in (Inr (),
                  w1\<lparr>drive := d\<lparr>stored_files :=
                         map (\<lambda>f. if file_id f = fileId then f\<lparr>file_public := True\<rparr> else f)
                           (stored_files d)\<rparr>\<rparr>)))"

record drive_result =
  res_fileId :: string
  res_fileName :: string
  res_folderName :: "jsval option"
  res_folderId :: string
  res_fileLink :: string

text \<open>The two constants computed before the \<^verbatim>\<open>try\<close> block.\<close>

definition upload_folderName :: "form_data \<Rightarrow> jsval option" where
  "upload_folderName formData =
     js_or (formData ''auftraggeber_kennzeichen'') (formData ''kennzeichen'')"

definition upload_fileName :: "form_data \<Rightarrow> js_error + string" where
  "upload_fileName formData =
     attempt (template (formData ''gutachten_nr'')) (\<lambda>nr. Inr (''Gutachten_'' @ nr @ ''.pdf''))"

text \<open>The steps of the \<^verbatim>\<open>try\<close> block once the customer folder is known.\<close>

definition upload_into ::
  "faults \<Rightarrow> form_data \<Rightarrow> string \<Rightarrow> string \<Rightarrow> string \<Rightarrow> world
     \<Rightarrow> (js_error + drive_result) \<times> world" where
  "upload_into flt formData fileName pdfFilePath customerFolderId w =
     (case drive_create_file flt fileName customerFolderId pdfFilePath w of
        (Inl e, w1) \<Rightarrow> (Inl e, w1)
      | (Inr fileId, w1) \<Rightarrow>
          (case drive_permissions_create flt fileId w1 of
             (Inl e, w2) \<Rightarrow> (Inl e, w2)
           | (Inr u, w2) \<Rightarrow>
               (Inr \<lparr>res_fileId = fileId, res_fileName = fileName,
                     res_folderName = upload_folderName formData,
                     res_folderId = customerFolderId,
                     res_fileLink = ''https://drive.google.com/file/d/'' @ fileId @ ''/view''\<rparr>,
                w2)))"

text \<open>
  The \<^verbatim>\<open>try\<close> block: root folder, look-up of the customer folder, reuse or creation. The
  template of the query converts the folder name to text after \<^verbatim>\<open>files.get\<close> has answered.
\<close>

definition upload_try ::
  "server \<Rightarrow> faults \<Rightarrow> form_data \<Rightarrow> string \<Rightarrow> string \<Rightarrow> world
     \<Rightarrow> (js_error + drive_result) \<times> world" where
  "upload_try srv flt formData fileName pdfFilePath w =
     (if \<not> env_set (GOOGLE_DRIVE_ROOT_FOLDER srv)
      then (Inl (Error ''GOOGLE_DRIVE_ROOT_FOLDER not configured''), w)
      else
        (let rootFolderId = the (GOOGLE_DRIVE_ROOT_FOLDER srv);
             folderName = upload_folderName formData
         in case drive_files_get flt rootFolderId w of
              (Inl e, w1) \<Rightarrow> (Inl e, w1)
            | (Inr driveId, w1) \<Rightarrow>
                (case template folderName of
                   Inl e \<Rightarrow> (Inl e, w1)
                 | Inr name \<Rightarrow>
                     (case drive_files_list flt (folder_query name rootFolderId) w1 of
                        (Inl e, w2) \<Rightarrow> (Inl e, w2)
                      | (Inr [], w2) \<Rightarrow>
                          (case drive_create_folder flt folderName rootFolderId w2 of
                             (Inl e, w3) \<Rightarrow> (Inl e, w3)
                           | (Inr customerFolderId, w3) \<Rightarrow>
                               upload_into flt formData fileName pdfFilePath customerFolderId w3)
                      | (Inr (existing # others), w2) \<Rightarrow>
                          upload_into flt formData fileName pdfFilePath existing w2))))"

text \<open>
  \<^verbatim>\<open>uploadToGoogleDrive\<close>. An error of the file name's template is raised as it is; the
  \<^verbatim>\<open>catch\<close> re-raises every error of the \<^verbatim>\<open>try\<close> block with the prefix of the upload.
\<close>

definition uploadToGoogleDrive ::
  "server \<Rightarrow> faults \<Rightarrow> form_data \<Rightarrow> string \<Rightarrow> world \<Rightarrow> (js_error + drive_result) \<times> world" where
  "uploadToGoogleDrive srv flt formData pdfFilePath w =
     (case upload_fileName formData of
        Inl e \<Rightarrow> (Inl e, w)
      | Inr fileName \<Rightarrow>
          (case upload_try srv flt formData fileName pdfFilePath w of
             (Inl e, w1) \<Rightarrow>
               (Inl (Error (''Google Drive Upload fehlgeschlagen: '' @ message e)), w1)
           | (Inr r, w1) \<Rightarrow> (Inr r, w1)))"

section \<open>Record keeping\<close>

text \<open>
  \<^verbatim>\<open>buildKontakteProperties\<close>: \<^verbatim>\<open>kontaktParts[0] ? kontaktParts[0].trim() : ''\<close> and the same
  for the second part; the telephone number is \<^verbatim>\<open>phone || null\<close>. The split raises when
  the contact is truthy and not a string. Name, plate and address are the field values,
  or the empty string for a falsy one.
\<close>

definition trimmed_part :: "string option \<Rightarrow> string" where
  "trimmed_part p = (case p of None \<Rightarrow> [] | Some s \<Rightarrow> if s \<noteq> [] then trim s else [])"

definition kontaktParts :: "jsval option \<Rightarrow> js_error + string list" where
  "kontaktParts kontakt =
     (if truthy_opt kontakt then
        (case kontakt of
           Some (JStr s) \<Rightarrow> Inr (split (CHR ''/'') s)
         | _ \<Rightarrow> Inl (TypeError ''formData.auftraggeber_kontakt.split is not a function''))
      else Inr [[], []])"

definition or_empty :: "jsval option \<Rightarrow> jsval" where
  "or_empty v = (case v of None \<Rightarrow> JStr [] | Some x \<Rightarrow> if truthy x then x else JStr [])"

definition buildKontakteProperties :: "form_data \<Rightarrow> js_error + kontakte_properties" where
  "buildKontakteProperties formData =
     (case kontaktParts (formData ''auftraggeber_kontakt'') of
        Inl e \<Rightarrow> Inl e
      | Inr parts \<Rightarrow>
          (let email = trimmed_part (at parts 0);
               phone = trimmed_part (at parts 1)
           in Inr \<lparr>k_Name = or_empty (formData ''auftraggeber_name''),
                   k_Kennzeichen = or_empty (formData ''auftraggeber_kennzeichen''),
                   k_Email = email,
                   k_Phone = (if phone \<noteq> [] then Some phone else None),
                   k_Address = or_empty (formData ''auftraggeber_adresse''),
                   k_Bereich = ''25b5e4b8-4c44-81b6-b25d-f0cf2e1ec15d'',
                   k_Priority = ''Medium'',
                   k_Archive = False\<rparr>))"

text \<open>
  \<^verbatim>\<open>buildGutachtenResourceProperties\<close>: the name is a template of three fields; \<^verbatim>\<open>Link\<close> and
  \<^verbatim>\<open>Kontakte\<close> are set only when the link and the customer identifier are truthy.
\<close>

definition truthy_string :: "string option \<Rightarrow> bool" where
  "truthy_string v = (case v of None \<Rightarrow> False | Some s \<Rightarrow> s \<noteq> [])"

definition resource_name :: "form_data \<Rightarrow> js_error + string" where
  "resource_name formData =
     attempt (template (formData ''auftraggeber_kennzeichen'')) (\<lambda>kennzeichen.
     attempt (template (formData ''auftraggeber_name'')) (\<lambda>name.
     attempt (template (formData ''gutachten_nr'')) (\<lambda>nr.
       Inr (''Gutachten '' @ kennzeichen @ '' - '' @ name @ '' ('' @ nr @ '')''))))"

definition buildGutachtenResourceProperties ::
  "form_data \<Rightarrow> string option \<Rightarrow> string option \<Rightarrow> js_error + resource_properties" where
  "buildGutachtenResourceProperties formData googleDriveFileLink customerId =
     attempt (resource_name formData) (\<lambda>name.
       Inr \<lparr>r_Name = name,
            r_Type = ''Auftrag Gutachten'',
            r_Archive = False,
            r_Favourite = False,
            r_Link = (if truthy_string googleDriveFileLink then googleDriveFileLink else None),
            r_Kontakte = (if truthy_string customerId then customerId else None)\<rparr>)"

text \<open>
  Modelled from the spec: the two operations of the record keeper that the source calls
  (\<^verbatim>\<open>databases.query\<close> with the filter that \<^verbatim>\<open>Kennzeichen\<close> equals a value, and
  \<^verbatim>\<open>pages.create\<close>). Each is logged, then either fails with the injected error or acts on
  the store. The query answers with the contacts of the database whose \<^verbatim>\<open>Kennzeichen\<close> is
  the value asked for.
\<close>

definition is_kontakt_of :: "string \<Rightarrow> jsval option \<Rightarrow> page \<Rightarrow> bool" where
  "is_kontakt_of databaseId kennzeichen p =
     (page_parent p = databaseId \<and>
      (case page_properties p of
         Kontakt k \<Rightarrow> Some (k_Kennzeichen k) = kennzeichen
       | Resource r \<Rightarrow> False))"

definition notion_databases_query ::
  "faults \<Rightarrow> string \<Rightarrow> jsval option \<Rightarrow> world \<Rightarrow> (js_error + page list) \<times> world" where
  "notion_databases_query flt databaseId kennzeichen w =
     (let w1 = log_call (Notion_query databaseId kennzeichen) w
      in case notion_query_fault flt of
           Some m \<Rightarrow> (Inl (Error m), w1)
         | None \<Rightarrow> (Inr (filter (is_kontakt_of databaseId kennzeichen) (pages (notion w1))), w1))"

definition notion_pages_create ::
  "string option \<Rightarrow> string \<Rightarrow> page_props \<Rightarrow> world \<Rightarrow> (js_error + string) \<times> world" where
  "notion_pages_create fault databaseId props w =
     (let w1 = log_call (Notion_pages_create databaseId props) w
      in case fault of
           Some m \<Rightarrow> (Inl (Error m), w1)
         | None \<Rightarrow>
             (let n = notion w1; i = fresh_id (notion_next n)
              in (Inr i,
                  w1\<lparr>notion := n\<lparr>pages := pages n
                                     @ [\<lparr>page_id = i, page_parent = databaseId,
                                         page_properties = props\<rparr>],
                                   notion_next := Suc (notion_next n)\<rparr>\<rparr>)))"

text \<open>\<^verbatim>\<open>findCustomerByKennzeichen\<close>: an error of the query is caught and answered with \<^verbatim>\<open>null\<close>.\<close>

definition findCustomerByKennzeichen ::
  "faults \<Rightarrow> string \<Rightarrow> jsval option \<Rightarrow> world \<Rightarrow> page option \<times> world" where
  "findCustomerByKennzeichen flt databaseId kennzeichen w =
     (case notion_databases_query flt databaseId kennzeichen w of
        (Inl e, w1) \<Rightarrow> (None, w1)
      | (Inr results, w1) \<Rightarrow> (case results of [] \<Rightarrow> None | p # ps \<Rightarrow> Some p, w1))"

datatype action = found_existing | created

datatype entry_outcome = Entry string action | EntryError string

record notion_result =
  customer :: "entry_outcome option"
  businessResource :: "entry_outcome option"

definition outcome_id :: "entry_outcome option \<Rightarrow> string option" where
  "outcome_id c = (case c of Some (Entry i a) \<Rightarrow> Some i | _ \<Rightarrow> None)"

text \<open>Step 1 of \<^verbatim>\<open>processNotionIntegration\<close>, the customer entry, with its own \<^verbatim>\<open>try\<close>.\<close>

definition upsert_customer ::
  "faults \<Rightarrow> string \<Rightarrow> form_data \<Rightarrow> world \<Rightarrow> entry_outcome \<times> world" where
  "upsert_customer flt kontakteId formData w =
     (case findCustomerByKennzeichen flt kontakteId (formData ''auftraggeber_kennzeichen'') w of
        (Some existingCustomer, w1) \<Rightarrow> (Entry (page_id existingCustomer) found_existing, w1)
      | (None, w1) \<Rightarrow>
          (case buildKontakteProperties formData of
             Inl e \<Rightarrow> (EntryError (message e), w1)
           | Inr props \<Rightarrow>
               (case notion_pages_create (notion_contact_fault flt) kontakteId (Kontakt props) w1 of
                  (Inl e, w2) \<Rightarrow> (EntryError (message e), w2)
                | (Inr i, w2) \<Rightarrow> (Entry i created, w2))))"

text \<open>Step 2, the order entry; an error in building its properties is caught like one of the call.\<close>

definition create_resource ::
  "faults \<Rightarrow> string \<Rightarrow> form_data \<Rightarrow> string option \<Rightarrow> string option \<Rightarrow> world
     \<Rightarrow> entry_outcome \<times> world" where
  "create_resource flt businessResourcesId formData googleDriveFileLink customerId w =
     (case buildGutachtenResourceProperties formData googleDriveFileLink customerId of
        Inl e \<Rightarrow> (EntryError (message e), w)
      | Inr props \<Rightarrow>
          (case notion_pages_create (notion_resource_fault flt) businessResourcesId
                  (Resource props) w of
             (Inl e, w1) \<Rightarrow> (EntryError (message e), w1)
           | (Inr i, w1) \<Rightarrow> (Entry i created, w1)))"

text \<open>
  \<^verbatim>\<open>processNotionIntegration\<close>. It is called only when the client exists. Both steps
  catch their own errors, so the outer \<^verbatim>\<open>catch\<close> is never entered and the function
  always returns.
\<close>

definition processNotionIntegration ::
  "server \<Rightarrow> faults \<Rightarrow> form_data \<Rightarrow> string option \<Rightarrow> world \<Rightarrow> (js_error + notion_result) \<times> world" where
  "processNotionIntegration srv flt formData googleDriveFileLink w =
     (let (cust, w1) =
            (if env_set (KONTAKTE_DATABASE_ID srv)
             then (let (c, w') = upsert_customer flt (the (KONTAKTE_DATABASE_ID srv)) formData w
                   in (Some c, w'))
             else (None, w));
          (res, w2) =
            (if env_set (BUSINESS_RESOURCES_DATABASE_ID srv)
             then (let (r, w') = create_resource flt (the (BUSINESS_RESOURCES_DATABASE_ID srv))
                                   formData googleDriveFileLink (outcome_id cust) w1
                   in (Some r, w'))
             else (None, w1))
      in (Inr \<lparr>customer = cust, businessResource = res\<rparr>, w2))"

section \<open>The pipeline\<close>

datatype 'a stage = Done 'a | Failed string | Skipped string

record results =
  res_timestamp :: string
  res_gutachten_nr :: "jsval option"
  res_pdf_filePath :: string
  res_googleDrive :: "drive_result stage"
  res_notion :: "notion_result stage"

text \<open>Stage 2 of \<^verbatim>\<open>processGutachtenSubmission\<close>: the upload and the link it yields.\<close>

definition upload_stage ::
  "server \<Rightarrow> faults \<Rightarrow> form_data \<Rightarrow> string \<Rightarrow> world
     \<Rightarrow> (drive_result stage \<times> string option) \<times> world" where
  "upload_stage srv flt formData pdfFilePath w =
     (if drive_client srv \<and> pdfFilePath \<noteq> [] then
        (case uploadToGoogleDrive srv flt formData pdfFilePath w of
           (Inr driveResult, w1) \<Rightarrow> ((Done driveResult, Some (res_fileLink driveResult)), w1)
         | (Inl e, w1) \<Rightarrow> ((Failed (message e), None), w1))
      else ((Skipped ''Google Drive client not initialized or PDF failed'', None), w))"

text \<open>Stage 3: record keeping, with the link of stage 2.\<close>

definition notion_stage ::
  "server \<Rightarrow> faults \<Rightarrow> form_data \<Rightarrow> string option \<Rightarrow> world \<Rightarrow> notion_result stage \<times> world" where
  "notion_stage srv flt formData googleDriveFileLink w =
     (if notion_client srv then
        (case processNotionIntegration srv flt formData googleDriveFileLink w of
           (Inr notionResult, w1) \<Rightarrow> (Done notionResult, w1)
         | (Inl e, w1) \<Rightarrow> (Failed (message e), w1))
      else (Skipped ''Notion client not initialized'', w))"

text \<open>
  \<^verbatim>\<open>processGutachtenSubmission\<close>. The body is the list of the own keys of the parsed
  request body with their values. A raised error is \<open>Inl\<close>; the route handler answers
  it with status 500 and \<^verbatim>\<open>success: false\<close>, and a returned result with
  \<^verbatim>\<open>success: true\<close>.
\<close>

definition processGutachtenSubmission ::
  "server \<Rightarrow> clock \<Rightarrow> faults \<Rightarrow> raw_form \<Rightarrow> world \<Rightarrow> (js_error + results) \<times> world" where
  "processGutachtenSubmission srv clk flt body w =
     (let formData = normalizeFormData (full_year clk) (now_normalize clk) body
      in case validateFormData formData of
           Inl e \<Rightarrow> (Inl e, w)
         | Inr u \<Rightarrow>
             (case generatePDFFile srv clk flt formData w of
                (Inl e, w1) \<Rightarrow> (Inl (Error ''PDF-Generierung fehlgeschlagen''), w1)
              | (Inr pdfFilePath, w1) \<Rightarrow>
                  (let ((googleDrive, googleDriveFileLink), w2) =
                         upload_stage srv flt formData pdfFilePath w1;
                       (notionR, w3) = notion_stage srv flt formData googleDriveFileLink w2
                   in (Inr \<lparr>res_timestamp = iso_timestamp clk,
                             res_gutachten_nr = formData ''gutachten_nr'',
                             res_pdf_filePath = pdfFilePath,
                             res_googleDrive = googleDrive,
                             res_notion = notionR\<rparr>, w3))))"

section \<open>The statements of the specification\<close>

text \<open>
  The specification calls a required field missing when it is absent or, after trimming
  white space, empty. \<^verbatim>\<open>null\<close> is read as absent; a value of any other kind is present.
\<close>

definition spec_missing :: "form_data \<Rightarrow> string \<Rightarrow> bool" where
  "spec_missing data field =
     (case data field of
        None \<Rightarrow> True
      | Some JNull \<Rightarrow> True
      | Some (JStr s) \<Rightarrow> trim s = []
      | Some v \<Rightarrow> False)"



text \<open>A field the validator does not accept, and the error it raises for it.\<close>

definition not_accepted :: "form_data \<Rightarrow> string \<Rightarrow> bool" where
  "not_accepted data field = (check_field data field \<noteq> Accepted)"


text \<open>
  The key mapping in the words of the specification: the alias is rewritten, a key with
  dots has every dot replaced by an underscore, and every other key is kept.
\<close>

definition spec_key :: "string \<Rightarrow> string" where
  "spec_key key =
     (if key = ''gutachtenNr'' then ''gutachten_nr''
      else if CHR ''.'' \<in> set key then replace_dots key
      else key)"

text \<open>
  The contact string in the words of the specification: the e-mail address is what
  precedes the first \<^verbatim>\<open>/\<close>, the telephone number all that follows it, both trimmed.
\<close>

definition not_slash :: "char \<Rightarrow> bool" where
  "not_slash c = (c \<noteq> CHR ''/'')"

definition spec_email :: "string \<Rightarrow> string" where
  "spec_email kontakt = trim (takeWhile not_slash kontakt)"

definition spec_phone :: "string \<Rightarrow> string" where
  "spec_phone kontakt = trim (drop 1 (dropWhile not_slash kontakt))"

text \<open>What the source takes as telephone number: what lies between the first \<^verbatim>\<open>/\<close> and the next.\<close>

definition second_segment :: "string \<Rightarrow> string" where
  "second_segment kontakt = trim (takeWhile not_slash (drop 1 (dropWhile not_slash kontakt)))"

text \<open>The number a string of decimal digits denotes.\<close>

definition digit_value :: "char \<Rightarrow> nat" where
  "digit_value c = of_char c - 48"

definition decimal_value :: "string \<Rightarrow> nat" where
  "decimal_value s = foldl (\<lambda>a c. 10 * a + digit_value c) 0 s"

text \<open>No call to the object store fails; no call of the contact step fails.\<close>

definition drive_ok :: "faults \<Rightarrow> bool" where
  "drive_ok flt =
     (drive_get_fault flt = None \<and> drive_list_fault flt = None \<and> drive_folder_fault flt = None
      \<and> drive_upload_fault flt = None \<and> drive_permission_fault flt = None)"

definition contact_ok :: "faults \<Rightarrow> bool" where
  "contact_ok flt = (notion_query_fault flt = None \<and> notion_contact_fault flt = None)"

text \<open>The folders of a customer key under a root, and the contacts of a plate in a database.\<close>

definition customer_folders :: "string \<Rightarrow> string \<Rightarrow> world \<Rightarrow> drive_folder list" where
  "customer_folders root key w =
     filter (\<lambda>d. folder_name d = key \<and> folder_parent d = root) (folders (drive w))"

definition contacts_of :: "string \<Rightarrow> string \<Rightarrow> world \<Rightarrow> page list" where
  "contacts_of databaseId key w =
     filter (is_kontakt_of databaseId (Some (JStr key))) (pages (notion w))"

text \<open>A string that a query can hold as it is: it has no quote and no backslash.\<close>

definition clean :: "string \<Rightarrow> bool" where
  "clean s = (quote \<notin> set s \<and> backslash \<notin> set s)"

text \<open>What a stage leaves alone: the upload everything but the object store and the log,
  record keeping everything but the record keeper and the log.\<close>

definition outside_drive :: "world \<Rightarrow> world \<Rightarrow> bool" where
  "outside_drive w w' = (fs_files w' = fs_files w \<and> fs_dirs w' = fs_dirs w \<and> notion w' = notion w)"

definition outside_notion :: "world \<Rightarrow> world \<Rightarrow> bool" where
  "outside_notion w w' = (fs_files w' = fs_files w \<and> fs_dirs w' = fs_dirs w \<and> drive w' = drive w)"

text \<open>Decimal digits.\<close>

definition is_digit :: "char \<Rightarrow> bool" where
  "is_digit c = (c \<in> set ''0123456789'')"

text \<open>The object store has a file with this identifier, under this folder, read from this path.\<close>

definition holds_file :: "world \<Rightarrow> string \<Rightarrow> string \<Rightarrow> string \<Rightarrow> bool" where
  "holds_file w i parent body =
     list_ex (\<lambda>f. file_id f = i \<and> file_parent f = parent \<and> file_body f = body)
       (stored_files (drive w))"


section \<open>A sample submission\<close>

definition example_body :: raw_form where
  "example_body =
     [(''auftraggeber.name'', JStr ''Max Mustermann''),
      (''auftraggeber.kennzeichen'', JStr ''BI-XX 123''),
      (''auftraggeber.adresse'', JStr ''Teststr 1''),
      (''auftraggeber.kontakt'', JStr ''max@test.de / 0151123456''),
      (''unfall_tag'', JStr ''2025-01-01''),
      (''unfall_ort'', JStr ''Bielefeld'')]"

definition example_form :: form_data where
  "example_form =
     [''auftraggeber_name'' \<mapsto> JStr ''Max Mustermann'',
      ''auftraggeber_kennzeichen'' \<mapsto> JStr ''BI-XX 123'',
      ''auftraggeber_adresse'' \<mapsto> JStr ''Teststr 1'',
      ''auftraggeber_kontakt'' \<mapsto> JStr ''max@test.de / 0151123456'',
      ''unfall_tag'' \<mapsto> JStr ''2025-01-01'',
      ''unfall_ort'' \<mapsto> JStr ''Bielefeld'',
      ''gutachten_nr'' \<mapsto> JStr ''DS-2025-600123'']"

definition example_server :: server where
  "example_server =
     \<lparr>dirname = ''/app'', drive_client = True, notion_client = True,
      GOOGLE_DRIVE_ROOT_FOLDER = Some ''root'',
      KONTAKTE_DATABASE_ID = Some ''kontakte'',
      BUSINESS_RESOURCES_DATABASE_ID = Some ''resources''\<rparr>"

definition example_clock :: clock where
  "example_clock =
     \<lparr>full_year = 2025, now_normalize = 1735689600123,
      iso_timestamp = ''2025-01-01T00:00:00.123Z'',
      now_pdf = 1735689600456, date_de = ''1.1.2025''\<rparr>"

definition no_faults :: faults where
  "no_faults =
     \<lparr>render_fault = None, drive_get_fault = None, drive_list_fault = None,
      drive_folder_fault = None, drive_upload_fault = None, drive_permission_fault = None,
      notion_query_fault = None, notion_contact_fault = None, notion_resource_fault = None\<rparr>"

definition empty_world :: world where
  "empty_world =
     \<lparr>fs_dirs = [], fs_files = [],
      drive = \<lparr>folders = [], stored_files = [], root_driveId = None, drive_next = 0\<rparr>,
      notion = \<lparr>pages = [], notion_next = 0\<rparr>,
      calls = []\<rparr>"

definition render_broken :: faults where
  "render_broken = no_faults\<lparr>render_fault := Some ''ENOSPC: no space left on device''\<rparr>"


definition c3_zero :: form_data where
  "c3_zero = [''gutachten_nr'' \<mapsto> JStr ''G-1'', ''auftraggeber_name'' \<mapsto> JNum ''0'']"



text \<open>Two keys that are given the same normalised name, and an order number that is empty.\<close>

definition c4_body :: raw_form where
  "c4_body = [(''a.b'', JStr ''1''), (''a_b'', JStr ''2'')]"

definition c4_empty_nr :: raw_form where
  "c4_empty_nr = [(''gutachtenNr'', JStr []), (''auftraggeber.name'', JStr ''Max Mustermann'')]"

text \<open>A contact string whose telephone number contains a second \<^verbatim>\<open>/\<close>.\<close>

definition c9_kontakt :: string where
  "c9_kontakt = ''max@test.de / 0521/123456''"

definition c9_form :: form_data where
  "c9_form = example_form(''auftraggeber_kontakt'' \<mapsto> JStr c9_kontakt)"

text \<open>A customer key with quotes in it: \<^verbatim>\<open>x' or name='z\<close>.\<close>

definition c6_key :: string where
  "c6_key = ''x'' @ [quote] @ '' or name='' @ [quote] @ ''z''"

definition c6_form :: form_data where
  "c6_form = example_form(''auftraggeber_kennzeichen'' \<mapsto> JStr c6_key)"

text \<open>The query of the record keeper fails; the contact entry of the sample submission.\<close>

definition lookup_broken :: faults where
  "lookup_broken = no_faults\<lparr>notion_query_fault := Some ''502 Bad Gateway''\<rparr>"

definition example_kontakt :: kontakte_properties where
  "example_kontakt =
     \<lparr>k_Name = JStr ''Max Mustermann'', k_Kennzeichen = JStr ''BI-XX 123'',
      k_Email = ''max@test.de'', k_Phone = Some ''0151123456'', k_Address = JStr ''Teststr 1'',
      k_Bereich = ''25b5e4b8-4c44-81b6-b25d-f0cf2e1ec15d'', k_Priority = ''Medium'',
      k_Archive = False\<rparr>"

text \<open>The object store is unreachable; the path of the rendered sample.\<close>

definition drive_down :: faults where
  "drive_down = no_faults\<lparr>drive_get_fault := Some ''ECONNREFUSED''\<rparr>"

definition example_pdf :: string where
  "example_pdf = ''/app/temp/Gutachten_DS-2025-600123_1735689600456.pdf''"

text \<open>The order entry of the sample submission.\<close>

definition example_resource :: "string option \<Rightarrow> string option \<Rightarrow> resource_properties" where
  "example_resource link cid =
     \<lparr>r_Name = ''Gutachten BI-XX 123 - Max Mustermann (DS-2025-600123)'',
      r_Type = ''Auftrag Gutachten'', r_Archive = False, r_Favourite = False,
      r_Link = link, r_Kontakte = cid\<rparr>"

text \<open>Two uploads in a row for the key with quotes, into an empty store.\<close>

definition c6_first :: "(js_error + drive_result) \<times> world" where
  "c6_first = uploadToGoogleDrive example_server no_faults c6_form ''a.pdf'' empty_world"

definition c6_second :: "(js_error + drive_result) \<times> world" where
  "c6_second = uploadToGoogleDrive example_server no_faults c6_form ''b.pdf'' (snd c6_first)"



text \<open>The contacts of a database that a query for a value finds.\<close>

definition contacts_with :: "string \<Rightarrow> jsval option \<Rightarrow> world \<Rightarrow> page list" where
  "contacts_with databaseId kennzeichen w =
     filter (is_kontakt_of databaseId kennzeichen) (pages (notion w))"

text \<open>The outcome of creating a contact: the new entry, or the error of the call.\<close>

definition creation_outcome :: "faults \<Rightarrow> world \<Rightarrow> entry_outcome" where
  "creation_outcome flt w =
     (case notion_contact_fault flt of
        None \<Rightarrow> Entry (fresh_id (notion_next (notion w))) created
      | Some m \<Rightarrow> EntryError m)"

definition created_page :: "string \<Rightarrow> kontakte_properties \<Rightarrow> world \<Rightarrow> page" where
  "created_page databaseId props w =
     \<lparr>page_id = fresh_id (notion_next (notion w)), page_parent = databaseId,
      page_properties = Kontakt props\<rparr>"

text \<open>A customer key with one quote in it: \<^verbatim>\<open>O'Neil\<close>.\<close>

definition one_quote_key :: string where
  "one_quote_key = ''O'' @ [quote] @ ''Neil''"

definition one_quote_form :: form_data where
  "one_quote_form = example_form(''auftraggeber_kennzeichen'' \<mapsto> JStr one_quote_key)"

section \<open>Frame conditions\<close>

lemma outside_drive_refl [simp]: "outside_drive w w"
  by (simp add: outside_drive_def)

lemma outside_drive_trans: "outside_drive w w1 \<Longrightarrow> outside_drive w1 w2 \<Longrightarrow> outside_drive w w2"
  by (simp add: outside_drive_def)

lemma drive_files_get_frame: "drive_files_get flt i w = (r, w') \<Longrightarrow> outside_drive w w'"
  by (auto simp add: drive_files_get_def outside_drive_def log_call_def Let_def split: option.splits)

lemma drive_files_list_frame: "drive_files_list flt q w = (r, w') \<Longrightarrow> outside_drive w w'"
  by (auto simp add: drive_files_list_def outside_drive_def log_call_def Let_def split: option.splits)

lemma drive_create_folder_frame: "drive_create_folder flt n p w = (r, w') \<Longrightarrow> outside_drive w w'"
  by (auto simp add: drive_create_folder_def outside_drive_def log_call_def Let_def split: option.splits)

lemma drive_create_file_frame: "drive_create_file flt n p b w = (r, w') \<Longrightarrow> outside_drive w w'"
  by (auto simp add: drive_create_file_def outside_drive_def log_call_def Let_def split: option.splits)

lemma drive_permissions_create_frame: "drive_permissions_create flt i w = (r, w') \<Longrightarrow> outside_drive w w'"
  by (auto simp add: drive_permissions_create_def outside_drive_def log_call_def Let_def split: option.splits)

lemma upload_into_frame: "upload_into flt formData n p folder w = (r, w') \<Longrightarrow> outside_drive w w'"
  unfolding upload_into_def
  by (auto split: prod.splits sum.splits
        dest!: drive_create_file_frame drive_permissions_create_frame
        intro: outside_drive_trans)

lemma upload_try_frame: "upload_try srv flt formData n p w = (r, w') \<Longrightarrow> outside_drive w w'"
  unfolding upload_try_def Let_def
  by (auto split: prod.splits sum.splits list.splits if_splits
        dest!: drive_files_get_frame drive_files_list_frame drive_create_folder_frame
               upload_into_frame
        intro: outside_drive_trans)

lemma uploadToGoogleDrive_frame: "uploadToGoogleDrive srv flt formData p w = (r, w') \<Longrightarrow> outside_drive w w'"
  unfolding uploadToGoogleDrive_def
  by (auto split: prod.splits sum.splits dest!: upload_try_frame)

lemma upload_stage_frame: "upload_stage srv flt formData p w = (r, w') \<Longrightarrow> outside_drive w w'"
  unfolding upload_stage_def
  by (auto split: prod.splits sum.splits if_splits dest!: uploadToGoogleDrive_frame)

lemma outside_notion_refl [simp]: "outside_notion w w"
  by (simp add: outside_notion_def)

lemma outside_notion_trans: "outside_notion w w1 \<Longrightarrow> outside_notion w1 w2 \<Longrightarrow> outside_notion w w2"
  by (simp add: outside_notion_def)

lemma notion_databases_query_frame: "notion_databases_query flt d k w = (r, w') \<Longrightarrow> outside_notion w w'"
  by (auto simp add: notion_databases_query_def outside_notion_def log_call_def Let_def split: option.splits)

lemma notion_pages_create_frame: "notion_pages_create f d props w = (r, w') \<Longrightarrow> outside_notion w w'"
  by (auto simp add: notion_pages_create_def outside_notion_def log_call_def Let_def split: option.splits)

lemma findCustomerByKennzeichen_frame: "findCustomerByKennzeichen flt d k w = (r, w') \<Longrightarrow> outside_notion w w'"
  unfolding findCustomerByKennzeichen_def
  by (auto split: prod.splits sum.splits dest!: notion_databases_query_frame)

lemma upsert_customer_frame: "upsert_customer flt d formData w = (r, w') \<Longrightarrow> outside_notion w w'"
  unfolding upsert_customer_def
  by (auto split: prod.splits sum.splits option.splits
        dest!: findCustomerByKennzeichen_frame notion_pages_create_frame
        intro: outside_notion_trans)

lemma create_resource_frame: "create_resource flt d formData l c w = (r, w') \<Longrightarrow> outside_notion w w'"
  unfolding create_resource_def
  by (auto split: prod.splits sum.splits dest!: notion_pages_create_frame)

lemma processNotionIntegration_frame:
  "processNotionIntegration srv flt formData l w = (r, w') \<Longrightarrow> outside_notion w w'"
  unfolding processNotionIntegration_def Let_def
  by (auto split: prod.splits if_splits
        dest!: upsert_customer_frame create_resource_frame
        intro: outside_notion_trans)

lemma notion_stage_frame: "notion_stage srv flt formData l w = (r, w') \<Longrightarrow> outside_notion w w'"
  unfolding notion_stage_def
  by (auto split: prod.splits sum.splits if_splits dest!: processNotionIntegration_frame)

section \<open>The sample submission, evaluated\<close>

lemma obj_get_plain: "proto obj = ObjectPrototype \<Longrightarrow> obj_get obj = own obj"
  by (rule ext) (simp add: obj_get_def split: option.splits)

lemma example_keys:
  "normalize_keys example_body empty_object =
     \<lparr>own = [''auftraggeber_name'' \<mapsto> JStr ''Max Mustermann'',
             ''auftraggeber_kennzeichen'' \<mapsto> JStr ''BI-XX 123'',
             ''auftraggeber_adresse'' \<mapsto> JStr ''Teststr 1'',
             ''auftraggeber_kontakt'' \<mapsto> JStr ''max@test.de / 0151123456'',
             ''unfall_tag'' \<mapsto> JStr ''2025-01-01'',
             ''unfall_ort'' \<mapsto> JStr ''Bielefeld''],
      proto = ObjectPrototype\<rparr>"
  by (simp add: example_body_def normalizedKey_def obj_set_def fieldMapping_def
        object_prototype_names_def empty_object_def)

lemma example_fields:
  "normalized_fields example_body =
     [''auftraggeber_name'' \<mapsto> JStr ''Max Mustermann'',
      ''auftraggeber_kennzeichen'' \<mapsto> JStr ''BI-XX 123'',
      ''auftraggeber_adresse'' \<mapsto> JStr ''Teststr 1'',
      ''auftraggeber_kontakt'' \<mapsto> JStr ''max@test.de / 0151123456'',
      ''unfall_tag'' \<mapsto> JStr ''2025-01-01'',
      ''unfall_ort'' \<mapsto> JStr ''Bielefeld'']"
  unfolding normalized_fields_def example_keys
  by (simp add: obj_get_plain)

lemma example_nr: "generated_nr 2025 1735689600123 = ''DS-2025-600123''"
  by (simp add: generated_nr_def slice_last6_def String_of_nat.simps digit_char_def)

lemma example_normalized:
  "normalizeFormData (full_year example_clock) (now_normalize example_clock) example_body
     = example_form"
proof -
  have "normalizeFormData 2025 1735689600123 example_body = example_form"
    unfolding normalizeFormData_def example_fields example_nr example_form_def
    by (simp add: truthy_opt_def)
  then show ?thesis
    by (simp add: example_clock_def)
qed

lemma example_valid: "validateFormData example_form = Inr ()"
  by (simp add: validateFormData_def required_def check_field_def example_form_def trim_def
        is_whitespace_def)

section \<open>Validation before any effect\<close>



lemma check_required_none:
  "find (not_accepted data) fs = None \<Longrightarrow> check_required data fs = Inr ()"
  by (induction fs) (auto simp add: not_accepted_def split: if_splits field_check.splits)

lemma trim_Nil [simp]: "trim [] = []"
  by (simp add: trim_def)















text \<open>The same with the number zero for the name, and with an empty array.\<close>

lemma zero_is_rejected:
  "find (spec_missing c3_zero) required = Some ''auftraggeber_adresse''
   \<and> validateFormData c3_zero = Inl (Error ''Erforderliches Feld fehlt: auftraggeber_name'')"
  by (simp add: spec_missing_def required_def c3_zero_def validateFormData_def check_field_def
        trim_def is_whitespace_def)

lemma empty_array_is_rejected:
  "validateFormData (c3_zero(''auftraggeber_name'' \<mapsto> JArr []))
     = Inl (Error ''Erforderliches Feld fehlt: auftraggeber_name'')"
  by (simp add: required_def c3_zero_def validateFormData_def check_field_def
        trim_def is_whitespace_def attempt_def)

lemma own_toString_raises:
  "validateFormData (c3_zero(''auftraggeber_name'' \<mapsto> JObj [(''toString'', JNum ''1'')]))
     = Inl (TypeError ''data[field].toString is not a function'')"
  by (simp add: required_def c3_zero_def validateFormData_def check_field_def trim_def
        is_whitespace_def)

section \<open>A failed rendering is fatal\<close>

lemma generatePDFFile_frame:
  "calls (snd (generatePDFFile srv clk flt formData w)) = calls w"
  "drive (snd (generatePDFFile srv clk flt formData w)) = drive w"
  "notion (snd (generatePDFFile srv clk flt formData w)) = notion w"
  by (simp_all add: generatePDFFile_def ensure_tempDir_def mkdirSync_recursive_def create_file_def
        Let_def split: option.splits sum.splits)

lemma generatePDFFile_creates:
  "generatePDFFile srv clk flt formData w = (Inr p, w1) \<Longrightarrow>
     p \<in> set (fs_files w1) \<and> set (fs_files w) \<subseteq> set (fs_files w1)"
  by (auto simp add: generatePDFFile_def ensure_tempDir_def mkdirSync_recursive_def create_file_def
        Let_def split: option.splits sum.splits if_splits)

text \<open>
  C1. When the normalised record is valid and \<^verbatim>\<open>generatePDFFile\<close> rejects, the submission
  raises \<^verbatim>\<open>PDF-Generierung fehlgeschlagen\<close>; no call to the object store or to the record
  keeper is made, and both stores are as before.
\<close>

theorem render_failure_is_fatal:
  assumes "validateFormData (normalizeFormData (full_year clk) (now_normalize clk) body) = Inr ()"
      and "fst (generatePDFFile srv clk flt (normalizeFormData (full_year clk) (now_normalize clk) body) w) = Inl e"
  shows "fst (processGutachtenSubmission srv clk flt body w) = Inl (Error ''PDF-Generierung fehlgeschlagen'')
       \<and> calls (snd (processGutachtenSubmission srv clk flt body w)) = calls w
       \<and> drive (snd (processGutachtenSubmission srv clk flt body w)) = drive w
       \<and> notion (snd (processGutachtenSubmission srv clk flt body w)) = notion w"
proof -
  let ?fd = "normalizeFormData (full_year clk) (now_normalize clk) body"
  obtain w1 where g: "generatePDFFile srv clk flt ?fd w = (Inl e, w1)"
    using assms(2) by (cases "generatePDFFile srv clk flt ?fd w") auto
  have p: "processGutachtenSubmission srv clk flt body w = (Inl (Error ''PDF-Generierung fehlgeschlagen''), w1)"
    using assms(1) g by (simp add: processGutachtenSubmission_def)
  have w1: "w1 = snd (generatePDFFile srv clk flt ?fd w)"
    using g by simp
  show ?thesis
    unfolding p by (simp add: w1 generatePDFFile_frame)
qed

lemma example_tempDir: "tempDir example_server = ''/app/temp''"
  by (simp add: tempDir_def path_join_def path_segments_def path_of_def example_server_def)

lemma example_fileName:
  "pdf_fileName example_clock example_form = Inr ''Gutachten_DS-2025-600123_1735689600456.pdf''"
  by (simp add: pdf_fileName_def template_def attempt_def example_form_def example_clock_def
        String_of_nat.simps digit_char_def)

lemma example_path:
  "path_join ''/app/temp'' ''Gutachten_DS-2025-600123_1735689600456.pdf'' = example_pdf"
  by (simp add: path_join_def path_segments_def path_of_def example_pdf_def)

lemma example_parent: "parent_dir example_pdf = ''/app/temp''"
  by (simp add: parent_dir_def path_segments_def path_of_def example_pdf_def)

lemma example_ensure:
  "ensure_tempDir example_server empty_world = Inr (empty_world\<lparr>fs_dirs := [''/app'', ''/app/temp'']\<rparr>)"
  unfolding ensure_tempDir_def example_tempDir
  by (simp add: mkdirSync_recursive_def ancestors_def path_segments_def empty_world_def)

lemma example_open:
  "can_open (empty_world\<lparr>fs_dirs := [''/app'', ''/app/temp'']\<rparr>) example_pdf"
  unfolding can_open_def example_parent
  by (simp add: dir_exists_def example_pdf_def)

lemma example_content: "\<exists>texts. pdf_content today example_form = Inr texts"
  by (simp add: pdf_content_def pdf_parts_def attempt_def plain_def pdf_string_def when_truthy_def
        truthy_opt_def pdf_client_def labelled_def template_def js_or_def pdf_kontakt_def
        pdf_vehicle_def pdf_accident_def pdf_closing_def example_form_def)

lemma empty_files: "fs_files empty_world = []"
  by (simp add: empty_world_def)

lemma example_rendered:
  "render_fault flt = None \<Longrightarrow>
   generatePDFFile example_server example_clock flt example_form empty_world =
     (Inr example_pdf,
      empty_world\<lparr>fs_dirs := [''/app'', ''/app/temp''], fs_files := [example_pdf]\<rparr>)"
  using example_content [of "date_de example_clock"]
  unfolding generatePDFFile_def example_ensure example_fileName example_tempDir
  by (auto simp add: example_path example_open Let_def create_file_def empty_files)

lemma render_broken_fails:
  "fst (generatePDFFile example_server example_clock render_broken example_form empty_world)
     = Inl (Error ''ENOSPC: no space left on device'')"
  using example_content [of "date_de example_clock"]
  unfolding generatePDFFile_def example_ensure example_fileName example_tempDir
  by (auto simp add: example_path example_open Let_def render_broken_def no_faults_def)

theorem render_failure_is_fatal_witness:
  "validateFormData (normalizeFormData (full_year example_clock) (now_normalize example_clock)
      example_body) = Inr ()
   \<and> fst (generatePDFFile example_server example_clock render_broken
            (normalizeFormData (full_year example_clock) (now_normalize example_clock) example_body)
            empty_world) = Inl (Error ''ENOSPC: no space left on device'')
   \<and> fst (processGutachtenSubmission example_server example_clock render_broken example_body
            empty_world) = Inl (Error ''PDF-Generierung fehlgeschlagen'')
   \<and> calls (snd (processGutachtenSubmission example_server example_clock render_broken
            example_body empty_world)) = []"
proof -
  have v: "validateFormData (normalizeFormData (full_year example_clock)
             (now_normalize example_clock) example_body) = Inr ()"
    by (simp add: example_normalized example_valid)
  have g: "fst (generatePDFFile example_server example_clock render_broken
             (normalizeFormData (full_year example_clock) (now_normalize example_clock)
                example_body) empty_world) = Inl (Error ''ENOSPC: no space left on device'')"
    by (simp add: example_normalized render_broken_fails)
  have "calls empty_world = []"
    by (simp add: empty_world_def)
  with render_failure_is_fatal [OF v g] v g show ?thesis
    by simp
qed

text \<open>
  An order number with a \<^verbatim>\<open>/\<close> in it names a file in a directory that does not exist: the
  write stream fails, and with it the submission.
\<close>

lemma slash_in_order_number:
  "fst (generatePDFFile example_server example_clock no_faults
          (example_form(''gutachten_nr'' \<mapsto> JStr ''a/b'')) empty_world)
     = Inl (Error ''ENOENT: no such file or directory, open /app/temp/Gutachten_a/b_1735689600456.pdf'')"
proof -
  let ?fd = "example_form(''gutachten_nr'' \<mapsto> JStr ''a/b'')"
  have n: "pdf_fileName example_clock ?fd = Inr ''Gutachten_a/b_1735689600456.pdf''"
    by (simp add: pdf_fileName_def template_def attempt_def example_clock_def
        String_of_nat.simps digit_char_def)
  have p: "path_join ''/app/temp'' ''Gutachten_a/b_1735689600456.pdf''
             = ''/app/temp/Gutachten_a/b_1735689600456.pdf''"
    by (simp add: path_join_def path_segments_def path_of_def)
  have d: "parent_dir ''/app/temp/Gutachten_a/b_1735689600456.pdf'' = ''/app/temp/Gutachten_a''"
    by (simp add: parent_dir_def path_segments_def path_of_def)
  have o: "\<not> can_open (empty_world\<lparr>fs_dirs := [''/app'', ''/app/temp'']\<rparr>)
             ''/app/temp/Gutachten_a/b_1735689600456.pdf''"
    unfolding can_open_def d by (simp add: dir_exists_def)
  have c: "\<exists>texts. pdf_content today ?fd = Inr texts" for today
    by (simp add: pdf_content_def pdf_parts_def attempt_def plain_def pdf_string_def when_truthy_def
        truthy_opt_def pdf_client_def labelled_def template_def js_or_def pdf_kontakt_def
        pdf_vehicle_def pdf_accident_def pdf_closing_def example_form_def)
  show ?thesis
    using c [of "date_de example_clock"]
    unfolding generatePDFFile_def example_ensure n example_tempDir
    by (auto simp add: p o Let_def)
qed

section \<open>Decimal strings and the generated order number\<close>

lemma digit_cases: "d < 10 \<Longrightarrow> d \<in> {0, 1, 2, 3, 4, 5, 6, 7, 8, 9::nat}"
  by auto

lemma digit_char_value: "d < 10 \<Longrightarrow> digit_value (digit_char d) = d"
  by (drule digit_cases) (auto simp add: digit_char_def digit_value_def)

lemma digit_char_is_digit: "d < 10 \<Longrightarrow> is_digit (digit_char d)"
  by (drule digit_cases) (auto simp add: digit_char_def is_digit_def)

lemma is_digit_value: "is_digit c \<Longrightarrow> digit_value c < 10"
  by (auto simp add: is_digit_def digit_value_def)

lemma decimal_value_snoc: "decimal_value (s @ [c]) = 10 * decimal_value s + digit_value c"
  by (simp add: decimal_value_def)

lemma decimal_value_String: "decimal_value (String_of_nat n) = n"
proof (induction n rule: String_of_nat.induct)
  case (1 n)
  show ?case
  proof (cases "n < 10")
    case True
    then show ?thesis
      by (simp add: String_of_nat.simps [of n] decimal_value_def digit_char_value)
  next
    case False
    then show ?thesis
      using "1" by (simp add: String_of_nat.simps [of n] decimal_value_snoc digit_char_value)
  qed
qed

lemma String_of_nat_digits: "list_all is_digit (String_of_nat n)"
proof (induction n rule: String_of_nat.induct)
  case (1 n)
  show ?case
  proof (cases "n < 10")
    case True
    then show ?thesis
      by (simp add: String_of_nat.simps [of n] digit_char_is_digit)
  next
    case False
    then show ?thesis
      using "1" by (simp add: String_of_nat.simps [of n] digit_char_is_digit)
  qed
qed

lemma String_of_nat_not_empty: "String_of_nat n \<noteq> []"
  by (simp add: String_of_nat.simps [of n])

lemma String_of_nat_inj: "String_of_nat m = String_of_nat n \<Longrightarrow> m = n"
  by (metis decimal_value_String)

lemma decimal_value_append:
  "decimal_value (a @ b) = decimal_value a * 10 ^ length b + decimal_value b"
proof (induction b rule: rev_induct)
  case Nil
  then show ?case by (simp add: decimal_value_def)
next
  case (snoc c b)
  have "decimal_value (a @ b @ [c]) = 10 * decimal_value (a @ b) + digit_value c"
    using decimal_value_snoc [of "a @ b" c] by simp
  then show ?case
    by (simp add: snoc decimal_value_snoc algebra_simps)
qed

lemma decimal_value_bound: "list_all is_digit s \<Longrightarrow> decimal_value s < 10 ^ length s"
proof (induction s rule: rev_induct)
  case Nil
  then show ?case by (simp add: decimal_value_def)
next
  case (snoc c s)
  then have "decimal_value s < 10 ^ length s" and "digit_value c < 10"
    by (simp_all add: is_digit_value)
  then have "10 * decimal_value s + digit_value c < 10 * 10 ^ length s"
    by arith
  then show ?case
    by (simp add: decimal_value_snoc)
qed

lemma slice_last6_value:
  assumes "list_all is_digit s"
  shows "decimal_value (slice_last6 s) = decimal_value s mod 10 ^ 6"
proof -
  let ?k = "length s - 6"
  have d: "list_all is_digit (drop ?k s)"
    using assms set_drop_subset [of ?k s] by (auto simp add: list_all_iff)
  have split: "decimal_value s = decimal_value (take ?k s) * 10 ^ length (drop ?k s) + decimal_value (drop ?k s)"
    using decimal_value_append [of "take ?k s" "drop ?k s"] by simp
  show ?thesis
  proof (cases "6 \<le> length s")
    case True
    then have l: "length (drop ?k s) = 6" by simp
    have "decimal_value (drop ?k s) < 10 ^ 6"
      using decimal_value_bound [OF d] l by simp
    then show ?thesis
      using split l by (simp add: slice_last6_def)
  next
    case False
    then have k: "?k = 0" by simp
    have "decimal_value s < 10 ^ length s"
      using decimal_value_bound [OF assms] .
    also have "(10::nat) ^ length s \<le> 10 ^ 6"
      using False by (intro power_increasing) simp_all
    finally show ?thesis
      by (simp add: slice_last6_def k)
  qed
qed

lemma slice_last6_digits: "list_all is_digit s \<Longrightarrow> list_all is_digit (slice_last6 s)"
  using set_drop_subset [of "length s - 6" s]
  by (auto simp add: slice_last6_def list_all_iff)

lemma suffix_value: "decimal_value (slice_last6 (String_of_nat now)) = now mod 10 ^ 6"
  using slice_last6_value [OF String_of_nat_digits, of now]
  by (simp only: decimal_value_String)

lemma not_digit_dash: "\<not> is_digit CHR ''-''"
  by (simp add: is_digit_def)

lemma digits_no_dash: "list_all is_digit s \<Longrightarrow> CHR ''-'' \<notin> set s"
  using not_digit_dash by (induction s) auto

lemma takeWhile_until: "c \<notin> set a \<Longrightarrow> takeWhile (\<lambda>x. x \<noteq> c) (a @ c # b) = a"
  by (induction a) auto

lemma dash_split:
  assumes "a @ ''-'' @ b = c @ ''-'' @ d" and "CHR ''-'' \<notin> set a" and "CHR ''-'' \<notin> set c"
  shows "a = c \<and> b = d"
proof -
  have "takeWhile (\<lambda>x. x \<noteq> CHR ''-'') (a @ ''-'' @ b) = a"
    using assms(2) by (simp add: takeWhile_until)
  moreover have "takeWhile (\<lambda>x. x \<noteq> CHR ''-'') (c @ ''-'' @ d) = c"
    using assms(3) by (simp add: takeWhile_until)
  ultimately have "a = c"
    using assms(1) by simp
  then show ?thesis
    using assms(1) by simp
qed

lemma generated_nr_inj:
  assumes "generated_nr y n = generated_nr y' n'"
  shows "y = y' \<and> n mod 10 ^ 6 = n' mod 10 ^ 6"
proof -
  have "String_of_nat y @ ''-'' @ slice_last6 (String_of_nat n)
          = String_of_nat y' @ ''-'' @ slice_last6 (String_of_nat n')"
    using assms by (simp add: generated_nr_def)
  then have "String_of_nat y = String_of_nat y'
      \<and> slice_last6 (String_of_nat n) = slice_last6 (String_of_nat n')"
    by (rule dash_split) (simp_all add: digits_no_dash String_of_nat_digits)
  then show ?thesis
    by (metis String_of_nat_inj suffix_value)
qed

lemma generated_nr_not_empty: "generated_nr year now \<noteq> []"
  by (simp add: generated_nr_def)

lemma example_nr_later: "generated_nr 2025 1735689600124 = ''DS-2025-600124''"
  by (simp add: generated_nr_def slice_last6_def String_of_nat.simps digit_char_def)

lemma example_no_nr: "normalized_fields example_body ''gutachten_nr'' = None"
  by (simp add: example_fields)

text \<open>
  C8. When the object filled from the keys of the submission has no \<^verbatim>\<open>gutachten_nr\<close>, the
  normalised record has the generated order number \<^verbatim>\<open>DS-<year>-<suffix>\<close>. It is not empty; its suffix is
  the last six digits of the time in milliseconds, whose value is the time modulo
  \<open>10 ^ 6\<close>. Two generated numbers differ whenever the years differ or the two times
  differ modulo \<open>10 ^ 6\<close>, so of any million consecutive milliseconds no two give the
  same number.
\<close>

theorem generated_order_number:
  assumes "normalized_fields body ''gutachten_nr'' = None"
  shows "normalizeFormData year now body ''gutachten_nr'' = Some (JStr (generated_nr year now))
       \<and> generated_nr year now
           = ''DS-'' @ String_of_nat year @ ''-'' @ slice_last6 (String_of_nat now)
       \<and> generated_nr year now \<noteq> []
       \<and> decimal_value (slice_last6 (String_of_nat now)) = now mod 10 ^ 6
       \<and> (year \<noteq> year' \<or> now mod 10 ^ 6 \<noteq> now' mod 10 ^ 6 \<longrightarrow>
            generated_nr year now \<noteq> generated_nr year' now')"
proof -
  have "normalizeFormData year now body ''gutachten_nr'' = Some (JStr (generated_nr year now))"
    using assms by (simp add: normalizeFormData_def truthy_opt_def)
  moreover have "generated_nr year now
           = ''DS-'' @ String_of_nat year @ ''-'' @ slice_last6 (String_of_nat now)"
    by (simp add: generated_nr_def)
  moreover have "year \<noteq> year' \<or> now mod 10 ^ 6 \<noteq> now' mod 10 ^ 6 \<longrightarrow>
            generated_nr year now \<noteq> generated_nr year' now'"
    using generated_nr_inj [of year now year' now'] by blast
  ultimately show ?thesis
    using generated_nr_not_empty [of year now] suffix_value [of now] by blast
qed

theorem generated_order_number_witness:
  "normalized_fields example_body ''gutachten_nr'' = None
   \<and> normalizeFormData 2025 1735689600123 example_body ''gutachten_nr''
        = Some (JStr (generated_nr 2025 1735689600123))
   \<and> generated_nr 2025 1735689600123 = ''DS-2025-600123''
   \<and> (1735689600123::nat) mod 10 ^ 6 \<noteq> 1735689600124 mod 10 ^ 6
   \<and> generated_nr 2025 1735689600123 \<noteq> generated_nr 2025 1735689600124"
proof -
  have m: "(1735689600123::nat) mod 10 ^ 6 \<noteq> 1735689600124 mod 10 ^ 6"
    by simp
  show ?thesis
    using generated_order_number [OF example_no_nr, of 2025 1735689600123 2025 1735689600124]
      m example_no_nr example_nr
    by blast
qed

text \<open>The suffix repeats after 1000 seconds.\<close>

lemma generated_nr_repeats: "generated_nr 2025 1735689600123 = generated_nr 2025 1735690600123"
  by (simp add: generated_nr_def slice_last6_def String_of_nat.simps digit_char_def)

section \<open>The normalised keys\<close>

lemma split_not_Nil: "split c s \<noteq> []"
  by (induction s) (auto split: list.splits)

lemma split_single: "split c s = [p] \<Longrightarrow> p = s \<and> c \<notin> set s"
  by (induction s arbitrary: p) (auto simp add: split_not_Nil split: if_splits list.splits)

lemma split_two:
  "split c s = [p, q] \<Longrightarrow> s = p @ c # q \<and> c \<notin> set p \<and> c \<notin> set q"
proof (induction s arbitrary: p)
  case Nil
  then show ?case by simp
next
  case (Cons x xs)
  show ?case
  proof (cases "x = c")
    case True
    then have "p = []" and "split c xs = [q]"
      using Cons.prems by simp_all
    then show ?thesis
      using True split_single [of c xs q] by simp
  next
    case False
    then obtain p' where "split c xs = [p', q]" and "p = x # p'"
      using Cons.prems by (auto split: list.splits)
    then show ?thesis
      using Cons.IH [of p'] False by simp
  qed
qed

lemma replace_dots_none: "CHR ''.'' \<notin> set s \<Longrightarrow> replace_dots s = s"
  by (induction s) (auto simp add: replace_dots_def)

lemma replace_dots_append: "replace_dots (a @ b) = replace_dots a @ replace_dots b"
  by (simp add: replace_dots_def)

lemma two_parts:
  assumes "split (CHR ''.'') key = parts" and "length parts = 2"
  shows "(parts ! 0) @ ''_'' @ (parts ! 1) = replace_dots key"
proof -
  obtain p q where pq: "parts = [p, q]"
    using assms(2) by (cases parts; cases "tl parts") auto
  then have "key = p @ CHR ''.'' # q \<and> CHR ''.'' \<notin> set p \<and> CHR ''.'' \<notin> set q"
    using assms(1) split_two by blast
  then have "replace_dots key = p @ ''_'' @ q"
    using replace_dots_append [of p "CHR ''.'' # q"] replace_dots_append [of "''.''" q]
    by (simp add: replace_dots_none) (simp add: replace_dots_def)
  then show ?thesis
    by (simp add: pq)
qed

lemma normalizedKey_spec:
  "key \<notin> set object_prototype_names \<Longrightarrow> normalizedKey key = spec_key key"
proof (cases "CHR ''.'' \<in> set key")
  case True
  have "key \<noteq> ''gutachtenNr''"
    using True by auto
  then show ?thesis
    using True two_parts [of key "split (CHR ''.'') key"]
    by (simp add: normalizedKey_def spec_key_def Let_def)
next
  case False
  assume "key \<notin> set object_prototype_names"
  then show ?thesis
    using False by (simp add: normalizedKey_def spec_key_def fieldMapping_def)
qed


lemma obj_set_own_other: "k' \<noteq> k \<Longrightarrow> own (obj_set obj k v) k' = own obj k'"
  by (simp add: obj_set_def set_prototype_def split: jsval.splits)

lemma obj_set_plain:
  "k \<noteq> ''__proto__'' \<Longrightarrow> proto (obj_set obj k v) = proto obj \<and> own (obj_set obj k v) k = Some v"
  by (simp add: obj_set_def)

lemma normalize_keys_other:
  "k' \<notin> (normalizedKey \<circ> fst) ` set body \<Longrightarrow> own (normalize_keys body obj) k' = own obj k'"
  by (induction body arbitrary: obj) (auto simp add: obj_set_own_other)

lemma normalize_keys_proto:
  "''__proto__'' \<notin> (normalizedKey \<circ> fst) ` set body \<Longrightarrow> proto (normalize_keys body obj) = proto obj"
  by (induction body arbitrary: obj) (auto simp add: obj_set_plain)

lemma normalize_keys_lookup:
  assumes "distinct (map (normalizedKey \<circ> fst) body)" and "(k, v) \<in> set body"
      and "normalizedKey k \<noteq> ''__proto__''"
  shows "own (normalize_keys body obj) (normalizedKey k) = Some v"
  using assms
proof (induction body arbitrary: obj)
  case Nil
  then show ?case by simp
next
  case (Cons kv body)
  obtain k0 v0 where kv: "kv = (k0, v0)" by (cases kv)
  show ?case
  proof (cases "(k, v) = kv")
    case True
    have "normalizedKey (fst kv) \<notin> (normalizedKey \<circ> fst) ` set body"
      using Cons.prems(1) by simp
    then have "normalizedKey k \<notin> (normalizedKey \<circ> fst) ` set body"
      using True by (metis fst_conv)
    then have "own (normalize_keys body (obj_set obj (normalizedKey k) v)) (normalizedKey k)
                 = own (obj_set obj (normalizedKey k) v) (normalizedKey k)"
      by (rule normalize_keys_other)
    then show ?thesis
      using True [symmetric] Cons.prems(3) by (simp add: obj_set_plain)
  next
    case False
    then have "(k, v) \<in> set body"
      using Cons.prems(2) by simp
    then show ?thesis
      using Cons.IH [of "obj_set obj (normalizedKey k0) v0"] Cons.prems(1,3) kv by simp
  qed
qed

lemma normalized_fields_own:
  "''__proto__'' \<notin> (normalizedKey \<circ> fst) ` set body \<Longrightarrow>
   normalized_fields body = own (normalize_keys body empty_object)"
  unfolding normalized_fields_def
  by (rule obj_get_plain) (simp add: normalize_keys_proto empty_object_def)

lemma spec_key_one_dot:
  "CHR ''.'' \<notin> set a \<Longrightarrow> CHR ''.'' \<notin> set b \<Longrightarrow> spec_key (a @ ''.'' @ b) = a @ ''_'' @ b"
proof -
  assume a: "CHR ''.'' \<notin> set a" and b: "CHR ''.'' \<notin> set b"
  have "a @ ''.'' @ b \<noteq> ''gutachtenNr''"
  proof
    assume "a @ ''.'' @ b = ''gutachtenNr''"
    then have "CHR ''.'' \<in> set ''gutachtenNr''"
      by (metis in_set_conv_decomp append_Cons append_Nil)
    then show False by simp
  qed
  moreover have "replace_dots (a @ ''.'' @ b) = a @ ''_'' @ b"
    using replace_dots_append [of a "''.'' @ b"] replace_dots_append [of "''.''" b]
      replace_dots_none [OF a] replace_dots_none [OF b]
    by (simp add: replace_dots_def)
  ultimately show ?thesis
    by (simp add: spec_key_def)
qed

lemma normalize_gutachten_nr_kept:
  "truthy_opt (normalized_fields body ''gutachten_nr'') \<Longrightarrow>
     normalizeFormData year now body = normalized_fields body"
  by (simp add: normalizeFormData_def)

lemma normalize_gutachten_nr_generated:
  "\<not> truthy_opt (normalized_fields body ''gutachten_nr'') \<Longrightarrow>
     normalizeFormData year now body ''gutachten_nr'' = Some (JStr (generated_nr year now))"
  by (simp add: normalizeFormData_def)

lemma normalize_other_keys:
  "k \<noteq> ''gutachten_nr'' \<Longrightarrow> normalizeFormData year now body k = normalized_fields body k"
  by (simp add: normalizeFormData_def Let_def)

lemma c4_distinct: "distinct (map (spec_key \<circ> fst) c4_empty_nr)"
  by (simp add: c4_empty_nr_def spec_key_def replace_dots_def)

lemma c4_plain: "list_all (\<lambda>(k, x). k \<notin> set object_prototype_names \<and> spec_key k \<noteq> ''__proto__'') c4_empty_nr"
  by (simp add: c4_empty_nr_def spec_key_def replace_dots_def object_prototype_names_def)

lemma c4_members:
  "(''gutachtenNr'', JStr []) \<in> set c4_empty_nr"
  "(''auftraggeber.name'', JStr ''Max Mustermann'') \<in> set c4_empty_nr"
  by (simp_all add: c4_empty_nr_def)

lemma c4_spec_keys:
  "spec_key ''gutachtenNr'' = ''gutachten_nr''"
  "spec_key ''auftraggeber.name'' = ''auftraggeber_name''"
  "''kennzeichen'' \<notin> (spec_key \<circ> fst) ` set c4_empty_nr"
  by (simp_all add: c4_empty_nr_def spec_key_def replace_dots_def)

text \<open>
  C4, as the source has it. Take a submission in which no key is a name that objects
  inherit from \<^verbatim>\<open>Object.prototype\<close>, no normalised name is \<^verbatim>\<open>__proto__\<close>, and no two keys
  have the same normalised name. Then every key is stored under the name the
  specification gives (the alias rewritten, each dot replaced by an underscore, so
  \<^verbatim>\<open>a.b\<close> becomes \<^verbatim>\<open>a_b\<close>, every other key kept) with its own value, except that an order
  number whose value is falsy is replaced by the generated one; and apart from
  \<^verbatim>\<open>gutachten_nr\<close> the record has no other key.
\<close>

theorem normalized_keys:
  assumes "distinct (map (spec_key \<circ> fst) body)"
      and "\<forall>(k, x) \<in> set body. k \<notin> set object_prototype_names \<and> spec_key k \<noteq> ''__proto__''"
      and "(key, v) \<in> set body"
  shows "normalizedKey key = spec_key key
       \<and> (spec_key key \<noteq> ''gutachten_nr'' \<or> truthy v \<longrightarrow>
            normalizeFormData year now body (spec_key key) = Some v)
       \<and> (spec_key key = ''gutachten_nr'' \<and> \<not> truthy v \<longrightarrow>
            normalizeFormData year now body (spec_key key) = Some (JStr (generated_nr year now)))
       \<and> (k' \<notin> (spec_key \<circ> fst) ` set body \<and> k' \<noteq> ''gutachten_nr'' \<longrightarrow>
            normalizeFormData year now body k' = None)
       \<and> (key = a @ ''.'' @ b \<and> CHR ''.'' \<notin> set a \<and> CHR ''.'' \<notin> set b \<longrightarrow>
            spec_key key = a @ ''_'' @ b)"
proof -
  have same: "normalizedKey k = spec_key k" if "k \<in> fst ` set body" for k
    using that assms(2) by (auto simp add: normalizedKey_spec)
  then have m: "map (normalizedKey \<circ> fst) body = map (spec_key \<circ> fst) body"
    by simp
  have i: "(normalizedKey \<circ> fst) ` set body = (spec_key \<circ> fst) ` set body"
    using same by (auto simp add: image_iff) force+
  have "''__proto__'' \<notin> (spec_key \<circ> fst) ` set body"
    using assms(2) by auto
  then have f: "normalized_fields body = own (normalize_keys body empty_object)"
    using normalized_fields_own [of body] i by simp
  have key: "normalizedKey key = spec_key key"
    using same assms(3) by force
  have "spec_key key \<noteq> ''__proto__''"
    using assms(2,3) by auto
  then have l: "normalized_fields body (spec_key key) = Some v"
    using normalize_keys_lookup [of body key v empty_object] assms(1,3) m key f by simp
  have c2: "spec_key key \<noteq> ''gutachten_nr'' \<or> truthy v \<longrightarrow>
            normalizeFormData year now body (spec_key key) = Some v"
  proof (cases "spec_key key = ''gutachten_nr''")
    case True
    then show ?thesis
      using l by (auto simp add: normalize_gutachten_nr_kept truthy_opt_def)
  next
    case False
    then show ?thesis
      using l by (simp add: normalize_other_keys)
  qed
  have c3: "spec_key key = ''gutachten_nr'' \<and> \<not> truthy v \<longrightarrow>
            normalizeFormData year now body (spec_key key) = Some (JStr (generated_nr year now))"
    using l normalize_gutachten_nr_generated [of body year now] by (auto simp add: truthy_opt_def)
  have c4: "k' \<notin> (spec_key \<circ> fst) ` set body \<and> k' \<noteq> ''gutachten_nr'' \<longrightarrow>
            normalizeFormData year now body k' = None"
    using normalize_keys_other [of k' body empty_object] i f
    by (simp add: normalize_other_keys empty_object_def)
  show ?thesis
    using key c2 c3 c4 spec_key_one_dot [of a b] by blast
qed

theorem normalized_keys_witness:
  "distinct (map (spec_key \<circ> fst) c4_empty_nr)
   \<and> (''gutachtenNr'', JStr []) \<in> set c4_empty_nr
   \<and> (''auftraggeber.name'', JStr ''Max Mustermann'') \<in> set c4_empty_nr
   \<and> normalizedKey ''gutachtenNr'' = ''gutachten_nr''
   \<and> normalizedKey ''auftraggeber.name'' = ''auftraggeber_name''
   \<and> normalizeFormData 2025 1735689600123 c4_empty_nr ''gutachten_nr''
        = Some (JStr ''DS-2025-600123'')
   \<and> normalizeFormData 2025 1735689600123 c4_empty_nr ''auftraggeber_name''
        = Some (JStr ''Max Mustermann'')
   \<and> normalizeFormData 2025 1735689600123 c4_empty_nr ''kennzeichen'' = None"
proof -
  have p: "\<forall>(k, x) \<in> set c4_empty_nr. k \<notin> set object_prototype_names \<and> spec_key k \<noteq> ''__proto__''"
    using c4_plain by (simp add: list_all_iff)
  show ?thesis
    using normalized_keys [OF c4_distinct p c4_members(1),
            of 2025 1735689600123 "''kennzeichen''" "''x''" "''y''"]
      normalized_keys [OF c4_distinct p c4_members(2),
            of 2025 1735689600123 "''kennzeichen''" "''auftraggeber''" "''name''"]
      c4_distinct c4_members c4_spec_keys(3)
    by (simp add: c4_spec_keys(1,2) example_nr)
qed

text \<open>
  C4 as stated fails when two keys share a normalised name: the later one overwrites
  the earlier, so \<^verbatim>\<open>a.b\<close> is not stored under \<^verbatim>\<open>a_b\<close> with its own value.
\<close>

theorem same_value_counterexample:
  "distinct (map fst c4_body)
   \<and> (''a.b'', JStr ''1'') \<in> set c4_body
   \<and> spec_key ''a.b'' = ''a_b''
   \<and> normalizeFormData 2025 1735689600123 c4_body ''a_b'' = Some (JStr ''2'')"
  by (simp add: c4_body_def spec_key_def replace_dots_def normalizeFormData_def normalizedKey_def
        normalized_fields_def obj_get_def empty_object_def
        obj_set_def fieldMapping_def object_prototype_names_def truthy_opt_def)

text \<open>A key that names a member of \<^verbatim>\<open>Object.prototype\<close> is not kept.\<close>

lemma inherited_key_not_kept:
  "normalizeFormData 2025 1735689600123 [(''toString'', JStr ''x'')] ''toString'' = None
   \<and> normalizeFormData 2025 1735689600123 [(''toString'', JStr ''x'')]
        ''function toString() { [native code] }'' = Some (JStr ''x'')"
  by (simp add: normalizeFormData_def normalizedKey_def obj_set_def fieldMapping_def
        normalized_fields_def obj_get_def empty_object_def
        object_prototype_names_def truthy_opt_def inherited_as_key_def)

text \<open>
  The key \<^verbatim>\<open>__proto__\<close> sets the prototype of the record: with \<^verbatim>\<open>null\<close> the record has none,
  and a second assignment then writes a property; with an object the record reads the
  fields it lacks from that object.
\<close>

lemma proto_key_null:
  "normalize_keys [(''_.proto__'', JNull), (''._proto__'', JStr ''x'')] empty_object
     = \<lparr>own = [''__proto__'' \<mapsto> JStr ''x''], proto = NoPrototype\<rparr>"
  by (simp add: normalizedKey_def obj_set_def empty_object_def accessor_reached_def
        set_prototype_def)

lemma proto_key_object:
  "normalized_fields [(''_.proto__'', JObj [(''auftraggeber_name'', JStr ''Eve'')])]
     ''auftraggeber_name'' = Some (JStr ''Eve'')"
  by (simp add: normalized_fields_def normalizedKey_def obj_set_def empty_object_def
        accessor_reached_def set_prototype_def obj_get_def)

section \<open>The contact string\<close>

lemma split_unfold:
  "split c s = takeWhile (\<lambda>x. x \<noteq> c) s
     # (if c \<in> set s then split c (drop 1 (dropWhile (\<lambda>x. x \<noteq> c) s)) else [])"
  by (induction s) (auto simp add: split_not_Nil split: list.splits)

lemma at_0: "at (split c s) 0 = Some (takeWhile (\<lambda>x. x \<noteq> c) s)"
proof -
  obtain rest where "split c s = takeWhile (\<lambda>x. x \<noteq> c) s # rest"
    using split_unfold [of c s] by blast
  then show ?thesis
    by (simp add: at_def)
qed

lemma at_1:
  "at (split c s) (Suc 0) =
     (if c \<in> set s then Some (takeWhile (\<lambda>x. x \<noteq> c) (drop 1 (dropWhile (\<lambda>x. x \<noteq> c) s)))
      else None)"
proof (cases "c \<in> set s")
  case True
  let ?r = "drop 1 (dropWhile (\<lambda>x. x \<noteq> c) s)"
  have "split c s = takeWhile (\<lambda>x. x \<noteq> c) s # split c ?r"
    using split_unfold [of c s] True by simp
  moreover obtain rest where "split c ?r = takeWhile (\<lambda>x. x \<noteq> c) ?r # rest"
    using split_unfold [of c ?r] by blast
  ultimately have "split c s = takeWhile (\<lambda>x. x \<noteq> c) s # takeWhile (\<lambda>x. x \<noteq> c) ?r # rest"
    by simp
  then show ?thesis
    using True by (simp add: at_def)
next
  case False
  then have "split c s = [takeWhile (\<lambda>x. x \<noteq> c) s]"
    using split_unfold [of c s] by simp
  then show ?thesis
    using False by (simp add: at_def)
qed

lemma not_slash_fun: "not_slash = (\<lambda>x. x \<noteq> CHR ''/'')"
  by (rule ext) (simp add: not_slash_def)

lemma at_map: "at (map f xs) i = map_option f (at xs i)"
  by (simp add: at_def)

lemma pdf_email_spec: "pdf_email kontakt = spec_email kontakt"
  by (simp add: pdf_email_def spec_email_def at_map at_0 part_or_empty_def not_slash_fun)

lemma no_slash_rest: "CHR ''/'' \<notin> set s \<Longrightarrow> dropWhile not_slash s = []"
  by (induction s) (auto simp add: not_slash_def)

lemma pdf_phone_segment: "pdf_phone kontakt = second_segment kontakt"
proof (cases "CHR ''/'' \<in> set kontakt")
  case True
  then show ?thesis
    by (simp add: pdf_phone_def second_segment_def at_map at_1 part_or_empty_def not_slash_fun)
next
  case False
  then show ?thesis
    by (simp add: pdf_phone_def second_segment_def at_map at_1 part_or_empty_def no_slash_rest)
qed

lemma trimmed_part_at: "trimmed_part (at xs i) = part_or_empty (at (map trim xs) i)"
  by (simp add: trimmed_part_def part_or_empty_def at_def)

lemma kontakte_email_phone:
  assumes "formData ''auftraggeber_kontakt'' = Some (JStr kontakt)"
  shows "\<exists>props. buildKontakteProperties formData = Inr props
           \<and> k_Email props = spec_email kontakt
           \<and> k_Phone props = (if second_segment kontakt = [] then None
                               else Some (second_segment kontakt))"
proof (cases "kontakt = []")
  case True
  then show ?thesis
    using assms
    by (simp add: buildKontakteProperties_def kontaktParts_def truthy_opt_def at_def
          trimmed_part_def spec_email_def second_segment_def Let_def)
next
  case False
  then have "kontaktParts (formData ''auftraggeber_kontakt'') = Inr (split (CHR ''/'') kontakt)"
    using assms by (simp add: kontaktParts_def truthy_opt_def)
  then show ?thesis
    using pdf_email_spec [of kontakt] pdf_phone_segment [of kontakt]
    by (simp add: buildKontakteProperties_def Let_def trimmed_part_at pdf_email_def pdf_phone_def)
qed

lemma pdf_kontakt_string:
  assumes "formData ''auftraggeber_kontakt'' = Some (JStr kontakt)"
  shows "pdf_kontakt formData =
           Inr [Text (''E-Mail: '' @ spec_email kontakt),
                Text (''Telefon: '' @ second_segment kontakt)]"
  using assms
  by (cases "kontakt = []")
     (simp_all add: pdf_kontakt_def js_or_def truthy_opt_def pdf_email_spec pdf_phone_segment)

lemma pdf_client_lines:
  assumes "formData ''auftraggeber_kontakt'' = Some (JStr kontakt)"
      and "template (formData ''auftraggeber_name'') = Inr name"
      and "template (js_or (formData ''auftraggeber_adresse'') (Some (JStr []))) = Inr adresse"
      and "template (formData ''auftraggeber_kennzeichen'') = Inr kennzeichen"
  shows "pdf_client formData =
           Inr [Text (''Auftraggeber (Gesch'' @ [CHR 0xE4] @ ''digter)''),
                Text (''Name: '' @ name),
                Text (''Adresse: '' @ adresse),
                Text (''E-Mail: '' @ spec_email kontakt),
                Text (''Telefon: '' @ second_segment kontakt),
                Text (''Kennzeichen: '' @ kennzeichen)]"
  unfolding pdf_client_def
  using assms pdf_kontakt_string [of formData kontakt]
  by (simp add: pdf_parts_def labelled_def attempt_def)

lemma c9_form_kontakt: "c9_form ''auftraggeber_kontakt'' = Some (JStr c9_kontakt)"
  by (simp add: c9_form_def)

lemma c9_form_texts:
  "template (c9_form ''auftraggeber_name'') = Inr ''Max Mustermann''"
  "template (js_or (c9_form ''auftraggeber_adresse'') (Some (JStr []))) = Inr ''Teststr 1''"
  "template (c9_form ''auftraggeber_kennzeichen'') = Inr ''BI-XX 123''"
  by (simp_all add: c9_form_def example_form_def template_def js_or_def truthy_opt_def)

lemma c9_values:
  "spec_email c9_kontakt = ''max@test.de''" "second_segment c9_kontakt = ''0521''"
  "spec_phone c9_kontakt = ''0521/123456''"
  by (simp_all add: c9_kontakt_def spec_email_def second_segment_def spec_phone_def not_slash_def
        trim_def is_whitespace_def)

text \<open>
  C9, as the source has it. For every contact string the e-mail address is the trimmed
  text before the first \<^verbatim>\<open>/\<close>, and the telephone number is the trimmed text between the
  first \<^verbatim>\<open>/\<close> and the next one (up to the end when there is no other, empty when there
  is no \<^verbatim>\<open>/\<close>). The document prints both in its client section, after the name and the
  address and before the plate, as the fourth and the fifth line of the section when
  these three can be converted to text; and the contact entry stores both, an empty
  telephone number as \<^verbatim>\<open>null\<close>.
\<close>

theorem contact_string_parts:
  assumes "formData ''auftraggeber_kontakt'' = Some (JStr kontakt)"
  shows "pdf_content today formData =
           pdf_parts
             [Inr pdf_header,
              Inr [Text ''Gutachten Nr.:''],
              plain (formData ''gutachten_nr''),
              when_truthy (formData ''abtretung'') (Inr [Tick '' Abtretung'']),
              pdf_parts
                [Inr [Text (''Auftraggeber (Gesch'' @ [CHR 0xE4] @ ''digter)'')],
                 labelled ''Name: '' (formData ''auftraggeber_name''),
                 labelled ''Adresse: '' (js_or (formData ''auftraggeber_adresse'') (Some (JStr []))),
                 Inr [Text (''E-Mail: '' @ spec_email kontakt),
                      Text (''Telefon: '' @ second_segment kontakt)],
                 labelled ''Kennzeichen: '' (formData ''auftraggeber_kennzeichen'')],
              pdf_vehicle formData,
              pdf_accident formData,
              pdf_closing today formData]
       \<and> (template (formData ''auftraggeber_name'') = Inr name
          \<and> template (js_or (formData ''auftraggeber_adresse'') (Some (JStr []))) = Inr adresse
          \<and> template (formData ''auftraggeber_kennzeichen'') = Inr kennzeichen \<longrightarrow>
            (\<exists>client. pdf_client formData = Inr client \<and> length client = 6
               \<and> client ! 3 = Text (''E-Mail: '' @ spec_email kontakt)
               \<and> client ! 4 = Text (''Telefon: '' @ second_segment kontakt)))
       \<and> (\<exists>props. buildKontakteProperties formData = Inr props
             \<and> k_Email props = spec_email kontakt
             \<and> k_Phone props = (if second_segment kontakt = [] then None
                                 else Some (second_segment kontakt)))"
proof -
  have "pdf_content today formData =
           pdf_parts
             [Inr pdf_header,
              Inr [Text ''Gutachten Nr.:''],
              plain (formData ''gutachten_nr''),
              when_truthy (formData ''abtretung'') (Inr [Tick '' Abtretung'']),
              pdf_parts
                [Inr [Text (''Auftraggeber (Gesch'' @ [CHR 0xE4] @ ''digter)'')],
                 labelled ''Name: '' (formData ''auftraggeber_name''),
                 labelled ''Adresse: '' (js_or (formData ''auftraggeber_adresse'') (Some (JStr []))),
                 Inr [Text (''E-Mail: '' @ spec_email kontakt),
                      Text (''Telefon: '' @ second_segment kontakt)],
                 labelled ''Kennzeichen: '' (formData ''auftraggeber_kennzeichen'')],
              pdf_vehicle formData,
              pdf_accident formData,
              pdf_closing today formData]"
    unfolding pdf_content_def pdf_client_def
    using assms pdf_kontakt_string [of formData kontakt] by simp
  moreover have "\<exists>client. pdf_client formData = Inr client \<and> length client = 6
               \<and> client ! 3 = Text (''E-Mail: '' @ spec_email kontakt)
               \<and> client ! 4 = Text (''Telefon: '' @ second_segment kontakt)"
    if "template (formData ''auftraggeber_name'') = Inr name"
       "template (js_or (formData ''auftraggeber_adresse'') (Some (JStr []))) = Inr adresse"
       "template (formData ''auftraggeber_kennzeichen'') = Inr kennzeichen"
    using pdf_client_lines [of formData kontakt name adresse kennzeichen] assms that by simp
  ultimately show ?thesis
    using kontakte_email_phone [of formData kontakt] assms by blast
qed

theorem contact_string_parts_witness:
  "c9_form ''auftraggeber_kontakt'' = Some (JStr c9_kontakt)
   \<and> template (c9_form ''auftraggeber_name'') = Inr ''Max Mustermann''
   \<and> template (js_or (c9_form ''auftraggeber_adresse'') (Some (JStr []))) = Inr ''Teststr 1''
   \<and> template (c9_form ''auftraggeber_kennzeichen'') = Inr ''BI-XX 123''
   \<and> (\<exists>client. pdf_client c9_form = Inr client
         \<and> client ! 3 = Text ''E-Mail: max@test.de''
         \<and> client ! 4 = Text ''Telefon: 0521'')
   \<and> (\<exists>props. buildKontakteProperties c9_form = Inr props
         \<and> k_Email props = ''max@test.de'' \<and> k_Phone props = Some ''0521'')"
  using contact_string_parts [of c9_form c9_kontakt "''1.1.2025''" "''Max Mustermann''"
          "''Teststr 1''" "''BI-XX 123''"]
    c9_form_kontakt c9_form_texts
  by (auto simp add: c9_values)

text \<open>
  C9 as stated fails when the telephone number itself contains a \<^verbatim>\<open>/\<close>: what follows
  the second \<^verbatim>\<open>/\<close> is dropped.
\<close>

theorem phone_remainder_counterexample:
  "pdf_phone c9_kontakt = ''0521'' \<and> spec_phone c9_kontakt = ''0521/123456''"
  by (simp add: c9_values pdf_phone_segment)

section \<open>Folders of the object store\<close>

lemma fresh_id_inj: "fresh_id m = fresh_id n \<Longrightarrow> m = n"
  by (simp add: fresh_id_def String_of_nat_inj)

lemma drive_files_get_ok:
  "drive_ok flt \<Longrightarrow> drive_files_get flt i w = (r, w') \<Longrightarrow> (\<exists>x. r = Inr x) \<and> drive w' = drive w"
  by (auto simp add: drive_files_get_def drive_ok_def log_call_def Let_def)

lemma scan_lit_clean:
  "clean s \<Longrightarrow> scan (InLit a) (s @ quote # rest) = put (Lit (a @ s)) (scan Between rest)"
  by (induction s arbitrary: a) (auto simp add: clean_def)

lemma scan_folder_query:
  assumes "clean key" and "clean root"
  shows "scan Between (folder_query key root) =
           Some [Word ''name'', Word ''='', Lit key, Word ''and'', Word ''mimeType'', Word ''='',
                 Lit ''application/vnd.google-apps.folder'', Word ''and'', Lit root, Word ''in'',
                 Word ''parents'']"
proof -
  have t: "scan Between '' in parents'' = Some [Word ''in'', Word ''parents'']"
    by (simp add: quote_def put_def)
  have r: "scan (InLit []) (root @ quote # '' in parents'')
             = Some [Lit root, Word ''in'', Word ''parents'']"
    using scan_lit_clean [OF assms(2), of "[]" "'' in parents''"] t by (simp add: put_def)
  have m: "scan Between ('' and mimeType='' @ [quote] @ ''application/vnd.google-apps.folder''
             @ [quote] @ '' and '' @ [quote] @ root @ [quote] @ '' in parents'')
           = Some [Word ''and'', Word ''mimeType'', Word ''='',
                 Lit ''application/vnd.google-apps.folder'', Word ''and'', Lit root, Word ''in'',
                 Word ''parents'']"
    using r by (simp add: quote_def backslash_def put_def)
  have "scan (InLit []) (key @ quote # ('' and mimeType='' @ [quote]
             @ ''application/vnd.google-apps.folder'' @ [quote] @ '' and '' @ [quote] @ root
             @ [quote] @ '' in parents''))
          = Some [Lit key, Word ''and'', Word ''mimeType'', Word ''='',
                 Lit ''application/vnd.google-apps.folder'', Word ''and'', Lit root, Word ''in'',
                 Word ''parents'']"
    using scan_lit_clean [OF assms(1), of "[]"] m by (simp add: put_def)
  then show ?thesis
    by (simp add: folder_query_def quote_def put_def)
qed

lemma query_of_folder_query:
  assumes "clean key" and "clean root"
  shows "query_of (folder_query key root)
           = Some [[Name key, MimeType ''application/vnd.google-apps.folder'', Parent root]]"
  unfolding query_of_def scan_folder_query [OF assms]
  by (simp add: alternative_of_def)

lemma matches_folder:
  "matches [[Name key, MimeType ''application/vnd.google-apps.folder'', Parent root]] (folder_item d)
     = (folder_name d = key \<and> folder_parent d = root)"
  by (simp add: matches_def folder_item_def)

lemma matches_file:
  "\<not> matches [[Name key, MimeType ''application/vnd.google-apps.folder'', Parent root]] (file_item f)"
  by (simp add: matches_def file_item_def)

lemma matching_items:
  "map item_id (filter (matches [[Name key, MimeType ''application/vnd.google-apps.folder'',
                                  Parent root]]) (items d))
     = map folder_id (filter (\<lambda>d. folder_name d = key \<and> folder_parent d = root) (folders d))"
proof -
  have "filter (matches [[Name key, MimeType ''application/vnd.google-apps.folder'', Parent root]])
          (map file_item fs) = []" for fs
    by (induction fs) (simp_all add: matches_file)
  moreover have "map item_id (filter (matches [[Name key,
                    MimeType ''application/vnd.google-apps.folder'', Parent root]])
                  (map folder_item ds))
           = map folder_id (filter (\<lambda>d. folder_name d = key \<and> folder_parent d = root) ds)" for ds
    by (induction ds) (simp_all add: matches_folder, simp add: folder_item_def)
  ultimately show ?thesis
    by (simp add: items_def)
qed

lemma drive_files_list_ok:
  "drive_ok flt \<Longrightarrow> clean n \<Longrightarrow> clean p \<Longrightarrow> drive_files_list flt (folder_query n p) w = (r, w') \<Longrightarrow>
     r = Inr (map folder_id (customer_folders p n w)) \<and> drive w' = drive w"
  by (auto simp add: drive_files_list_def drive_ok_def log_call_def Let_def customer_folders_def
        query_of_folder_query matching_items)

lemma drive_create_folder_ok:
  "drive_ok flt \<Longrightarrow> drive_create_folder flt (Some (JStr n)) p w = (r, w') \<Longrightarrow>
     r = Inr (fresh_id (drive_next (drive w)))
     \<and> folders (drive w') = folders (drive w)
          @ [\<lparr>folder_id = fresh_id (drive_next (drive w)), folder_name = n, folder_parent = p\<rparr>]
     \<and> stored_files (drive w') = stored_files (drive w)
     \<and> drive_next (drive w') = Suc (drive_next (drive w))"
  by (auto simp add: drive_create_folder_def drive_ok_def log_call_def Let_def given_name_def)

lemma drive_create_file_ok:
  "drive_ok flt \<Longrightarrow> drive_create_file flt n p b w = (r, w') \<Longrightarrow>
     r = Inr (fresh_id (drive_next (drive w)))
     \<and> folders (drive w') = folders (drive w)
     \<and> stored_files (drive w') = stored_files (drive w)
          @ [\<lparr>file_id = fresh_id (drive_next (drive w)), file_name = n, file_parent = p,
              file_body = b, file_public = False\<rparr>]
     \<and> drive_next (drive w') = Suc (drive_next (drive w))"
  by (auto simp add: drive_create_file_def drive_ok_def log_call_def Let_def)

lemma drive_permissions_create_ok:
  "drive_ok flt \<Longrightarrow> drive_permissions_create flt i w = (r, w') \<Longrightarrow>
     r = Inr ()
     \<and> folders (drive w') = folders (drive w)
     \<and> stored_files (drive w')
          = map (\<lambda>f. if file_id f = i then f\<lparr>file_public := True\<rparr> else f) (stored_files (drive w))
     \<and> drive_next (drive w') = drive_next (drive w)"
  by (auto simp add: drive_permissions_create_def drive_ok_def log_call_def Let_def)

lemma holds_file_append:
  "stored_files (drive w') = stored_files (drive w) @ fs \<Longrightarrow> holds_file w i p b \<Longrightarrow> holds_file w' i p b"
  by (simp add: holds_file_def)

lemma holds_file_new:
  "stored_files (drive w') = stored_files (drive w)
      @ [\<lparr>file_id = i, file_name = n, file_parent = p, file_body = b, file_public = False\<rparr>]
   \<Longrightarrow> holds_file w' i p b"
  by (simp add: holds_file_def)

lemma list_ex_map_keeps: "list_ex P xs \<Longrightarrow> (\<And>x. P x \<Longrightarrow> P (g x)) \<Longrightarrow> list_ex P (map g xs)"
  by (induction xs) auto

lemma holds_file_map:
  "stored_files (drive w') = map (\<lambda>f. if file_id f = j then f\<lparr>file_public := True\<rparr> else f)
      (stored_files (drive w)) \<Longrightarrow> holds_file w i p b \<Longrightarrow> holds_file w' i p b"
  unfolding holds_file_def
  by (simp only:) (rule list_ex_map_keeps, simp_all)

lemma upload_into_ok:
  assumes "drive_ok flt" and "upload_into flt formData name p folder w = (r, w')"
  shows "\<exists>x. r = Inr x \<and> res_folderId x = folder
            \<and> res_fileId x = fresh_id (drive_next (drive w))
            \<and> drive_next (drive w') = Suc (drive_next (drive w))
            \<and> folders (drive w') = folders (drive w)
            \<and> holds_file w' (res_fileId x) folder p
            \<and> (\<forall>i q b. holds_file w i q b \<longrightarrow> holds_file w' i q b)"
proof -
  obtain r1 w1 where c: "drive_create_file flt name folder p w = (r1, w1)"
    by (cases "drive_create_file flt name folder p w")
  note c1 = drive_create_file_ok [OF assms(1) c]
  obtain r2 w2 where d: "drive_permissions_create flt (fresh_id (drive_next (drive w))) w1 = (r2, w2)"
    by (cases "drive_permissions_create flt (fresh_id (drive_next (drive w))) w1")
  note d1 = drive_permissions_create_ok [OF assms(1) d]
  have r: "r = Inr \<lparr>res_fileId = fresh_id (drive_next (drive w)),
                   res_fileName = name,
                   res_folderName = upload_folderName formData,
                   res_folderId = folder,
                   res_fileLink = ''https://drive.google.com/file/d/''
                      @ fresh_id (drive_next (drive w)) @ ''/view''\<rparr>" and w': "w' = w2"
    using assms(2) c c1 d d1 by (simp_all add: upload_into_def)
  have h1: "holds_file w1 (fresh_id (drive_next (drive w))) folder p"
    using c1 holds_file_new by blast
  have h2: "holds_file w2 i q b" if "holds_file w1 i q b" for i q b
    using d1 that holds_file_map by blast
  have h3: "holds_file w1 i q b" if "holds_file w i q b" for i q b
    using c1 that holds_file_append by blast
  show ?thesis
    using r w' c1 d1 h1 h2 h3 by simp
qed


lemma customer_folders_same:
  "folders (drive w') = folders (drive w) \<Longrightarrow> customer_folders root key w' = customer_folders root key w"
  by (simp add: customer_folders_def)

lemma upload_try_ok:
  assumes "env_set (GOOGLE_DRIVE_ROOT_FOLDER srv)" and "drive_ok flt"
      and "upload_try srv flt formData name p w = (r, w')"
      and "root = the (GOOGLE_DRIVE_ROOT_FOLDER srv)"
      and "upload_folderName formData = Some (JStr key)" and "clean key" and "clean root"
  shows "\<exists>x n. r = Inr x
            \<and> res_fileId x = fresh_id n \<and> drive_next (drive w) \<le> n \<and> n < drive_next (drive w')
            \<and> (customer_folders root key w = [] \<longrightarrow>
                  folders (drive w') = folders (drive w)
                    @ [\<lparr>folder_id = res_folderId x, folder_name = key, folder_parent = root\<rparr>])
            \<and> (customer_folders root key w \<noteq> [] \<longrightarrow>
                  folders (drive w') = folders (drive w)
                  \<and> res_folderId x = folder_id (hd (customer_folders root key w)))
            \<and> customer_folders root key w' \<noteq> []
            \<and> res_folderId x = folder_id (hd (customer_folders root key w'))
            \<and> holds_file w' (res_fileId x) (res_folderId x) p
            \<and> (\<forall>i q b. holds_file w i q b \<longrightarrow> holds_file w' i q b)"
proof -
  have t: "template (upload_folderName formData) = Inr key"
    using assms(5) by (simp add: template_def)
  obtain r1 w1 where g: "drive_files_get flt root w = (r1, w1)"
    by (cases "drive_files_get flt root w")
  obtain x1 where g1: "r1 = Inr x1" "drive w1 = drive w"
    using drive_files_get_ok [OF assms(2) g] by blast
  obtain r2 w2 where l: "drive_files_list flt (folder_query key root) w1 = (r2, w2)"
    by (cases "drive_files_list flt (folder_query key root) w1")
  have l1: "r2 = Inr (map folder_id (customer_folders root key w))" "drive w2 = drive w"
    using drive_files_list_ok [OF assms(2,6,7) l] g1 by (simp_all add: customer_folders_def)
  have h0: "holds_file w2 i q b" if "holds_file w i q b" for i q b
    using that l1 by (simp add: holds_file_def)
  show ?thesis
  proof (cases "customer_folders root key w")
    case Nil
    obtain r3 w3 where c: "drive_create_folder flt (Some (JStr key)) root w2 = (r3, w3)"
      by (cases "drive_create_folder flt (Some (JStr key)) root w2")
    note c1 = drive_create_folder_ok [OF assms(2) c]
    let ?f = "fresh_id (drive_next (drive w))"
    have u: "upload_into flt formData name p ?f w3 = (r, w')"
      using assms(1,3,4,5) t g g1 l l1 Nil c c1 by (simp add: upload_try_def Let_def)
    obtain x where x: "r = Inr x" "res_folderId x = ?f"
        "res_fileId x = fresh_id (drive_next (drive w3))"
        "drive_next (drive w') = Suc (drive_next (drive w3))"
        "folders (drive w') = folders (drive w3)"
        "holds_file w' (res_fileId x) ?f p"
        "\<forall>i q b. holds_file w3 i q b \<longrightarrow> holds_file w' i q b"
      using upload_into_ok [OF assms(2) u] by blast
    have f': "folders (drive w') = folders (drive w)
                @ [\<lparr>folder_id = ?f, folder_name = key, folder_parent = root\<rparr>]"
      using x(5) c1 l1 by simp
    then have cf: "customer_folders root key w'
                = [\<lparr>folder_id = ?f, folder_name = key, folder_parent = root\<rparr>]"
      using Nil by (simp add: customer_folders_def)
    have h3: "holds_file w3 i q b" if "holds_file w i q b" for i q b
      using that c1 l1 by (simp add: holds_file_def)
    have n: "drive_next (drive w) \<le> drive_next (drive w3) \<and> drive_next (drive w3) < drive_next (drive w')"
      using x(4) c1 l1 by simp
    show ?thesis
      using x(1,2,3,6,7) f' cf Nil h3 n by auto
  next
    case (Cons d ds)
    have u: "upload_into flt formData name p (folder_id d) w2 = (r, w')"
      using assms(1,3,4,5) t g g1 l l1 Cons by (simp add: upload_try_def Let_def)
    obtain x where x: "r = Inr x" "res_folderId x = folder_id d"
        "res_fileId x = fresh_id (drive_next (drive w2))"
        "drive_next (drive w') = Suc (drive_next (drive w2))"
        "folders (drive w') = folders (drive w2)"
        "holds_file w' (res_fileId x) (folder_id d) p"
        "\<forall>i q b. holds_file w2 i q b \<longrightarrow> holds_file w' i q b"
      using upload_into_ok [OF assms(2) u] by blast
    have f': "folders (drive w') = folders (drive w)"
      using x(5) l1 by simp
    then have cf: "customer_folders root key w' = d # ds"
      using Cons by (simp add: customer_folders_def)
    have n: "drive_next (drive w) \<le> drive_next (drive w2) \<and> drive_next (drive w2) < drive_next (drive w')"
      using x(4) l1 by simp
    show ?thesis
      using x(1,2,3,6,7) f' cf Cons h0 n by auto
  qed
qed

lemma uploadToGoogleDrive_ok:
  assumes "env_set (GOOGLE_DRIVE_ROOT_FOLDER srv)" and "drive_ok flt"
      and "uploadToGoogleDrive srv flt formData p w = (r, w')"
      and "root = the (GOOGLE_DRIVE_ROOT_FOLDER srv)"
      and "upload_folderName formData = Some (JStr key)" and "clean key" and "clean root"
      and "upload_fileName formData = Inr name"
  shows "\<exists>x n. r = Inr x
            \<and> res_fileId x = fresh_id n \<and> drive_next (drive w) \<le> n \<and> n < drive_next (drive w')
            \<and> (customer_folders root key w = [] \<longrightarrow>
                  folders (drive w') = folders (drive w)
                    @ [\<lparr>folder_id = res_folderId x, folder_name = key, folder_parent = root\<rparr>])
            \<and> (customer_folders root key w \<noteq> [] \<longrightarrow>
                  folders (drive w') = folders (drive w)
                  \<and> res_folderId x = folder_id (hd (customer_folders root key w)))
            \<and> customer_folders root key w' \<noteq> []
            \<and> res_folderId x = folder_id (hd (customer_folders root key w'))
            \<and> holds_file w' (res_fileId x) (res_folderId x) p
            \<and> (\<forall>i q b. holds_file w i q b \<longrightarrow> holds_file w' i q b)"
proof -
  obtain r0 w0 where t: "upload_try srv flt formData name p w = (r0, w0)"
    by (cases "upload_try srv flt formData name p w")
  obtain x where "r0 = Inr x"
    using upload_try_ok [OF assms(1,2) t assms(4,5,6,7)] by blast
  then have "r = r0" and "w' = w0"
    using assms(3,8) t by (simp_all add: uploadToGoogleDrive_def)
  then show ?thesis
    using upload_try_ok [OF assms(1,2) t assms(4,5,6,7)] by simp
qed

lemma folder_name_of_plate:
  "formData ''auftraggeber_kennzeichen'' = Some (JStr key) \<Longrightarrow> key \<noteq> [] \<Longrightarrow>
     upload_folderName formData = Some (JStr key)"
  by (simp add: upload_folderName_def js_or_def truthy_opt_def)

lemma example_root: "env_set (GOOGLE_DRIVE_ROOT_FOLDER example_server)"
  "the (GOOGLE_DRIVE_ROOT_FOLDER example_server) = ''root''"
  by (simp_all add: example_server_def env_set_def)

lemma no_faults_ok: "drive_ok no_faults" "contact_ok no_faults"
  by (simp_all add: drive_ok_def contact_ok_def no_faults_def)

lemma example_plate: "example_form ''auftraggeber_kennzeichen'' = Some (JStr ''BI-XX 123'')"
  by (simp add: example_form_def)

lemma empty_world_folders: "customer_folders root key empty_world = []"
  by (simp add: customer_folders_def empty_world_def)

text \<open>
  Two uploads in a row for the same customer key, a string without quote and backslash,
  with the root folder configured, likewise without them, and no call to the object
  store failing. The first looks for the folders named exactly that key under the root:
  when there is none it creates exactly one, otherwise it creates none and uses the
  first. The second finds that folder and creates none. Both files, with different
  identifiers, are stored under the one folder.
\<close>

lemma folder_reused_for_plain_key:
  assumes "env_set (GOOGLE_DRIVE_ROOT_FOLDER srv)" and "root = the (GOOGLE_DRIVE_ROOT_FOLDER srv)"
      and "drive_ok flt1" and "drive_ok flt2"
      and "formData1 ''auftraggeber_kennzeichen'' = Some (JStr key)"
      and "formData2 ''auftraggeber_kennzeichen'' = Some (JStr key)" and "key \<noteq> []"
      and "clean key" and "clean root"
      and "upload_fileName formData1 = Inr name1" and "upload_fileName formData2 = Inr name2"
      and "uploadToGoogleDrive srv flt1 formData1 p1 w = (r1, w1)"
      and "uploadToGoogleDrive srv flt2 formData2 p2 w1 = (r2, w2)"
  shows "\<exists>x1 x2. r1 = Inr x1 \<and> r2 = Inr x2
           \<and> res_folderId x2 = res_folderId x1 \<and> res_fileId x2 \<noteq> res_fileId x1
           \<and> (customer_folders root key w = [] \<longrightarrow>
                 folders (drive w1) = folders (drive w)
                   @ [\<lparr>folder_id = res_folderId x1, folder_name = key, folder_parent = root\<rparr>])
           \<and> (customer_folders root key w \<noteq> [] \<longrightarrow>
                 folders (drive w1) = folders (drive w)
                 \<and> res_folderId x1 = folder_id (hd (customer_folders root key w)))
           \<and> folders (drive w2) = folders (drive w1)
           \<and> holds_file w2 (res_fileId x1) (res_folderId x1) p1
           \<and> holds_file w2 (res_fileId x2) (res_folderId x1) p2"
proof -
  have k1: "upload_folderName formData1 = Some (JStr key)"
    and k2: "upload_folderName formData2 = Some (JStr key)"
    using assms(5,6,7) by (simp_all add: folder_name_of_plate)
  obtain x1 n1 where a:
      "r1 = Inr x1" "res_fileId x1 = fresh_id n1" "n1 < drive_next (drive w1)"
      "customer_folders root key w = [] \<longrightarrow>
         folders (drive w1) = folders (drive w)
           @ [\<lparr>folder_id = res_folderId x1, folder_name = key, folder_parent = root\<rparr>]"
      "customer_folders root key w \<noteq> [] \<longrightarrow>
         folders (drive w1) = folders (drive w)
         \<and> res_folderId x1 = folder_id (hd (customer_folders root key w))"
      "customer_folders root key w1 \<noteq> []"
      "res_folderId x1 = folder_id (hd (customer_folders root key w1))"
      "holds_file w1 (res_fileId x1) (res_folderId x1) p1"
    using uploadToGoogleDrive_ok [OF assms(1,3,12,2) k1 assms(8,9,10)] by blast
  obtain x2 n2 where b:
      "r2 = Inr x2" "res_fileId x2 = fresh_id n2" "drive_next (drive w1) \<le> n2"
      "customer_folders root key w1 \<noteq> [] \<longrightarrow>
         folders (drive w2) = folders (drive w1)
         \<and> res_folderId x2 = folder_id (hd (customer_folders root key w1))"
      "holds_file w2 (res_fileId x2) (res_folderId x2) p2"
      "\<forall>i q b. holds_file w1 i q b \<longrightarrow> holds_file w2 i q b"
    using uploadToGoogleDrive_ok [OF assms(1,4,13,2) k2 assms(8,9,11)] by blast
  have same: "res_folderId x2 = res_folderId x1" and none: "folders (drive w2) = folders (drive w1)"
    using a(6,7) b(4) by simp_all
  have "n1 \<noteq> n2"
    using a(3) b(3) by simp
  then have diff: "res_fileId x2 \<noteq> res_fileId x1"
    using a(2) b(2) fresh_id_inj by auto
  have "holds_file w2 (res_fileId x1) (res_folderId x1) p1"
    using a(8) b(6) by blast
  then show ?thesis
    using a(1,4,5) b(1,5) same none diff by auto
qed

lemma fresh_ids: "fresh_id 0 = ''id0''" "fresh_id (Suc 0) = ''id1''" "fresh_id 2 = ''id2''"
  "fresh_id 3 = ''id3''"
  by (simp_all add: fresh_id_def String_of_nat.simps digit_char_def)

lemma c6_names:
  "upload_folderName c6_form = Some (JStr c6_key)"
  "upload_fileName c6_form = Inr ''Gutachten_DS-2025-600123.pdf''"
  by (simp_all add: upload_folderName_def upload_fileName_def c6_form_def c6_key_def
        example_form_def js_or_def truthy_opt_def template_def attempt_def)

lemma c6_query:
  "folder_query c6_key ''root''
     = ''name='' @ [quote] @ ''x'' @ [quote] @ '' or name='' @ [quote] @ ''z'' @ [quote]
       @ '' and mimeType='' @ [quote] @ ''application/vnd.google-apps.folder'' @ [quote]
       @ '' and '' @ [quote] @ ''root'' @ [quote] @ '' in parents''"
  by (simp add: folder_query_def c6_key_def)

lemma c6_conditions:
  "query_of (folder_query c6_key ''root'')
     = Some [[Name ''x''],
             [Name ''z'', MimeType ''application/vnd.google-apps.folder'', Parent ''root'']]"
  by (simp add: query_of_def folder_query_def c6_key_def quote_def backslash_def put_def
        alternative_of_def)

lemma c6_key_other: "c6_key \<noteq> ''x''" "c6_key \<noteq> ''z''"
  by (simp_all add: c6_key_def)

lemma c6_first_value:
  "c6_first =
     (Inr \<lparr>res_fileId = ''id1'', res_fileName = ''Gutachten_DS-2025-600123.pdf'',
           res_folderName = Some (JStr c6_key), res_folderId = ''id0'',
           res_fileLink = ''https://drive.google.com/file/d/id1/view''\<rparr>,
      empty_world
        \<lparr>drive := \<lparr>folders = [\<lparr>folder_id = ''id0'', folder_name = c6_key, folder_parent = ''root''\<rparr>],
                    stored_files = [\<lparr>file_id = ''id1'', file_name = ''Gutachten_DS-2025-600123.pdf'',
                                     file_parent = ''id0'', file_body = ''a.pdf'', file_public = True\<rparr>],
                    root_driveId = None, drive_next = 2\<rparr>,
         calls := [Drive_files_get ''root'', Drive_files_list (folder_query c6_key ''root''),
                   Drive_create_folder (Some (JStr c6_key)) ''root'',
                   Drive_create_file ''Gutachten_DS-2025-600123.pdf'' ''id0'' ''a.pdf'',
                   Drive_permissions_create ''id1'']\<rparr>)"
  unfolding c6_first_def uploadToGoogleDrive_def c6_names upload_try_def
  by (simp add: c6_names example_server_def env_set_def Let_def drive_files_get_def no_faults_def
        log_call_def empty_world_def template_def drive_files_list_def drive_create_folder_def
        given_name_def fresh_ids upload_into_def drive_create_file_def drive_permissions_create_def
        c6_conditions items_def)


lemma c6_second_value:
  "c6_second =
     (Inr \<lparr>res_fileId = ''id3'', res_fileName = ''Gutachten_DS-2025-600123.pdf'',
           res_folderName = Some (JStr c6_key), res_folderId = ''id2'',
           res_fileLink = ''https://drive.google.com/file/d/id3/view''\<rparr>,
      empty_world
        \<lparr>drive := \<lparr>folders = [\<lparr>folder_id = ''id0'', folder_name = c6_key, folder_parent = ''root''\<rparr>,
                               \<lparr>folder_id = ''id2'', folder_name = c6_key, folder_parent = ''root''\<rparr>],
                    stored_files = [\<lparr>file_id = ''id1'', file_name = ''Gutachten_DS-2025-600123.pdf'',
                                     file_parent = ''id0'', file_body = ''a.pdf'', file_public = True\<rparr>,
                                    \<lparr>file_id = ''id3'', file_name = ''Gutachten_DS-2025-600123.pdf'',
                                     file_parent = ''id2'', file_body = ''b.pdf'', file_public = True\<rparr>],
                    root_driveId = None, drive_next = 4\<rparr>,
         calls := [Drive_files_get ''root'', Drive_files_list (folder_query c6_key ''root''),
                   Drive_create_folder (Some (JStr c6_key)) ''root'',
                   Drive_create_file ''Gutachten_DS-2025-600123.pdf'' ''id0'' ''a.pdf'',
                   Drive_permissions_create ''id1'',
                   Drive_files_get ''root'', Drive_files_list (folder_query c6_key ''root''),
                   Drive_create_folder (Some (JStr c6_key)) ''root'',
                   Drive_create_file ''Gutachten_DS-2025-600123.pdf'' ''id2'' ''b.pdf'',
                   Drive_permissions_create ''id3'']\<rparr>)"
  unfolding c6_second_def c6_first_value uploadToGoogleDrive_def c6_names upload_try_def
  by (simp add: c6_names example_server_def env_set_def Let_def drive_files_get_def no_faults_def
        log_call_def empty_world_def template_def drive_files_list_def drive_create_folder_def
        given_name_def fresh_ids upload_into_def drive_create_file_def drive_permissions_create_def
        c6_conditions items_def matches_def folder_item_def file_item_def c6_key_other
        fresh_ids [simplified] numeral_2_eq_2 [symmetric] numeral_3_eq_3 [symmetric])

text \<open>
  C6 fails on the code for a customer key with a quote in it. The key \<^verbatim>\<open>x' or name='z\<close>
  gives the query \<^verbatim>\<open>name='x' or name='z' and mimeType=... and 'root' in parents\<close>, which
  asks for what is named \<^verbatim>\<open>x\<close>, or is a folder named \<^verbatim>\<open>z\<close> under the root, and not for the
  folder named by the key. Of two uploads into an empty store the first creates the
  customer folder; the second, with a folder named exactly the key under the root, does
  not find it and creates another, and the two files lie under different folders.
\<close>

theorem quoted_key_creates_two_folders:
  "c6_form ''auftraggeber_kennzeichen'' = Some (JStr c6_key)
   \<and> query_of (folder_query c6_key ''root'')
        = Some [[Name ''x''],
                [Name ''z'', MimeType ''application/vnd.google-apps.folder'', Parent ''root'']]
   \<and> customer_folders ''root'' c6_key empty_world = []
   \<and> customer_folders ''root'' c6_key (snd c6_first)
        = [\<lparr>folder_id = ''id0'', folder_name = c6_key, folder_parent = ''root''\<rparr>]
   \<and> folders (drive (snd c6_second))
        = [\<lparr>folder_id = ''id0'', folder_name = c6_key, folder_parent = ''root''\<rparr>,
           \<lparr>folder_id = ''id2'', folder_name = c6_key, folder_parent = ''root''\<rparr>]
   \<and> map_sum message res_folderId (fst c6_first) = Inr ''id0''
   \<and> map_sum message res_folderId (fst c6_second) = Inr ''id2''
   \<and> holds_file (snd c6_second) ''id1'' ''id0'' ''a.pdf''
   \<and> holds_file (snd c6_second) ''id3'' ''id2'' ''b.pdf''"
  unfolding c6_second_value c6_first_value c6_conditions
  by (simp add: c6_form_def customer_folders_def empty_world_def holds_file_def)

text \<open>
  A key with one quote in it, as \<^verbatim>\<open>O'Neil\<close>, gives a string that is no query: the store
  refuses it, the upload fails, and no folder is created.
\<close>

lemma single_quote_key_fails:
  "uploadToGoogleDrive example_server no_faults one_quote_form p empty_world
   = (Inl (Error ''Google Drive Upload fehlgeschlagen: Invalid query''),
      empty_world\<lparr>calls := [Drive_files_get ''root'',
                             Drive_files_list (folder_query one_quote_key ''root'')]\<rparr>)"
proof -
  have q: "query_of (folder_query one_quote_key ''root'') = None"
    by (simp add: query_of_def folder_query_def one_quote_key_def quote_def backslash_def put_def)
  have n: "upload_fileName one_quote_form = Inr ''Gutachten_DS-2025-600123.pdf''"
    by (simp add: upload_fileName_def template_def attempt_def example_form_def one_quote_form_def)
  have f: "upload_folderName one_quote_form = Some (JStr one_quote_key)"
    by (simp add: upload_folderName_def js_or_def truthy_opt_def one_quote_form_def
          one_quote_key_def)
  show ?thesis
    unfolding uploadToGoogleDrive_def n upload_try_def f
    by (simp add: example_root Let_def drive_files_get_def no_faults_def log_call_def
          empty_world_def template_def drive_files_list_def q)
qed

text \<open>The two uploads of the sample submission, whose key has no quote, share one folder.\<close>

lemma plain_key_sample:
  "env_set (GOOGLE_DRIVE_ROOT_FOLDER example_server) \<and> drive_ok no_faults
   \<and> example_form ''auftraggeber_kennzeichen'' = Some (JStr ''BI-XX 123'')
   \<and> clean ''BI-XX 123'' \<and> clean ''root''
   \<and> customer_folders ''root'' ''BI-XX 123'' empty_world = []
   \<and> (\<exists>x1 x2.
        fst (uploadToGoogleDrive example_server no_faults example_form ''a.pdf'' empty_world)
          = Inr x1
      \<and> fst (uploadToGoogleDrive example_server no_faults example_form ''b.pdf''
               (snd (uploadToGoogleDrive example_server no_faults example_form ''a.pdf''
                       empty_world))) = Inr x2
      \<and> res_folderId x2 = res_folderId x1 \<and> res_fileId x2 \<noteq> res_fileId x1
      \<and> folders (drive (snd (uploadToGoogleDrive example_server no_faults example_form ''b.pdf''
               (snd (uploadToGoogleDrive example_server no_faults example_form ''a.pdf''
                       empty_world)))))
          = [\<lparr>folder_id = res_folderId x1, folder_name = ''BI-XX 123'', folder_parent = ''root''\<rparr>])"
proof -
  let ?u1 = "uploadToGoogleDrive example_server no_faults example_form ''a.pdf'' empty_world"
  let ?u2 = "uploadToGoogleDrive example_server no_faults example_form ''b.pdf'' (snd ?u1)"
  have e: "folders (drive empty_world) = []"
    by (simp add: empty_world_def)
  have u1: "?u1 = (fst ?u1, snd ?u1)" and u2: "?u2 = (fst ?u2, snd ?u2)"
    by simp_all
  have c: "clean ''BI-XX 123''" "clean ''root''"
    by (simp_all add: clean_def quote_def backslash_def)
  have n: "upload_fileName example_form = Inr ''Gutachten_DS-2025-600123.pdf''"
    by (simp add: upload_fileName_def example_form_def template_def attempt_def)
  show ?thesis
    using folder_reused_for_plain_key [where srv = example_server and root = "''root''"
            and ?flt1.0 = no_faults and ?flt2.0 = no_faults and ?formData1.0 = example_form
            and ?formData2.0 = example_form and key = "''BI-XX 123''" and ?p1.0 = "''a.pdf''"
            and w = empty_world and ?r1.0 = "fst ?u1" and ?w1.0 = "snd ?u1"
            and ?p2.0 = "''b.pdf''" and ?r2.0 = "fst ?u2" and ?w2.0 = "snd ?u2"
            and ?name1.0 = "''Gutachten_DS-2025-600123.pdf''"
            and ?name2.0 = "''Gutachten_DS-2025-600123.pdf''"]
      u1 u2 example_root no_faults_ok(1) example_plate empty_world_folders e c n
    by auto
qed

section \<open>Contacts of the record keeper\<close>

lemma notion_databases_query_ok:
  "notion_query_fault flt = None \<Longrightarrow>
     notion_databases_query flt d (Some (JStr k)) w
       = (Inr (contacts_of d k w), log_call (Notion_query d (Some (JStr k))) w)"
  by (simp add: notion_databases_query_def contacts_of_def log_call_def Let_def)

lemma notion_databases_query_fails:
  "notion_query_fault flt = Some m \<Longrightarrow>
     notion_databases_query flt d k w = (Inl (Error m), log_call (Notion_query d k) w)"
  by (simp add: notion_databases_query_def Let_def)

lemma find_fails:
  "notion_query_fault flt = Some m \<Longrightarrow>
     findCustomerByKennzeichen flt d k w = (None, log_call (Notion_query d k) w)"
  by (simp add: findCustomerByKennzeichen_def notion_databases_query_fails)

lemma find_nothing:
  "notion_query_fault flt = None \<Longrightarrow> contacts_of d k w = [] \<Longrightarrow>
     findCustomerByKennzeichen flt d (Some (JStr k)) w
       = (None, log_call (Notion_query d (Some (JStr k))) w)"
  by (simp add: findCustomerByKennzeichen_def notion_databases_query_ok)


lemma log_call_notion [simp]: "notion (log_call c w) = notion w"
  by (simp add: log_call_def)

lemma log_call_calls [simp]: "calls (log_call c w) = calls w @ [c]"
  by (simp add: log_call_def)

lemma contacts_of_log [simp]: "contacts_of d k (log_call c w) = contacts_of d k w"
  by (simp add: contacts_of_def)

lemma notion_pages_create_ok:
  "notion_pages_create None d props w =
     (Inr (fresh_id (notion_next (notion w))),
      (log_call (Notion_pages_create d props) w)
        \<lparr>notion := (notion w)\<lparr>pages := pages (notion w)
                       @ [\<lparr>page_id = fresh_id (notion_next (notion w)), page_parent = d,
                           page_properties = props\<rparr>],
                     notion_next := Suc (notion_next (notion w))\<rparr>\<rparr>)"
  by (simp add: notion_pages_create_def Let_def)






lemma processNotionIntegration_steps:
  assumes "env_set (KONTAKTE_DATABASE_ID srv)"
      and "processNotionIntegration srv flt formData l w = (r, w')"
  shows "\<exists>c w1 x. upsert_customer flt (the (KONTAKTE_DATABASE_ID srv)) formData w = (c, w1)
           \<and> r = Inr x \<and> customer x = Some c
           \<and> (env_set (BUSINESS_RESOURCES_DATABASE_ID srv) \<longrightarrow>
                 (\<exists>b. create_resource flt (the (BUSINESS_RESOURCES_DATABASE_ID srv)) formData l
                        (outcome_id (Some c)) w1 = (b, w')))
           \<and> (\<not> env_set (BUSINESS_RESOURCES_DATABASE_ID srv) \<longrightarrow> w' = w1)"
  using assms
  by (auto simp add: processNotionIntegration_def Let_def split: prod.splits if_splits)


lemma example_kontakte: "env_set (KONTAKTE_DATABASE_ID example_server)"
  "the (KONTAKTE_DATABASE_ID example_server) = ''kontakte''"
  by (simp_all add: example_server_def env_set_def)

lemma example_kontakt_built: "buildKontakteProperties example_form = Inr example_kontakt"
  by (simp add: buildKontakteProperties_def kontaktParts_def truthy_opt_def example_form_def
        at_def trimmed_part_def trim_def is_whitespace_def or_empty_def example_kontakt_def Let_def)




lemma example_resource_built:
  "buildGutachtenResourceProperties example_form link cid
     = Inr (example_resource (if truthy_string link then link else None)
              (if truthy_string cid then cid else None))"
  by (simp add: buildGutachtenResourceProperties_def resource_name_def template_def attempt_def
        example_form_def example_resource_def)


lemma lookup_broken_faults:
  "notion_query_fault lookup_broken = Some ''502 Bad Gateway''"
  "notion_contact_fault lookup_broken = None"
  "notion_resource_fault lookup_broken = None"
  "render_fault lookup_broken = None"
  by (simp_all add: lookup_broken_def no_faults_def)





section \<open>The rendered file\<close>

lemma pipeline_returns:
  assumes "processGutachtenSubmission srv clk flt body w = (Inr res, w')"
  shows "\<exists>w1 w2 link.
           generatePDFFile srv clk flt (normalizeFormData (full_year clk) (now_normalize clk) body) w
             = (Inr (res_pdf_filePath res), w1)
         \<and> upload_stage srv flt (normalizeFormData (full_year clk) (now_normalize clk) body)
             (res_pdf_filePath res) w1 = ((res_googleDrive res, link), w2)
         \<and> notion_stage srv flt (normalizeFormData (full_year clk) (now_normalize clk) body) link w2
             = (res_notion res, w')"
  using assms
  by (auto simp add: processGutachtenSubmission_def Let_def
        split: sum.splits prod.splits)

lemma pipeline_keeps_file:
  assumes "processGutachtenSubmission srv clk flt body w = (Inr res, w')"
  shows "res_pdf_filePath res \<in> set (fs_files w') \<and> set (fs_files w) \<subseteq> set (fs_files w')"
proof -
  let ?fd = "normalizeFormData (full_year clk) (now_normalize clk) body"
  obtain w1 w2 link where
    g: "generatePDFFile srv clk flt ?fd w = (Inr (res_pdf_filePath res), w1)" and
    u: "upload_stage srv flt ?fd (res_pdf_filePath res) w1 = ((res_googleDrive res, link), w2)" and
    n: "notion_stage srv flt ?fd link w2 = (res_notion res, w')"
    using pipeline_returns [OF assms] by blast
  have "fs_files w2 = fs_files w1"
    using upload_stage_frame [OF u] by (simp add: outside_drive_def)
  moreover have "fs_files w' = fs_files w2"
    using notion_stage_frame [OF n] by (simp add: outside_notion_def)
  ultimately show ?thesis
    using generatePDFFile_creates [OF g] by auto
qed

lemma pipeline_succeeds:
  assumes "validateFormData (normalizeFormData (full_year clk) (now_normalize clk) body) = Inr ()"
      and "generatePDFFile srv clk flt (normalizeFormData (full_year clk) (now_normalize clk) body) w
             = (Inr p, w1)"
  shows "\<exists>res. fst (processGutachtenSubmission srv clk flt body w) = Inr res
            \<and> res_pdf_filePath res = p
            \<and> res_googleDrive res = fst (fst (upload_stage srv flt
                 (normalizeFormData (full_year clk) (now_normalize clk) body) p w1))
            \<and> notion_stage srv flt (normalizeFormData (full_year clk) (now_normalize clk) body)
                 (snd (fst (upload_stage srv flt
                    (normalizeFormData (full_year clk) (now_normalize clk) body) p w1)))
                 (snd (upload_stage srv flt
                    (normalizeFormData (full_year clk) (now_normalize clk) body) p w1))
               = (res_notion res, snd (processGutachtenSubmission srv clk flt body w))"
  using assms
  by (auto simp add: processGutachtenSubmission_def Let_def split: prod.splits)

lemma example_pipeline_renders:
  "render_fault flt = None \<Longrightarrow>
   \<exists>res. fst (processGutachtenSubmission example_server example_clock flt example_body empty_world)
           = Inr res \<and> res_pdf_filePath res = example_pdf"
  using pipeline_succeeds [of example_clock example_body example_server flt empty_world example_pdf]
  by (auto simp add: example_normalized example_valid example_rendered)

lemma drive_down_render: "render_fault drive_down = None"
  by (simp add: drive_down_def no_faults_def)

text \<open>
  C5, as the source has it. When a submission returns a result, the file that
  \<^verbatim>\<open>generatePDFFile\<close> created in the scratch directory, whose path the result reports,
  is still there, whether the upload succeeded, failed or was skipped; the pipeline
  removes no file.
\<close>

theorem rendered_file_is_kept:
  assumes "fst (processGutachtenSubmission srv clk flt body w) = Inr res"
  shows "res_pdf_filePath res \<in> set (fs_files (snd (processGutachtenSubmission srv clk flt body w)))
       \<and> set (fs_files w) \<subseteq> set (fs_files (snd (processGutachtenSubmission srv clk flt body w)))"
  using assms
    pipeline_keeps_file [of srv clk flt body w res "snd (processGutachtenSubmission srv clk flt body w)"]
  by (metis prod.collapse)

theorem rendered_file_is_kept_witness:
  "(\<exists>res. fst (processGutachtenSubmission example_server example_clock drive_down example_body
               empty_world) = Inr res \<and> res_pdf_filePath res = example_pdf)
   \<and> example_pdf \<in> set (fs_files (snd (processGutachtenSubmission example_server example_clock
                                          drive_down example_body empty_world)))"
proof -
  obtain res where r: "fst (processGutachtenSubmission example_server example_clock drive_down
               example_body empty_world) = Inr res" "res_pdf_filePath res = example_pdf"
    using example_pipeline_renders [OF drive_down_render] by blast
  show ?thesis
    using rendered_file_is_kept [OF r(1)] r by auto
qed

text \<open>
  C5 as stated fails: after the sample submission, with the upload done, the rendered
  file is in the scratch directory.
\<close>

theorem file_removed_counterexample:
  "example_pdf \<notin> set (fs_files empty_world)
   \<and> example_pdf \<in> set (fs_files (snd (processGutachtenSubmission example_server example_clock
                                          no_faults example_body empty_world)))"
proof -
  have n: "render_fault no_faults = None"
    by (simp add: no_faults_def)
  obtain res where r: "fst (processGutachtenSubmission example_server example_clock no_faults
               example_body empty_world) = Inr res" "res_pdf_filePath res = example_pdf"
    using example_pipeline_renders [OF n] by blast
  have "processGutachtenSubmission example_server example_clock no_faults example_body empty_world
          = (Inr res, snd (processGutachtenSubmission example_server example_clock no_faults
                             example_body empty_world))"
    using r(1) by (metis prod.collapse)
  then show ?thesis
    using pipeline_keeps_file r(2) by (fastforce simp add: empty_world_def)
qed

section \<open>A failed look-up of the contact\<close>

lemma upsert_after_failed_lookup:
  "notion_query_fault flt = Some m \<Longrightarrow>
     upsert_customer flt d formData w =
       (case buildKontakteProperties formData of
          Inl e \<Rightarrow> (EntryError (message e),
                     log_call (Notion_query d (formData ''auftraggeber_kennzeichen'')) w)
        | Inr props \<Rightarrow>
            (case notion_pages_create (notion_contact_fault flt) d (Kontakt props)
                    (log_call (Notion_query d (formData ''auftraggeber_kennzeichen'')) w) of
               (Inl e, w2) \<Rightarrow> (EntryError (message e), w2)
             | (Inr i, w2) \<Rightarrow> (Entry i created, w2)))"
  by (simp add: upsert_customer_def find_fails)

lemma upsert_without_contact:
  "notion_query_fault flt = None \<Longrightarrow>
   contacts_with d (formData ''auftraggeber_kennzeichen'') w = [] \<Longrightarrow>
     upsert_customer flt d formData w =
       (case buildKontakteProperties formData of
          Inl e \<Rightarrow> (EntryError (message e),
                     log_call (Notion_query d (formData ''auftraggeber_kennzeichen'')) w)
        | Inr props \<Rightarrow>
            (case notion_pages_create (notion_contact_fault flt) d (Kontakt props)
                    (log_call (Notion_query d (formData ''auftraggeber_kennzeichen'')) w) of
               (Inl e, w2) \<Rightarrow> (EntryError (message e), w2)
             | (Inr i, w2) \<Rightarrow> (Entry i created, w2)))"
  by (simp add: upsert_customer_def findCustomerByKennzeichen_def notion_databases_query_def
        contacts_with_def Let_def)

lemma upsert_lookup_fault:
  assumes "notion_query_fault flt = Some m"
      and "contacts_with d (formData ''auftraggeber_kennzeichen'') w = []"
  shows "upsert_customer flt d formData w
           = upsert_customer (flt\<lparr>notion_query_fault := None\<rparr>) d formData w"
  using upsert_after_failed_lookup [OF assms(1), of d formData w]
    upsert_without_contact [of "flt\<lparr>notion_query_fault := None\<rparr>" d formData w] assms(2)
  by (cases "buildKontakteProperties formData") simp_all

lemma lookup_fault_others:
  "render_fault (flt\<lparr>notion_query_fault := x\<rparr>) = render_fault flt"
  "notion_contact_fault (flt\<lparr>notion_query_fault := x\<rparr>) = notion_contact_fault flt"
  "notion_resource_fault (flt\<lparr>notion_query_fault := x\<rparr>) = notion_resource_fault flt"
  by simp_all

lemma create_resource_lookup_fault:
  "create_resource (flt\<lparr>notion_query_fault := x\<rparr>) = create_resource flt"
  by (intro ext) (unfold create_resource_def lookup_fault_others, rule refl)

lemma processNotionIntegration_lookup_fault:
  assumes "notion_query_fault flt = Some m"
      and "env_set (KONTAKTE_DATABASE_ID srv) \<longrightarrow>
           contacts_with (the (KONTAKTE_DATABASE_ID srv))
             (formData ''auftraggeber_kennzeichen'') w = []"
  shows "processNotionIntegration srv flt formData l w
           = processNotionIntegration srv (flt\<lparr>notion_query_fault := None\<rparr>) formData l w"
  using assms
  by (simp add: processNotionIntegration_def upsert_lookup_fault create_resource_lookup_fault)

lemma generatePDFFile_lookup_fault:
  "generatePDFFile srv clk (flt\<lparr>notion_query_fault := x\<rparr>) = generatePDFFile srv clk flt"
  by (intro ext) (unfold generatePDFFile_def lookup_fault_others, rule refl)

lemma drive_calls_lookup_fault:
  "drive_files_get (flt\<lparr>notion_query_fault := x\<rparr>) = drive_files_get flt"
  "drive_files_list (flt\<lparr>notion_query_fault := x\<rparr>) = drive_files_list flt"
  "drive_create_folder (flt\<lparr>notion_query_fault := x\<rparr>) = drive_create_folder flt"
  "drive_create_file (flt\<lparr>notion_query_fault := x\<rparr>) = drive_create_file flt"
  "drive_permissions_create (flt\<lparr>notion_query_fault := x\<rparr>) = drive_permissions_create flt"
  by (intro ext, simp add: drive_files_get_def drive_files_list_def drive_create_folder_def
        drive_create_file_def drive_permissions_create_def)+

lemma upload_into_lookup_fault:
  "upload_into (flt\<lparr>notion_query_fault := x\<rparr>) = upload_into flt"
  by (intro ext) (unfold upload_into_def drive_calls_lookup_fault, rule refl)

lemma upload_try_lookup_fault:
  "upload_try srv (flt\<lparr>notion_query_fault := x\<rparr>) = upload_try srv flt"
  by (intro ext)
     (unfold upload_try_def drive_calls_lookup_fault upload_into_lookup_fault, rule refl)

lemma upload_stage_lookup_fault:
  "upload_stage srv (flt\<lparr>notion_query_fault := x\<rparr>) = upload_stage srv flt"
  by (intro ext)
     (unfold upload_stage_def uploadToGoogleDrive_def upload_try_lookup_fault, rule refl)

lemma notion_stage_lookup_fault:
  assumes "notion_query_fault flt = Some m"
      and "env_set (KONTAKTE_DATABASE_ID srv) \<longrightarrow>
           contacts_with (the (KONTAKTE_DATABASE_ID srv))
             (formData ''auftraggeber_kennzeichen'') w = []"
  shows "notion_stage srv flt formData l w
           = notion_stage srv (flt\<lparr>notion_query_fault := None\<rparr>) formData l w"
  using processNotionIntegration_lookup_fault [of flt m srv formData w l] assms
  by (simp add: notion_stage_def)

lemma pipeline_lookup_fault:
  assumes "notion_query_fault flt = Some m"
      and "env_set (KONTAKTE_DATABASE_ID srv) \<longrightarrow>
           contacts_with (the (KONTAKTE_DATABASE_ID srv))
             (normalizeFormData (full_year clk) (now_normalize clk) body
                ''auftraggeber_kennzeichen'') w = []"
  shows "processGutachtenSubmission srv clk flt body w
           = processGutachtenSubmission srv clk (flt\<lparr>notion_query_fault := None\<rparr>) body w"
proof -
  let ?fd = "normalizeFormData (full_year clk) (now_normalize clk) body"
  let ?flt = "flt\<lparr>notion_query_fault := None\<rparr>"
  show ?thesis
  proof (cases "validateFormData ?fd")
    case (Inl e)
    then show ?thesis
      by (simp add: processGutachtenSubmission_def)
  next
    case (Inr u)
    obtain g w1 where g: "generatePDFFile srv clk flt ?fd w = (g, w1)"
      by (cases "generatePDFFile srv clk flt ?fd w")
    then have g': "generatePDFFile srv clk ?flt ?fd w = (g, w1)"
      by (simp add: generatePDFFile_lookup_fault)
    show ?thesis
    proof (cases g)
      case (Inl e)
      then show ?thesis
        using Inr g g' by (simp add: processGutachtenSubmission_def)
    next
      case (Inr p)
      obtain gd link w2 where u: "upload_stage srv flt ?fd p w1 = ((gd, link), w2)"
        by (cases "upload_stage srv flt ?fd p w1") auto
      then have u': "upload_stage srv ?flt ?fd p w1 = ((gd, link), w2)"
        by (simp add: upload_stage_lookup_fault)
      have "notion w1 = notion w"
        using generatePDFFile_frame(3) [of srv clk flt ?fd w] g by simp
      moreover have "notion w2 = notion w1"
        using upload_stage_frame [OF u] by (simp add: outside_drive_def)
      ultimately have "contacts_with d k w2 = contacts_with d k w" for d k
        by (simp add: contacts_with_def)
      then have n: "notion_stage srv flt ?fd link w2 = notion_stage srv ?flt ?fd link w2"
        using notion_stage_lookup_fault [of flt m srv ?fd w2 link] assms by simp
      show ?thesis
        using \<open>validateFormData ?fd = Inr u\<close> g g' Inr u u' n
        by (simp add: processGutachtenSubmission_def)
    qed
  qed
qed

lemma check_required_accepts:
  "check_required data fs = Inr () \<Longrightarrow> f \<in> set fs \<Longrightarrow> check_field data f = Accepted"
  by (induction fs) (auto split: field_check.splits)

lemma toString_text: "toString v = Inr s \<Longrightarrow> as_text v = Inr s"
  by (cases v) (auto split: if_splits)

lemma accepted_text:
  "check_field data f = Accepted \<Longrightarrow> \<exists>v s. data f = Some v \<and> truthy v \<and> as_text v = Inr s"
  by (cases "data f")
     (auto simp add: check_field_def toString_text split: if_splits sum.splits)

lemma validated_text:
  assumes "validateFormData data = Inr ()" and "f \<in> set required"
  shows "\<exists>v s. data f = Some v \<and> truthy v \<and> template (data f) = Inr s"
proof -
  have "check_required data required = Inr ()"
    using assms(1) by (cases "check_required data required") (simp_all add: validateFormData_def)
  then have "check_field data f = Accepted"
    using assms(2) by (rule check_required_accepts)
  then show ?thesis
    using accepted_text [of data f] by (auto simp add: template_def)
qed

lemma validated_kontakt:
  assumes "validateFormData data = Inr ()"
  shows "\<exists>s. data ''auftraggeber_kontakt'' = Some (JStr s) \<and> s \<noteq> []"
proof -
  obtain v where v: "data ''auftraggeber_kontakt'' = Some v" "truthy v"
    using validated_text [OF assms, of "''auftraggeber_kontakt''"] by (auto simp add: required_def)
  have c: "check_required data required = Inr ()"
    using assms by (cases "check_required data required") (simp_all add: validateFormData_def)
  show ?thesis
    using assms v c by (cases v) (simp_all add: validateFormData_def)
qed

lemma validated_kontakte_properties:
  "validateFormData data = Inr () \<Longrightarrow> \<exists>props. buildKontakteProperties data = Inr props"
  using validated_kontakt [of data]
  by (auto simp add: buildKontakteProperties_def kontaktParts_def truthy_opt_def Let_def)

lemma upsert_creates_after_failed_lookup:
  assumes "notion_query_fault flt = Some m" and "buildKontakteProperties formData = Inr props"
  shows "fst (upsert_customer flt d formData w) = creation_outcome flt w
       \<and> calls (snd (upsert_customer flt d formData w))
           = calls w @ [Notion_query d (formData ''auftraggeber_kennzeichen''),
                        Notion_pages_create d (Kontakt props)]
       \<and> (notion_contact_fault flt = None \<longrightarrow>
            pages (notion (snd (upsert_customer flt d formData w)))
              = pages (notion w) @ [created_page d props w])"
  using upsert_after_failed_lookup [OF assms(1), of d formData w] assms(2)
  by (cases "notion_contact_fault flt")
     (simp_all add: notion_pages_create_def Let_def creation_outcome_def created_page_def)

lemma create_resource_grows:
  "create_resource flt d formData l c w = (r, w') \<Longrightarrow>
     set (calls w) \<subseteq> set (calls w') \<and> set (pages (notion w)) \<subseteq> set (pages (notion w'))"
  by (auto simp add: create_resource_def notion_pages_create_def Let_def log_call_def
        split: option.splits sum.splits)

lemma record_keeping_after_failed_lookup:
  assumes "notion_query_fault flt = Some m" and "buildKontakteProperties formData = Inr props"
      and "env_set (KONTAKTE_DATABASE_ID srv)" and "db = the (KONTAKTE_DATABASE_ID srv)"
  shows "\<exists>x. fst (processNotionIntegration srv flt formData l w) = Inr x
           \<and> customer x = Some (creation_outcome flt w)
           \<and> Notion_pages_create db (Kontakt props)
               \<in> set (calls (snd (processNotionIntegration srv flt formData l w)))
           \<and> (notion_contact_fault flt = None \<longrightarrow>
                created_page db props w
                  \<in> set (pages (notion (snd (processNotionIntegration srv flt formData l w)))))"
proof -
  obtain r w' where p: "processNotionIntegration srv flt formData l w = (r, w')"
    by (cases "processNotionIntegration srv flt formData l w")
  obtain c w1 x where s: "upsert_customer flt db formData w = (c, w1)"
      "r = Inr x" "customer x = Some c"
      "env_set (BUSINESS_RESOURCES_DATABASE_ID srv) \<longrightarrow>
                 (\<exists>b. create_resource flt (the (BUSINESS_RESOURCES_DATABASE_ID srv)) formData l
                        (outcome_id (Some c)) w1 = (b, w'))"
      "\<not> env_set (BUSINESS_RESOURCES_DATABASE_ID srv) \<longrightarrow> w' = w1"
    using processNotionIntegration_steps [OF assms(3) p] assms(4) by blast
  note u = upsert_creates_after_failed_lookup [OF assms(1,2), of db w]
  have c: "c = creation_outcome flt w"
    and k: "Notion_pages_create db (Kontakt props) \<in> set (calls w1)"
    and g: "notion_contact_fault flt = None \<longrightarrow> created_page db props w \<in> set (pages (notion w1))"
    using u s(1) by simp_all
  have "set (calls w1) \<subseteq> set (calls w') \<and> set (pages (notion w1)) \<subseteq> set (pages (notion w'))"
  proof (cases "env_set (BUSINESS_RESOURCES_DATABASE_ID srv)")
    case True
    then obtain b where "create_resource flt (the (BUSINESS_RESOURCES_DATABASE_ID srv)) formData l
                        (outcome_id (Some c)) w1 = (b, w')"
      using s(4) by blast
    then show ?thesis
      by (rule create_resource_grows)
  next
    case False
    then show ?thesis
      using s(5) by simp
  qed
  then show ?thesis
    using p s(2,3) c k g by auto
qed

lemma pipeline_stages:
  assumes "formData = normalizeFormData (full_year clk) (now_normalize clk) body"
      and "validateFormData formData = Inr ()"
      and "generatePDFFile srv clk flt formData w = (Inr p, w1)"
      and "upload_stage srv flt formData p w1 = ((gd, link), w2)"
      and "notion_stage srv flt formData link w2 = (nr, w3)"
  shows "processGutachtenSubmission srv clk flt body w =
           (Inr \<lparr>res_timestamp = iso_timestamp clk,
                 res_gutachten_nr = formData ''gutachten_nr'',
                 res_pdf_filePath = p,
                 res_googleDrive = gd,
                 res_notion = nr\<rparr>, w3)"
  using assms by (simp add: processGutachtenSubmission_def)

lemma submission_after_failed_lookup:
  assumes "notion_query_fault flt = Some m"
      and "formData = normalizeFormData (full_year clk) (now_normalize clk) body"
      and "validateFormData formData = Inr ()"
      and "generatePDFFile srv clk flt formData w = (Inr p, w1)"
      and "notion_client srv"
      and "env_set (KONTAKTE_DATABASE_ID srv)" and "db = the (KONTAKTE_DATABASE_ID srv)"
  shows "\<exists>res x props. fst (processGutachtenSubmission srv clk flt body w) = Inr res
           \<and> res_notion res = Done x
           \<and> buildKontakteProperties formData = Inr props
           \<and> customer x = Some (creation_outcome flt w)
           \<and> Notion_pages_create db (Kontakt props)
               \<in> set (calls (snd (processGutachtenSubmission srv clk flt body w)))
           \<and> (notion_contact_fault flt = None \<longrightarrow>
                created_page db props w
                  \<in> set (pages (notion (snd (processGutachtenSubmission srv clk flt body w)))))"
proof -
  obtain props where b: "buildKontakteProperties formData = Inr props"
    using validated_kontakte_properties [OF assms(3)] by blast
  obtain gd link w2 where u: "upload_stage srv flt formData p w1 = ((gd, link), w2)"
    by (cases "upload_stage srv flt formData p w1") auto
  have "notion w1 = notion w"
    using generatePDFFile_frame(3) [of srv clk flt formData w] assms(4) by simp
  moreover have "notion w2 = notion w1"
    using upload_stage_frame [OF u] by (simp add: outside_drive_def)
  ultimately have o: "creation_outcome flt w2 = creation_outcome flt w"
    "created_page db props w2 = created_page db props w"
    by (simp_all add: creation_outcome_def created_page_def split: option.splits)
  obtain r w3 where n: "processNotionIntegration srv flt formData link w2 = (r, w3)"
    by (cases "processNotionIntegration srv flt formData link w2")
  obtain x where x: "r = Inr x"
      "customer x = Some (creation_outcome flt w)"
      "Notion_pages_create db (Kontakt props) \<in> set (calls w3)"
      "notion_contact_fault flt = None \<longrightarrow> created_page db props w \<in> set (pages (notion w3))"
    using record_keeping_after_failed_lookup [OF assms(1) b assms(6,7), of link w2] n o
    by auto
  have s: "notion_stage srv flt formData link w2 = (Done x, w3)"
    using n x(1) assms(5) by (simp add: notion_stage_def)
  have "processGutachtenSubmission srv clk flt body w =
           (Inr \<lparr>res_timestamp = iso_timestamp clk,
                 res_gutachten_nr = formData ''gutachten_nr'',
                 res_pdf_filePath = p,
                 res_googleDrive = gd,
                 res_notion = Done x\<rparr>, w3)"
    using assms(2,3,4) u s by (rule pipeline_stages)
  then show ?thesis
    using b x(2,3,4) by simp
qed

lemma empty_world_notion: "notion_next (notion empty_world) = 0"
  by (simp add: empty_world_def)


lemma creation_outcome_sample: "creation_outcome lookup_broken empty_world = Entry ''id0'' created"
  by (simp add: creation_outcome_def lookup_broken_faults empty_world_notion fresh_ids)

lemma example_notion_client: "notion_client example_server"
  by (simp add: example_server_def)

text \<open>
  C10. When the query for the contact fails, \<^verbatim>\<open>findCustomerByKennzeichen\<close> answers \<^verbatim>\<open>null\<close>,
  as it does when no contact exists, and the customer step goes on to create a contact:
  its outcome is that of the creation, and the error of the query appears nowhere. So
  record keeping, with the contact database configured and the properties of the contact
  built, calls the creation of a contact and reports its outcome as the customer: the
  new entry, which is then among the pages, or the error of the creation. A submission
  that is valid and rendered does so in its record keeping stage, which is reported as
  done. When no contact of the plate exists, the whole submission gives the same result
  and the same world with the failing query as with a query that succeeds.
\<close>

theorem failed_lookup_is_no_contact:
  assumes "notion_query_fault flt = Some m"
  shows "findCustomerByKennzeichen flt d k w = (None, log_call (Notion_query d k) w)
       \<and> upsert_customer flt d formData w =
           (case buildKontakteProperties formData of
              Inl e \<Rightarrow> (EntryError (message e),
                         log_call (Notion_query d (formData ''auftraggeber_kennzeichen'')) w)
            | Inr props \<Rightarrow>
                (case notion_pages_create (notion_contact_fault flt) d (Kontakt props)
                        (log_call (Notion_query d (formData ''auftraggeber_kennzeichen'')) w) of
                   (Inl e, w2) \<Rightarrow> (EntryError (message e), w2)
                 | (Inr i, w2) \<Rightarrow> (Entry i created, w2)))
       \<and> (env_set (KONTAKTE_DATABASE_ID srv) \<and> buildKontakteProperties formData = Inr props \<longrightarrow>
            (\<exists>x. fst (processNotionIntegration srv flt formData l w) = Inr x
               \<and> customer x = Some (creation_outcome flt w)
               \<and> Notion_pages_create (the (KONTAKTE_DATABASE_ID srv)) (Kontakt props)
                   \<in> set (calls (snd (processNotionIntegration srv flt formData l w)))
               \<and> (notion_contact_fault flt = None \<longrightarrow>
                    created_page (the (KONTAKTE_DATABASE_ID srv)) props w
                      \<in> set (pages (notion (snd (processNotionIntegration srv flt formData l w)))))))
       \<and> (validateFormData (normalizeFormData (full_year clk) (now_normalize clk) body) = Inr ()
          \<and> fst (generatePDFFile srv clk flt
                   (normalizeFormData (full_year clk) (now_normalize clk) body) w) = Inr p
          \<and> notion_client srv \<and> env_set (KONTAKTE_DATABASE_ID srv) \<longrightarrow>
            (\<exists>res x made.
                fst (processGutachtenSubmission srv clk flt body w) = Inr res
              \<and> res_notion res = Done x
              \<and> buildKontakteProperties
                    (normalizeFormData (full_year clk) (now_normalize clk) body) = Inr made
              \<and> customer x = Some (creation_outcome flt w)
              \<and> Notion_pages_create (the (KONTAKTE_DATABASE_ID srv)) (Kontakt made)
                  \<in> set (calls (snd (processGutachtenSubmission srv clk flt body w)))
              \<and> (notion_contact_fault flt = None \<longrightarrow>
                   created_page (the (KONTAKTE_DATABASE_ID srv)) made w
                     \<in> set (pages (notion (snd (processGutachtenSubmission srv clk flt body w)))))))
       \<and> ((env_set (KONTAKTE_DATABASE_ID srv) \<longrightarrow>
             contacts_with (the (KONTAKTE_DATABASE_ID srv))
               (normalizeFormData (full_year clk) (now_normalize clk) body
                  ''auftraggeber_kennzeichen'') w = []) \<longrightarrow>
           processGutachtenSubmission srv clk flt body w
             = processGutachtenSubmission srv clk (flt\<lparr>notion_query_fault := None\<rparr>) body w)"
proof -
  let ?fd = "normalizeFormData (full_year clk) (now_normalize clk) body"
  have c3: "\<exists>x. fst (processNotionIntegration srv flt formData l w) = Inr x
               \<and> customer x = Some (creation_outcome flt w)
               \<and> Notion_pages_create (the (KONTAKTE_DATABASE_ID srv)) (Kontakt props)
                   \<in> set (calls (snd (processNotionIntegration srv flt formData l w)))
               \<and> (notion_contact_fault flt = None \<longrightarrow>
                    created_page (the (KONTAKTE_DATABASE_ID srv)) props w
                      \<in> set (pages (notion (snd (processNotionIntegration srv flt formData l w)))))"
    if "env_set (KONTAKTE_DATABASE_ID srv)" "buildKontakteProperties formData = Inr props"
    using record_keeping_after_failed_lookup [OF assms that(2,1) refl] .
  have c4: "\<exists>res x made.
                fst (processGutachtenSubmission srv clk flt body w) = Inr res
              \<and> res_notion res = Done x
              \<and> buildKontakteProperties ?fd = Inr made
              \<and> customer x = Some (creation_outcome flt w)
              \<and> Notion_pages_create (the (KONTAKTE_DATABASE_ID srv)) (Kontakt made)
                  \<in> set (calls (snd (processGutachtenSubmission srv clk flt body w)))
              \<and> (notion_contact_fault flt = None \<longrightarrow>
                   created_page (the (KONTAKTE_DATABASE_ID srv)) made w
                     \<in> set (pages (notion (snd (processGutachtenSubmission srv clk flt body w)))))"
    if v: "validateFormData ?fd = Inr ()" and g: "fst (generatePDFFile srv clk flt ?fd w) = Inr p"
      and n: "notion_client srv" and e: "env_set (KONTAKTE_DATABASE_ID srv)"
  proof -
    obtain w1 where "generatePDFFile srv clk flt ?fd w = (Inr p, w1)"
      using g by (cases "generatePDFFile srv clk flt ?fd w") auto
    then show ?thesis
      using submission_after_failed_lookup [OF assms refl v _ n e refl] by blast
  qed
  show ?thesis
    using find_fails [OF assms] upsert_after_failed_lookup [OF assms]
      pipeline_lookup_fault [OF assms] c3 c4
    by blast
qed

theorem failed_lookup_is_no_contact_witness:
  "notion_query_fault lookup_broken = Some ''502 Bad Gateway''
   \<and> fst (findCustomerByKennzeichen lookup_broken ''kontakte'' (Some (JStr ''BI-XX 123''))
            empty_world) = None
   \<and> env_set (KONTAKTE_DATABASE_ID example_server) \<and> notion_client example_server
   \<and> buildKontakteProperties example_form = Inr example_kontakt
   \<and> (\<exists>x. fst (processNotionIntegration example_server lookup_broken example_form None
                  empty_world) = Inr x
         \<and> customer x = Some (Entry ''id0'' created))
   \<and> validateFormData (normalizeFormData (full_year example_clock) (now_normalize example_clock)
        example_body) = Inr ()
   \<and> fst (generatePDFFile example_server example_clock lookup_broken
            (normalizeFormData (full_year example_clock) (now_normalize example_clock) example_body)
            empty_world) = Inr example_pdf
   \<and> (\<exists>res x. fst (processGutachtenSubmission example_server example_clock lookup_broken
                      example_body empty_world) = Inr res
         \<and> res_notion res = Done x \<and> customer x = Some (Entry ''id0'' created))
   \<and> created_page ''kontakte'' example_kontakt empty_world
        \<in> set (pages (notion (snd (processGutachtenSubmission example_server example_clock
                                      lookup_broken example_body empty_world))))
   \<and> contacts_with (the (KONTAKTE_DATABASE_ID example_server))
        (normalizeFormData (full_year example_clock) (now_normalize example_clock)
           example_body ''auftraggeber_kennzeichen'') empty_world = []
   \<and> processGutachtenSubmission example_server example_clock lookup_broken example_body empty_world
        = processGutachtenSubmission example_server example_clock
            (lookup_broken\<lparr>notion_query_fault := None\<rparr>) example_body empty_world"
proof -
  note t = failed_lookup_is_no_contact [OF lookup_broken_faults(1),
             of "''kontakte''" "Some (JStr ''BI-XX 123'')" empty_world example_form example_server
                example_kontakt None example_clock example_body example_pdf]
  have v: "validateFormData (normalizeFormData (full_year example_clock)
             (now_normalize example_clock) example_body) = Inr ()"
    by (simp add: example_normalized example_valid)
  have g: "fst (generatePDFFile example_server example_clock lookup_broken
            (normalizeFormData (full_year example_clock) (now_normalize example_clock) example_body)
            empty_world) = Inr example_pdf"
    by (simp add: example_normalized example_rendered lookup_broken_faults)
  have c: "contacts_with d k empty_world = []" for d k
    by (simp add: contacts_with_def empty_world_def)
  have a: "fst (findCustomerByKennzeichen lookup_broken ''kontakte'' (Some (JStr ''BI-XX 123''))
            empty_world) = None"
    using t by simp
  have b: "\<exists>x. fst (processNotionIntegration example_server lookup_broken example_form None
                  empty_world) = Inr x
         \<and> customer x = Some (Entry ''id0'' created)"
    using t example_kontakte example_kontakt_built by (auto simp add: creation_outcome_sample)
  have "\<exists>res x made.
          fst (processGutachtenSubmission example_server example_clock lookup_broken example_body
                 empty_world) = Inr res
        \<and> res_notion res = Done x
        \<and> buildKontakteProperties (normalizeFormData (full_year example_clock)
              (now_normalize example_clock) example_body) = Inr made
        \<and> customer x = Some (creation_outcome lookup_broken empty_world)
        \<and> Notion_pages_create (the (KONTAKTE_DATABASE_ID example_server)) (Kontakt made)
            \<in> set (calls (snd (processGutachtenSubmission example_server example_clock
                                  lookup_broken example_body empty_world)))
        \<and> (notion_contact_fault lookup_broken = None \<longrightarrow>
             created_page (the (KONTAKTE_DATABASE_ID example_server)) made empty_world
               \<in> set (pages (notion (snd (processGutachtenSubmission example_server example_clock
                                             lookup_broken example_body empty_world)))))"
    using t v g example_kontakte(1) example_notion_client by blast
  then obtain res x made where r:
      "fst (processGutachtenSubmission example_server example_clock lookup_broken example_body
                 empty_world) = Inr res"
      "res_notion res = Done x"
      "buildKontakteProperties (normalizeFormData (full_year example_clock)
              (now_normalize example_clock) example_body) = Inr made"
      "customer x = Some (creation_outcome lookup_broken empty_world)"
      "notion_contact_fault lookup_broken = None \<longrightarrow>
             created_page (the (KONTAKTE_DATABASE_ID example_server)) made empty_world
               \<in> set (pages (notion (snd (processGutachtenSubmission example_server example_clock
                                             lookup_broken example_body empty_world))))"
    by auto
  have m: "made = example_kontakt"
    using r(3) by (simp add: example_normalized example_kontakt_built)
  have d: "\<exists>res x. fst (processGutachtenSubmission example_server example_clock lookup_broken
                      example_body empty_world) = Inr res
         \<and> res_notion res = Done x \<and> customer x = Some (Entry ''id0'' created)"
    using r(1,2,4) by (auto simp add: creation_outcome_sample)
  have d': "created_page ''kontakte'' example_kontakt empty_world
        \<in> set (pages (notion (snd (processGutachtenSubmission example_server example_clock
                                      lookup_broken example_body empty_world))))"
    using r(5) m by (simp add: lookup_broken_faults example_kontakte)
  have e: "processGutachtenSubmission example_server example_clock lookup_broken example_body
             empty_world
           = processGutachtenSubmission example_server example_clock
               (lookup_broken\<lparr>notion_query_fault := None\<rparr>) example_body empty_world"
    using t by (simp add: c)
  show ?thesis
    using a b d d' e v g c lookup_broken_faults(1) example_kontakte example_notion_client
      example_kontakt_built
    by simp
qed

section \<open>A failed upload is not fatal\<close>

lemma upload_stage_no_link:
  assumes "\<not> drive_client srv \<or> (\<exists>e. fst (uploadToGoogleDrive srv flt formData p w) = Inl e)"
  shows "\<exists>reason. (fst (fst (upload_stage srv flt formData p w)) = Skipped reason
                    \<or> fst (fst (upload_stage srv flt formData p w)) = Failed reason)
                 \<and> snd (fst (upload_stage srv flt formData p w)) = None"
  using assms
  by (auto simp add: upload_stage_def split: prod.splits sum.splits)

lemma notion_pages_create_calls:
  "notion_pages_create f d props w = (r, w') \<Longrightarrow> calls w' = calls w @ [Notion_pages_create d props]"
  by (auto simp add: notion_pages_create_def log_call_def Let_def split: option.splits)

lemma notion_pages_create_pages:
  "notion_pages_create f d props w = (r, w') \<Longrightarrow> pg \<in> set (pages (notion w')) \<Longrightarrow>
     pg \<in> set (pages (notion w)) \<or> page_properties pg = props"
  by (auto simp add: notion_pages_create_def log_call_def Let_def split: option.splits)

lemma notion_databases_query_pages:
  "notion_databases_query flt d k w = (r, w') \<Longrightarrow> notion w' = notion w"
  by (auto simp add: notion_databases_query_def log_call_def Let_def split: option.splits)

lemma upsert_customer_pages:
  "upsert_customer flt d formData w = (r, w') \<Longrightarrow> pg \<in> set (pages (notion w')) \<Longrightarrow>
     pg \<in> set (pages (notion w)) \<or> (\<exists>k. page_properties pg = Kontakt k)"
  unfolding upsert_customer_def findCustomerByKennzeichen_def
  by (auto split: prod.splits sum.splits option.splits list.splits
        dest!: notion_databases_query_pages dest: notion_pages_create_pages)

lemma create_resource_calls:
  "create_resource flt d formData l c w = (r, w') \<Longrightarrow>
   buildGutachtenResourceProperties formData l c = Inr props \<Longrightarrow>
     calls w' = calls w @ [Notion_pages_create d (Resource props)]"
  unfolding create_resource_def
  by (auto split: prod.splits sum.splits dest!: notion_pages_create_calls)

lemma create_resource_pages:
  "create_resource flt d formData l c w = (r, w') \<Longrightarrow> pg \<in> set (pages (notion w')) \<Longrightarrow>
     pg \<in> set (pages (notion w))
     \<or> (\<exists>props. buildGutachtenResourceProperties formData l c = Inr props
           \<and> page_properties pg = Resource props)"
  unfolding create_resource_def
  by (auto split: prod.splits sum.splits dest: notion_pages_create_pages)

lemma no_link_no_Link:
  "buildGutachtenResourceProperties formData None c = Inr props \<Longrightarrow> r_Link props = None"
  by (auto simp add: buildGutachtenResourceProperties_def truthy_string_def attempt_def
        split: sum.splits)

lemma validated_resource:
  assumes "validateFormData formData = Inr ()"
  shows "\<exists>props. buildGutachtenResourceProperties formData l c = Inr props"
proof -
  obtain k n g where "template (formData ''auftraggeber_kennzeichen'') = Inr k"
      "template (formData ''auftraggeber_name'') = Inr n"
      "template (formData ''gutachten_nr'') = Inr g"
    using validated_text [OF assms, of "''auftraggeber_kennzeichen''"]
      validated_text [OF assms, of "''auftraggeber_name''"]
      validated_text [OF assms, of "''gutachten_nr''"]
    by (auto simp add: required_def)
  then show ?thesis
    by (simp add: buildGutachtenResourceProperties_def resource_name_def attempt_def)
qed

lemma processNotionIntegration_pages:
  assumes "processNotionIntegration srv flt formData None w = (r, w')"
      and "pg \<in> set (pages (notion w'))" and "pg \<notin> set (pages (notion w))"
      and "page_properties pg = Resource props"
  shows "r_Link props = None"
  using assms unfolding processNotionIntegration_def Let_def
  by (auto split: prod.splits if_splits
        dest!: upsert_customer_pages create_resource_pages simp add: no_link_no_Link)

lemma processNotionIntegration_attempt:
  assumes "processNotionIntegration srv flt formData l w = (r, w')"
      and "env_set (BUSINESS_RESOURCES_DATABASE_ID srv)"
      and "validateFormData formData = Inr ()"
  shows "\<exists>c props. buildGutachtenResourceProperties formData l c = Inr props
           \<and> last (calls w') =
               Notion_pages_create (the (BUSINESS_RESOURCES_DATABASE_ID srv)) (Resource props)"
proof -
  obtain c w1 b where s:
      "create_resource flt (the (BUSINESS_RESOURCES_DATABASE_ID srv)) formData l c w1 = (b, w')"
    using assms(1,2) unfolding processNotionIntegration_def Let_def
    by (auto split: prod.splits if_splits)
  obtain props where p: "buildGutachtenResourceProperties formData l c = Inr props"
    using validated_resource [OF assms(3)] by blast
  show ?thesis
    using create_resource_calls [OF s p] p by auto
qed

lemma notion_stage_pages:
  assumes "notion_stage srv flt formData None w = (r, w')"
      and "pg \<in> set (pages (notion w'))" and "pg \<notin> set (pages (notion w))"
      and "page_properties pg = Resource props"
  shows "r_Link props = None"
proof (cases "notion_client srv")
  case True
  obtain r0 where "processNotionIntegration srv flt formData None w = (r0, w')"
    using assms(1) True
    by (cases "processNotionIntegration srv flt formData None w")
       (auto simp add: notion_stage_def split: sum.splits)
  then show ?thesis
    using assms(2,3,4) by (rule processNotionIntegration_pages)
next
  case False
  then show ?thesis
    using assms by (simp add: notion_stage_def)
qed

lemma notion_stage_attempt:
  assumes "notion_stage srv flt formData l w = (r, w')"
      and "notion_client srv" and "env_set (BUSINESS_RESOURCES_DATABASE_ID srv)"
      and "validateFormData formData = Inr ()"
  shows "\<exists>c props. buildGutachtenResourceProperties formData l c = Inr props
           \<and> last (calls w') =
               Notion_pages_create (the (BUSINESS_RESOURCES_DATABASE_ID srv)) (Resource props)"
proof -
  obtain r0 where "processNotionIntegration srv flt formData l w = (r0, w')"
    using assms(1,2)
    by (cases "processNotionIntegration srv flt formData l w")
       (auto simp add: notion_stage_def split: sum.splits)
  then show ?thesis
    using assms(3,4) by (rule processNotionIntegration_attempt)
qed

lemma drive_down_upload:
  "uploadToGoogleDrive example_server drive_down example_form p w =
     (Inl (Error ''Google Drive Upload fehlgeschlagen: ECONNREFUSED''),
      log_call (Drive_files_get ''root'') w)"
  by (simp add: uploadToGoogleDrive_def upload_try_def env_set_def example_server_def
        drive_files_get_def drive_down_def no_faults_def Let_def upload_fileName_def
        template_def attempt_def example_form_def)

lemma drive_down_faults: "contact_ok drive_down" "notion_resource_fault drive_down = None"
  by (simp_all add: drive_down_def no_faults_def contact_ok_def)

lemma example_upsert:
  assumes "pages (notion w) = []" and "notion_next (notion w) = 0" and "contact_ok flt"
  shows "upsert_customer flt ''kontakte'' example_form w =
           (Entry ''id0'' created,
            (log_call (Notion_pages_create ''kontakte'' (Kontakt example_kontakt))
               (log_call (Notion_query ''kontakte'' (Some (JStr ''BI-XX 123''))) w))
              \<lparr>notion := (notion w)\<lparr>pages := [\<lparr>page_id = ''id0'', page_parent = ''kontakte'',
                                               page_properties = Kontakt example_kontakt\<rparr>],
                                    notion_next := Suc 0\<rparr>\<rparr>)"
proof -
  have c: "contacts_of ''kontakte'' ''BI-XX 123'' w = []"
    using assms(1) by (simp add: contacts_of_def)
  have q: "notion_query_fault flt = None" and f: "notion_contact_fault flt = None"
    using assms(3) by (simp_all add: contact_ok_def)
  show ?thesis
    using assms(1,2) c
    by (simp add: upsert_customer_def example_plate find_nothing [OF q] example_kontakt_built f
          notion_pages_create_ok fresh_ids)
qed

lemma example_record_keeping:
  assumes "pages (notion w) = []" and "notion_next (notion w) = 0" and "contact_ok flt"
      and "notion_resource_fault flt = None"
  shows "pages (notion (snd (notion_stage example_server flt example_form None w))) =
           [\<lparr>page_id = ''id0'', page_parent = ''kontakte'',
             page_properties = Kontakt example_kontakt\<rparr>,
            \<lparr>page_id = ''id1'', page_parent = ''resources'',
             page_properties = Resource (example_resource None (Some ''id0''))\<rparr>]"
proof -
  have s: "notion_client example_server" "env_set (KONTAKTE_DATABASE_ID example_server)"
      "the (KONTAKTE_DATABASE_ID example_server) = ''kontakte''"
      "env_set (BUSINESS_RESOURCES_DATABASE_ID example_server)"
      "the (BUSINESS_RESOURCES_DATABASE_ID example_server) = ''resources''"
    by (simp_all add: example_server_def env_set_def)
  show ?thesis
    using s assms(4)
    by (simp add: notion_stage_def processNotionIntegration_def
          example_upsert [OF assms(1,2,3)] create_resource_def outcome_id_def
          example_resource_built truthy_string_def notion_pages_create_ok fresh_ids)
qed

text \<open>
  C2. The normalised record is valid and rendering succeeds; the storage client is
  missing, or the upload raises. Then the submission returns a result (overall success);
  the result records the upload as skipped or failed; record keeping runs as it always
  does, with no link; when the record keeper and the order database are configured, the
  last call made is the creation of the order entry, whose properties have no \<^verbatim>\<open>Link\<close>;
  and no order entry added by this submission has a \<^verbatim>\<open>Link\<close>.
\<close>

theorem upload_failure_is_not_fatal:
  assumes "formData = normalizeFormData (full_year clk) (now_normalize clk) body"
      and "validateFormData formData = Inr ()"
      and "generatePDFFile srv clk flt formData w = (Inr p, w1)"
      and "\<not> drive_client srv \<or> (\<exists>e. fst (uploadToGoogleDrive srv flt formData p w1) = Inl e)"
  shows "\<exists>res reason.
           fst (processGutachtenSubmission srv clk flt body w) = Inr res
         \<and> (res_googleDrive res = Skipped reason \<or> res_googleDrive res = Failed reason)
         \<and> notion_stage srv flt formData None (snd (upload_stage srv flt formData p w1))
             = (res_notion res, snd (processGutachtenSubmission srv clk flt body w))
         \<and> (notion_client srv \<and> env_set (BUSINESS_RESOURCES_DATABASE_ID srv) \<longrightarrow>
              (\<exists>c props.
                   buildGutachtenResourceProperties formData None c = Inr props
                 \<and> last (calls (snd (processGutachtenSubmission srv clk flt body w)))
                      = Notion_pages_create (the (BUSINESS_RESOURCES_DATABASE_ID srv))
                          (Resource props)
                 \<and> r_Link props = None))
         \<and> (\<forall>pg props.
               pg \<in> set (pages (notion (snd (processGutachtenSubmission srv clk flt body w))))
               \<and> pg \<notin> set (pages (notion w)) \<and> page_properties pg = Resource props
               \<longrightarrow> r_Link props = None)"
proof -
  let ?u = "upload_stage srv flt formData p w1"
  let ?P = "processGutachtenSubmission srv clk flt body w"
  obtain reason where u: "fst (fst ?u) = Skipped reason \<or> fst (fst ?u) = Failed reason"
      "snd (fst ?u) = None"
    using upload_stage_no_link [OF assms(4)] by blast
  obtain res where r: "fst ?P = Inr res" "res_googleDrive res = fst (fst ?u)"
      "notion_stage srv flt formData (snd (fst ?u)) (snd ?u) = (res_notion res, snd ?P)"
    using pipeline_succeeds [of clk body srv flt w p w1] assms(1,2,3) by auto
  have n: "notion_stage srv flt formData None (snd ?u) = (res_notion res, snd ?P)"
    using r(3) u(2) by simp
  have "notion (snd ?u) = notion w1"
    using upload_stage_frame [of srv flt formData p w1 "fst ?u" "snd ?u"]
    by (simp add: outside_drive_def)
  moreover have "notion w1 = notion w"
    using generatePDFFile_frame(3) [of srv clk flt formData w] assms(3) by simp
  ultimately have same: "pages (notion (snd ?u)) = pages (notion w)"
    by simp
  have a: "notion_client srv \<and> env_set (BUSINESS_RESOURCES_DATABASE_ID srv) \<longrightarrow>
              (\<exists>c props.
                   buildGutachtenResourceProperties formData None c = Inr props
                 \<and> last (calls (snd ?P))
                      = Notion_pages_create (the (BUSINESS_RESOURCES_DATABASE_ID srv))
                          (Resource props)
                 \<and> r_Link props = None)"
    using notion_stage_attempt [OF n _ _ assms(2)] no_link_no_Link by blast
  have b: "\<forall>pg props. pg \<in> set (pages (notion (snd ?P)))
               \<and> pg \<notin> set (pages (notion w)) \<and> page_properties pg = Resource props
               \<longrightarrow> r_Link props = None"
    using notion_stage_pages [OF n] same by auto
  show ?thesis
    using r(1,2) u(1) n a b by auto
qed

theorem upload_failure_is_not_fatal_witness:
  "validateFormData example_form = Inr ()
   \<and> drive_client example_server
   \<and> (\<exists>e. fst (uploadToGoogleDrive example_server drive_down example_form example_pdf
               (empty_world\<lparr>fs_dirs := [''/app'', ''/app/temp''], fs_files := [example_pdf]\<rparr>))
             = Inl e)
   \<and> notion_client example_server \<and> env_set (BUSINESS_RESOURCES_DATABASE_ID example_server)
   \<and> (\<exists>res reason.
         fst (processGutachtenSubmission example_server example_clock drive_down example_body
                empty_world) = Inr res
       \<and> (res_googleDrive res = Skipped reason \<or> res_googleDrive res = Failed reason))
   \<and> pages (notion (snd (processGutachtenSubmission example_server example_clock drive_down
                            example_body empty_world))) =
           [\<lparr>page_id = ''id0'', page_parent = ''kontakte'',
             page_properties = Kontakt example_kontakt\<rparr>,
            \<lparr>page_id = ''id1'', page_parent = ''resources'',
             page_properties = Resource (example_resource None (Some ''id0''))\<rparr>]
   \<and> r_Link (example_resource None (Some ''id0'')) = None"
proof -
  let ?w1 = "empty_world\<lparr>fs_dirs := [''/app'', ''/app/temp''], fs_files := [example_pdf]\<rparr>"
  let ?u = "upload_stage example_server drive_down example_form example_pdf ?w1"
  let ?P = "processGutachtenSubmission example_server example_clock drive_down example_body
              empty_world"
  have f: "\<exists>e. fst (uploadToGoogleDrive example_server drive_down example_form example_pdf ?w1) = Inl e"
    by (simp add: drive_down_upload)
  then have h4: "\<not> drive_client example_server
       \<or> (\<exists>e. fst (uploadToGoogleDrive example_server drive_down example_form example_pdf ?w1) = Inl e)"
    by simp
  note t = upload_failure_is_not_fatal [OF example_normalized [symmetric] example_valid
             example_rendered [OF drive_down_render] h4]
  have s: "drive_client example_server" "notion_client example_server"
      "env_set (BUSINESS_RESOURCES_DATABASE_ID example_server)"
    by (simp_all add: example_server_def env_set_def)
  have n: "pages (notion (snd ?u)) = []" "notion_next (notion (snd ?u)) = 0"
    using upload_stage_frame [of example_server drive_down example_form example_pdf ?w1
            "fst ?u" "snd ?u"]
    by (simp_all add: outside_drive_def empty_world_def)
  have "snd ?P = snd (notion_stage example_server drive_down example_form None (snd ?u))"
    using t by (metis snd_conv)
  then have p: "pages (notion (snd ?P)) =
           [\<lparr>page_id = ''id0'', page_parent = ''kontakte'',
             page_properties = Kontakt example_kontakt\<rparr>,
            \<lparr>page_id = ''id1'', page_parent = ''resources'',
             page_properties = Resource (example_resource None (Some ''id0''))\<rparr>]"
    using example_record_keeping [OF n drive_down_faults] by simp
  have l: "r_Link (example_resource None (Some ''id0'')) = None"
    by (simp add: example_resource_def)
  show ?thesis
    using t example_valid s f p l by blast
qed

end
